theory Spec2Isabelle
  imports Main "HOL-Library.Word" "HOL-Library.Sublist"
begin

unbundle bit_operations_syntax

section \<open>Status codes\<close>

text \<open>
  The entry points return \<open>0\<close> on success and a negated errno value on failure.
  The values are those of the Linux \<open>errno.h\<close> the sources include.
\<close>

definition ENOENT :: int where "ENOENT = 2"
definition EAGAIN :: int where "EAGAIN = 11"
definition ENOMEM :: int where "ENOMEM = 12"
definition ENODEV :: int where "ENODEV = 19"
definition EINVAL :: int where "EINVAL = 22"

section \<open>The resource graph (drmresources.cpp)\<close>

text \<open>
  \<open>DrmResources\<close> owns vectors of heap objects (\<open>crtcs_\<close>, \<open>encoders_\<close>,
  \<open>connectors_\<close>, \<open>planes_\<close>) and the objects point at each other with raw pointers. A pointer
  is modelled by the position of its target in the owning vector; \<open>NULL\<close> is \<open>None\<close>.
  Object ids are \<open>uint32_t\<close> values that are only compared, never computed with.
\<close>

type_synonym crtc_ptr = nat
type_synonym encoder_ptr = nat
type_synonym connector_ptr = nat
type_synonym plane_ptr = nat

datatype drmModeConnection =
  DRM_MODE_CONNECTED | DRM_MODE_DISCONNECTED | DRM_MODE_UNKNOWNCONNECTION

definition DRM_MODE_TYPE_PREFERRED :: "32 word" where "DRM_MODE_TYPE_PREFERRED = 8"
definition DRM_PLANE_TYPE_PRIMARY :: nat where "DRM_PLANE_TYPE_PRIMARY = 1"
definition DRM_MODE_DPMS_ON :: "64 word" where "DRM_MODE_DPMS_ON = 0"
definition DRM_MODE_DPMS_OFF :: "64 word" where "DRM_MODE_DPMS_OFF = 3"
definition DRM_MODE_ATOMIC_ALLOW_MODESET :: "32 word" where
  "DRM_MODE_ATOMIC_ALLOW_MODESET = 0x400"

record DrmMode =
  mode_id :: nat
  mode_type :: "32 word"
  h_display :: nat
  v_display :: nat

record DrmCrtc =
  crtc_id :: nat
  crtc_pipe :: nat
  crtc_display :: int
  crtc_mode_property :: nat

record DrmEncoder =
  encoder_id :: nat
  encoder_crtc :: "crtc_ptr option"
  possible_crtcs :: "crtc_ptr list"

record DrmConnector =
  connector_id :: nat
  connector_display :: int
  connector_encoder :: "encoder_ptr option"
  possible_encoders :: "encoder_ptr list"
  connector_state :: drmModeConnection
  connector_modes :: "DrmMode list"
  connector_active_mode :: DrmMode
  connector_crtc_id_property :: nat
  connector_dpms_property :: nat

record DrmPlane =
  plane_id :: nat
  plane_type :: nat
  possible_crtc_mask :: "32 word"
  plane_crtc_property :: nat
  plane_fb_property :: nat
  plane_crtc_x_property :: nat
  plane_crtc_y_property :: nat
  plane_crtc_w_property :: nat
  plane_crtc_h_property :: nat
  plane_src_x_property :: nat
  plane_src_y_property :: nat
  plane_src_w_property :: nat
  plane_src_h_property :: nat

record DrmResources =
  crtcs :: "DrmCrtc list"
  encoders :: "DrmEncoder list"
  connectors :: "DrmConnector list"
  planes :: "DrmPlane list"

text \<open>
  Modelled from the spec: \<open>DrmCrtc::can_bind\<close> lives in drmcrtc.cpp, which is not
  among the sources. The spec calls a controller usable for a display when it is free
  (serves no display) and makes step 1 of the resolver fail only when the controller
  "is already serving a different display"; an unbound controller carries display
  \<open>-1\<close>.
\<close>

definition can_bind :: "DrmCrtc \<Rightarrow> int \<Rightarrow> bool" where
  "can_bind crtc display \<longleftrightarrow> crtc_display crtc = - 1 \<or> crtc_display crtc = display"

text \<open>The three setters the resolver calls on the objects it points at.\<close>

definition set_display :: "crtc_ptr \<Rightarrow> int \<Rightarrow> DrmResources \<Rightarrow> DrmResources" where
  "set_display c display r =
     r\<lparr>crtcs := (crtcs r)[c := (crtcs r ! c)\<lparr>crtc_display := display\<rparr>]\<rparr>"

definition set_crtc :: "encoder_ptr \<Rightarrow> crtc_ptr \<Rightarrow> DrmResources \<Rightarrow> DrmResources" where
  "set_crtc e c r =
     r\<lparr>encoders := (encoders r)[e := (encoders r ! e)\<lparr>encoder_crtc := Some c\<rparr>]\<rparr>"

definition set_encoder :: "connector_ptr \<Rightarrow> encoder_ptr \<Rightarrow> DrmResources \<Rightarrow> DrmResources" where
  "set_encoder k e r =
     r\<lparr>connectors := (connectors r)[k := (connectors r ! k)\<lparr>connector_encoder := Some e\<rparr>]\<rparr>"

subsection \<open>TryEncoderForDisplay\<close>

text \<open>
  The loop over \<open>enc->possible_crtcs()\<close>: the encoder's current controller is skipped,
  the first other controller that can bind is attached to the encoder and given the
  display; when the loop runs out the function returns \<open>-EAGAIN\<close>.
\<close>

fun try_possible_crtcs ::
  "int \<Rightarrow> encoder_ptr \<Rightarrow> crtc_ptr list \<Rightarrow> DrmResources \<Rightarrow> int \<times> DrmResources" where
  "try_possible_crtcs display e [] r = (- EAGAIN, r)"
| "try_possible_crtcs display e (c # cs) r =
     (if Some c = encoder_crtc (encoders r ! e) then try_possible_crtcs display e cs r
      else if can_bind (crtcs r ! c) display
        then (0, set_display c display (set_crtc e c r))
      else try_possible_crtcs display e cs r)"

definition TryEncoderForDisplay ::
  "int \<Rightarrow> encoder_ptr \<Rightarrow> DrmResources \<Rightarrow> int \<times> DrmResources" where
  "TryEncoderForDisplay display e r =
     (case encoder_crtc (encoders r ! e) of
        Some c \<Rightarrow>
          if can_bind (crtcs r ! c) display then (0, set_display c display r)
          else try_possible_crtcs display e (possible_crtcs (encoders r ! e)) r
      | None \<Rightarrow> try_possible_crtcs display e (possible_crtcs (encoders r ! e)) r)"

subsection \<open>CreateDisplayPipe\<close>

fun try_possible_encoders ::
  "connector_ptr \<Rightarrow> int \<Rightarrow> encoder_ptr list \<Rightarrow> DrmResources \<Rightarrow> int \<times> DrmResources" where
  "try_possible_encoders k display [] r = (- ENODEV, r)"
| "try_possible_encoders k display (e # es) r =
     (case TryEncoderForDisplay display e r of (ret, r') \<Rightarrow>
        if ret = 0 then (0, set_encoder k e r')
        else if ret \<noteq> - EAGAIN then (ret, r')
        else try_possible_encoders k display es r')"

definition CreateDisplayPipe :: "connector_ptr \<Rightarrow> DrmResources \<Rightarrow> int \<times> DrmResources" where
  "CreateDisplayPipe k r =
     (let display = connector_display (connectors r ! k) in
      case connector_encoder (connectors r ! k) of
        Some e \<Rightarrow>
          (case TryEncoderForDisplay display e r of (ret, r') \<Rightarrow>
             if ret = 0 then (0, r')
             else if ret \<noteq> - EAGAIN then (ret, r')
             else try_possible_encoders k display
                    (possible_encoders (connectors r' ! k)) r')
      | None \<Rightarrow>
          try_possible_encoders k display (possible_encoders (connectors r ! k)) r)"

subsection \<open>The first-fit search as the specification words it\<close>

text \<open>
  Per Encoder the candidates are its current controller, then its legal controllers in
  listing order. Per Output the Encoders are its bound Encoder (if any), then its
  legal Encoders in listing order. The first candidate pair whose controller can serve
  the display wins.
\<close>

definition encoder_candidates :: "DrmResources \<Rightarrow> encoder_ptr \<Rightarrow> crtc_ptr list" where
  "encoder_candidates r e =
     (case encoder_crtc (encoders r ! e) of Some c \<Rightarrow> [c] | None \<Rightarrow> []) @
     possible_crtcs (encoders r ! e)"

definition encoder_order :: "DrmResources \<Rightarrow> connector_ptr \<Rightarrow> encoder_ptr list" where
  "encoder_order r k =
     (case connector_encoder (connectors r ! k) of Some e \<Rightarrow> [e] | None \<Rightarrow> []) @
     possible_encoders (connectors r ! k)"

definition pipe_candidates ::
  "DrmResources \<Rightarrow> encoder_ptr list \<Rightarrow> (encoder_ptr \<times> crtc_ptr) list" where
  "pipe_candidates r es = concat (map (\<lambda>e. map (Pair e) (encoder_candidates r e)) es)"

definition first_fit ::
  "DrmResources \<Rightarrow> connector_ptr \<Rightarrow> (encoder_ptr \<times> crtc_ptr) option" where
  "first_fit r k =
     find (\<lambda>(e, c). can_bind (crtcs r ! c) (connector_display (connectors r ! k)))
       (pipe_candidates r (encoder_order r k))"

text \<open>
  Binding the pair found: the controller serves the Output's display, the Encoder
  drives the controller, the Output is bound to the Encoder. Nothing else changes.
\<close>

definition bind_pipe ::
  "connector_ptr \<Rightarrow> encoder_ptr \<Rightarrow> crtc_ptr \<Rightarrow> DrmResources \<Rightarrow> DrmResources" where
  "bind_pipe k e c r =
     r\<lparr>crtcs := (crtcs r)[c := (crtcs r ! c)\<lparr>crtc_display := connector_display (connectors r ! k)\<rparr>],
       encoders := (encoders r)[e := (encoders r ! e)\<lparr>encoder_crtc := Some c\<rparr>],
       connectors := (connectors r)[k := (connectors r ! k)\<lparr>connector_encoder := Some e\<rparr>]\<rparr>"

subsection \<open>Queries\<close>

text \<open>
  \<open>GetConnectorForDisplay\<close> and \<open>GetCrtcForDisplay\<close> return the first object of the
  vector whose display equals the argument, \<open>NULL\<close> when there is none.
\<close>

definition GetConnectorForDisplay :: "DrmResources \<Rightarrow> int \<Rightarrow> connector_ptr option" where
  "GetConnectorForDisplay r display =
     find (\<lambda>k. connector_display (connectors r ! k) = display) [0..<length (connectors r)]"

definition GetCrtcForDisplay :: "DrmResources \<Rightarrow> int \<Rightarrow> crtc_ptr option" where
  "GetCrtcForDisplay r display =
     find (\<lambda>c. crtc_display (crtcs r ! c) = display) [0..<length (crtcs r)]"

text \<open>
  Modelled from the spec: \<open>DrmPlane::GetCrtcSupported\<close> lives in drmplane.cpp, which is
  not among the sources. The spec gives a Plane the set of Pipeline-Controllers it may
  be attached to and a Pipeline-Controller its pipe index, "bit position used for
  legality masks".
\<close>

definition GetCrtcSupported :: "DrmPlane \<Rightarrow> DrmCrtc \<Rightarrow> bool" where
  "GetCrtcSupported plane crtc \<longleftrightarrow>
     push_bit (crtc_pipe crtc) 1 AND possible_crtc_mask plane \<noteq> 0"

text \<open>
  \<open>GetPrimaryPlaneForCrtc\<close> walks every plane and overwrites \<open>primary_plane\<close> at each
  match; there is no \<open>break\<close>.
\<close>

fun primary_plane_loop ::
  "DrmPlane list \<Rightarrow> DrmCrtc \<Rightarrow> plane_ptr list \<Rightarrow> plane_ptr option \<Rightarrow> plane_ptr option" where
  "primary_plane_loop ps crtc [] primary_plane = primary_plane"
| "primary_plane_loop ps crtc (p # rest) primary_plane =
     (if plane_type (ps ! p) = DRM_PLANE_TYPE_PRIMARY \<and> GetCrtcSupported (ps ! p) crtc
      then primary_plane_loop ps crtc rest (Some p)
      else primary_plane_loop ps crtc rest primary_plane)"

definition GetPrimaryPlaneForCrtc :: "DrmResources \<Rightarrow> DrmCrtc \<Rightarrow> plane_ptr option" where
  "GetPrimaryPlaneForCrtc r crtc =
     primary_plane_loop (planes r) crtc [0..<length (planes r)] None"

subsection \<open>Init: discovery\<close>

text \<open>
  What the kernel answers during \<open>Init\<close>. Every listing call is made once per object id,
  so each answer is a function of the id. The constructors and \<open>Init\<close> methods of
  \<open>DrmCrtc\<close>, \<open>DrmConnector\<close> and \<open>DrmPlane\<close> are in files that are not among the
  sources; their status codes and the property ids they fetch are answers of the
  device as well.
\<close>

record drmModeRes =
  res_crtcs :: "nat list"
  res_encoders :: "nat list"
  res_connectors :: "nat list"

record drmModeEncoder =
  enc_encoder_id :: nat
  enc_crtc_id :: nat
  enc_possible_crtcs :: "32 word"

record drmModeConnector =
  conn_connector_id :: nat
  conn_encoder_id :: nat
  conn_encoders :: "nat list"
  conn_connection :: drmModeConnection

record drm_device =
  dev_open :: int
  dev_cap_universal_planes :: int
  dev_cap_atomic :: int
  dev_GetResources :: "drmModeRes option"
  dev_GetCrtc :: "nat \<Rightarrow> nat option"
  dev_crtc_Init :: "nat \<Rightarrow> int"
  dev_crtc_mode_property :: "nat \<Rightarrow> nat"
  dev_GetEncoder :: "nat \<Rightarrow> drmModeEncoder option"
  dev_GetConnector :: "nat \<Rightarrow> drmModeConnector option"
  dev_connector_Init :: "nat \<Rightarrow> int"
  dev_connector_modes :: "nat \<Rightarrow> DrmMode list"
  dev_connector_crtc_id_property :: "nat \<Rightarrow> nat"
  dev_connector_dpms_property :: "nat \<Rightarrow> nat"
  dev_GetPlaneResources :: "nat list option"
  dev_GetPlane :: "nat \<Rightarrow> DrmPlane option"
  dev_plane_Init :: "nat \<Rightarrow> int"
  dev_event_listener_Init :: int

definition no_resources :: DrmResources where
  "no_resources = \<lparr>crtcs = [], encoders = [], connectors = [], planes = []\<rparr>"

definition no_mode :: DrmMode where
  "no_mode = \<lparr>mode_id = 0, mode_type = 0, h_display = 0, v_display = 0\<rparr>"

text \<open>
  The crtc loop. The pipe of a controller is its loop index; a new controller serves no
  display (\<open>-1\<close>).
\<close>

fun init_crtcs :: "drm_device \<Rightarrow> nat list \<Rightarrow> nat \<Rightarrow> DrmResources \<Rightarrow> int \<times> DrmResources" where
  "init_crtcs dev [] i r = (0, r)"
| "init_crtcs dev (x # xs) i r =
     (case dev_GetCrtc dev x of
        None \<Rightarrow> (- ENODEV, r)
      | Some cid \<Rightarrow>
          if dev_crtc_Init dev x \<noteq> 0 then (dev_crtc_Init dev x, r)
          else init_crtcs dev xs (i + 1)
                 (r\<lparr>crtcs := crtcs r @
                    [\<lparr>crtc_id = cid, crtc_pipe = i, crtc_display = - 1,
                      crtc_mode_property = dev_crtc_mode_property dev x\<rparr>]\<rparr>))"

text \<open>
  The encoder loop. For one kernel encoder the inner loop over \<open>crtcs_\<close> collects the
  controllers whose pipe bit is set in \<open>possible_crtcs\<close> and remembers the controller
  whose id is \<open>crtc_id\<close>.
\<close>

definition encoder_scan ::
  "DrmCrtc list \<Rightarrow> drmModeEncoder \<Rightarrow> crtc_ptr list \<times> crtc_ptr option" where
  "encoder_scan cs e =
     fold (\<lambda>p (possible, current).
             (if push_bit (crtc_pipe (cs ! p)) 1 AND enc_possible_crtcs e \<noteq> 0
                then possible @ [p] else possible,
              if crtc_id (cs ! p) = enc_crtc_id e then Some p else current))
       [0..<length cs] ([], None)"

fun init_encoders :: "drm_device \<Rightarrow> nat list \<Rightarrow> DrmResources \<Rightarrow> int \<times> DrmResources" where
  "init_encoders dev [] r = (0, r)"
| "init_encoders dev (x # xs) r =
     (case dev_GetEncoder dev x of
        None \<Rightarrow> (- EINVAL, r)
      | Some e \<Rightarrow>
          (case encoder_scan (crtcs r) e of (possible, current) \<Rightarrow>
             init_encoders dev xs
               (r\<lparr>encoders := encoders r @
                  [\<lparr>encoder_id = enc_encoder_id e, encoder_crtc = current,
                    possible_crtcs = possible\<rparr>]\<rparr>)))"

text \<open>
  The connector loop. The scan for the current encoder sits inside the loop over the
  connector's encoder list, so a connector with an empty encoder list gets no current
  encoder. The first connector becomes display 0, the following ones 1, 2, ...
\<close>

definition connector_scan ::
  "DrmEncoder list \<Rightarrow> drmModeConnector \<Rightarrow> encoder_ptr list \<times> encoder_ptr option" where
  "connector_scan es c =
     fold (\<lambda>j. fold (\<lambda>p (possible, current).
                   (if encoder_id (es ! p) = j then possible @ [p] else possible,
                    if encoder_id (es ! p) = conn_encoder_id c then Some p else current))
                [0..<length es])
       (conn_encoders c) ([], None)"

fun init_connectors ::
  "drm_device \<Rightarrow> nat list \<Rightarrow> bool \<Rightarrow> int \<Rightarrow> DrmResources \<Rightarrow> int \<times> DrmResources" where
  "init_connectors dev [] found_primary display_num r = (0, r)"
| "init_connectors dev (x # xs) found_primary display_num r =
     (case dev_GetConnector dev x of
        None \<Rightarrow> (- ENODEV, r)
      | Some c \<Rightarrow>
          (case connector_scan (encoders r) c of (possible, current) \<Rightarrow>
             if dev_connector_Init dev x \<noteq> 0 then (dev_connector_Init dev x, r)
             else
               init_connectors dev xs True
                 (if found_primary then display_num + 1 else display_num)
                 (r\<lparr>connectors := connectors r @
                    [\<lparr>connector_id = conn_connector_id c,
                      connector_display = (if found_primary then display_num else 0),
                      connector_encoder = current,
                      possible_encoders = possible,
                      connector_state = conn_connection c,
                      connector_modes = dev_connector_modes dev x,
                      connector_active_mode = no_mode,
                      connector_crtc_id_property = dev_connector_crtc_id_property dev x,
                      connector_dpms_property = dev_connector_dpms_property dev x\<rparr>]\<rparr>)))"

fun init_planes :: "drm_device \<Rightarrow> nat list \<Rightarrow> DrmResources \<Rightarrow> int \<times> DrmResources" where
  "init_planes dev [] r = (0, r)"
| "init_planes dev (x # xs) r =
     (case dev_GetPlane dev x of
        None \<Rightarrow> (- ENODEV, r)
      | Some plane \<Rightarrow>
          if dev_plane_Init dev x \<noteq> 0 then (dev_plane_Init dev x, r)
          else init_planes dev xs (r\<lparr>planes := planes r @ [plane]\<rparr>))"

text \<open>The last loop of \<open>Init\<close>: one resolver call per connector, stopping at the first failure.\<close>

fun create_pipes :: "connector_ptr list \<Rightarrow> DrmResources \<Rightarrow> int \<times> DrmResources" where
  "create_pipes [] r = (0, r)"
| "create_pipes (k # ks) r =
     (case CreateDisplayPipe k r of (ret, r') \<Rightarrow>
        if ret \<noteq> 0 then (ret, r') else create_pipes ks r')"

text \<open>
  \<open>Init\<close> up to and including the event listener: the graph as the kernel reports it,
  before any resolver call.
\<close>

definition Init_discover :: "drm_device \<Rightarrow> int \<times> DrmResources" where
  "Init_discover dev =
     (if dev_open dev < 0 then (- ENODEV, no_resources)
      else if dev_cap_universal_planes dev \<noteq> 0 then (dev_cap_universal_planes dev, no_resources)
      else if dev_cap_atomic dev \<noteq> 0 then (dev_cap_atomic dev, no_resources)
      else case dev_GetResources dev of
        None \<Rightarrow> (- ENODEV, no_resources)
      | Some res \<Rightarrow>
          (case init_crtcs dev (res_crtcs res) 0 no_resources of (ret1, r1) \<Rightarrow>
           case (if ret1 = 0 then init_encoders dev (res_encoders res) r1 else (ret1, r1))
             of (ret2, r2) \<Rightarrow>
           case (if ret2 = 0 then init_connectors dev (res_connectors res) False 1 r2
                 else (ret2, r2))
             of (ret3, r3) \<Rightarrow>
           if ret3 \<noteq> 0 then (ret3, r3)
           else case dev_GetPlaneResources dev of
             None \<Rightarrow> (- ENOENT, r3)
           | Some plane_ids \<Rightarrow>
               (case init_planes dev plane_ids r3 of (ret4, r4) \<Rightarrow>
                  if ret4 \<noteq> 0 then (ret4, r4)
                  else if dev_event_listener_Init dev \<noteq> 0
                    then (dev_event_listener_Init dev, r4)
                  else (0, r4))))"

definition Init :: "drm_device \<Rightarrow> int \<times> DrmResources" where
  "Init dev =
     (case Init_discover dev of (ret, r) \<Rightarrow>
        if ret \<noteq> 0 then (ret, r)
        else create_pipes [0..<length (connectors r)] r)"

section \<open>Calls that leave the process\<close>

text \<open>
  After \<open>Init\<close> the code talks to the kernel (ioctls on the DRM file descriptor,
  libdrm's atomic request objects), to the buffer importer and to the compositor's
  hotplug callback. Each such call is recorded, with what it returned, in an event log
  that the model threads through every function. What a call returns is not decided
  by the code: it is read from an oracle that may depend on everything that happened
  before (the log so far) and on the arguments.
\<close>

type_synonym buffer_handle = nat
type_synonym property_set = "(nat \<times> nat \<times> 64 word) list"

record hwc_drm_bo =
  bo_fb_id :: nat
  bo_priv :: buffer_handle

datatype event =
    CreatePropBlob DrmMode int nat
  | DestroyPropBlob nat int
  | AtomicAlloc bool
  | AtomicAddProperty nat nat "64 word" int
  | AtomicCommit property_set "32 word" int
  | AtomicFree
  | ConnectorSetProperty nat nat "64 word" int
  | GetConnector nat
  | ImportBuffer buffer_handle int
  | ReleaseBuffer hwc_drm_bo
  | SyncWait int
  | CloseFd int
  | Hotplug int int

record kernel =
  k_create_blob :: "event list \<Rightarrow> DrmMode \<Rightarrow> int \<times> nat"
  k_destroy_blob :: "event list \<Rightarrow> nat \<Rightarrow> int"
  k_atomic_alloc :: "event list \<Rightarrow> bool"
  k_atomic_add :: "event list \<Rightarrow> nat \<Rightarrow> nat \<Rightarrow> 64 word \<Rightarrow> int"
  k_atomic_commit :: "event list \<Rightarrow> property_set \<Rightarrow> 32 word \<Rightarrow> int"
  k_set_property :: "event list \<Rightarrow> nat \<Rightarrow> nat \<Rightarrow> 64 word \<Rightarrow> int"
  k_get_connector :: "event list \<Rightarrow> nat \<Rightarrow> (drmModeConnection \<times> DrmMode list) option"
  k_import :: "event list \<Rightarrow> buffer_handle \<Rightarrow> int \<times> hwc_drm_bo"

subsection \<open>Property blobs (drmresources.cpp)\<close>

text \<open>
  \<open>CreatePropertyBlob\<close> returns the ioctl's status; on success it also stores the
  blob id the kernel chose.
\<close>

definition CreatePropertyBlob ::
  "kernel \<Rightarrow> DrmMode \<Rightarrow> event list \<Rightarrow> int \<times> nat option \<times> event list" where
  "CreatePropertyBlob kern data ev =
     (case k_create_blob kern ev data of (ret, new_id) \<Rightarrow>
        if ret \<noteq> 0 then (ret, None, ev @ [CreatePropBlob data ret new_id])
        else (0, Some new_id, ev @ [CreatePropBlob data ret new_id]))"

definition DestroyPropertyBlob :: "kernel \<Rightarrow> nat \<Rightarrow> event list \<Rightarrow> int \<times> event list" where
  "DestroyPropertyBlob kern blob ev =
     (if blob = 0 then (0, ev)
      else let ret = k_destroy_blob kern ev blob in
        if ret \<noteq> 0 then (ret, ev @ [DestroyPropBlob blob ret])
        else (0, ev @ [DestroyPropBlob blob ret]))"

subsection \<open>SetDpmsMode\<close>

definition SetDpmsMode ::
  "kernel \<Rightarrow> DrmResources \<Rightarrow> int \<Rightarrow> 64 word \<Rightarrow> event list \<Rightarrow> int \<times> event list" where
  "SetDpmsMode kern r display mode ev =
     (case GetConnectorForDisplay r display of
        None \<Rightarrow> (- ENODEV, ev)
      | Some k \<Rightarrow>
          let conn = connectors r ! k;
              ret = k_set_property kern ev (connector_id conn) (connector_dpms_property conn) mode;
              ev' = ev @ [ConnectorSetProperty (connector_id conn) (connector_dpms_property conn)
                            mode ret]
          in if ret \<noteq> 0 then (ret, ev') else (0, ev'))"

subsection \<open>Building a transaction\<close>

text \<open>
  A run of \<open>drmModeAtomicAddProperty\<close> calls, each followed by
  \<open>if (ret < 0) { ...; return ret; }\<close>. Some of these error branches call
  \<open>drmModeAtomicFree\<close> before returning and some do not; the flag in front of each
  entry says which. The result is \<open>None\<close> when every call succeeded, else the status
  the function returns.
\<close>

fun add_properties ::
  "kernel \<Rightarrow> (bool \<times> nat \<times> nat \<times> 64 word) list \<Rightarrow> property_set \<Rightarrow> event list \<Rightarrow>
     int option \<times> property_set \<times> event list" where
  "add_properties kern [] pset ev = (None, pset, ev)"
| "add_properties kern ((frees, obj, prop, val) # rest) pset ev =
     (let ret = k_atomic_add kern ev obj prop val;
          ev' = ev @ [AtomicAddProperty obj prop val ret]
      in if ret < 0 then (Some ret, pset, if frees then ev' @ [AtomicFree] else ev')
         else add_properties kern rest (pset @ [(obj, prop, val)]) ev')"

subsection \<open>DrmResources::SetDisplayActiveMode\<close>

text \<open>
  The two property additions are joined by \<open>||\<close>: the second is not attempted when
  the first fails, and \<open>ret\<close> is the truth value of the disjunction.
\<close>

definition set_active_mode :: "connector_ptr \<Rightarrow> DrmMode \<Rightarrow> DrmResources \<Rightarrow> DrmResources" where
  "set_active_mode k mode r =
     r\<lparr>connectors := (connectors r)[k := (connectors r ! k)\<lparr>connector_active_mode := mode\<rparr>]\<rparr>"

definition SetDisplayActiveMode ::
  "kernel \<Rightarrow> int \<Rightarrow> DrmMode \<Rightarrow> DrmResources \<Rightarrow> event list \<Rightarrow>
     int \<times> DrmResources \<times> event list" where
  "SetDisplayActiveMode kern display mode r ev =
     (case GetConnectorForDisplay r display of
        None \<Rightarrow> (- ENODEV, r, ev)
      | Some k \<Rightarrow>
     (case GetCrtcForDisplay r display of
        None \<Rightarrow> (- ENODEV, r, ev)
      | Some c \<Rightarrow>
     (let connector = connectors r ! k; crtc = crtcs r ! c;
          pset_ok = k_atomic_alloc kern ev;
          ev1 = ev @ [AtomicAlloc pset_ok]
      in if \<not> pset_ok then (- ENOMEM, r, ev1)
      else case CreatePropertyBlob kern mode ev1 of
        (ret, None, ev2) \<Rightarrow> (ret, r, ev2)
      | (ret, Some blob, ev2) \<Rightarrow>
          if ret \<noteq> 0 then (ret, r, ev2)
          else
            (let r1 = k_atomic_add kern ev2 (crtc_id crtc) (crtc_mode_property crtc) (of_nat blob);
                 ev3 = ev2 @ [AtomicAddProperty (crtc_id crtc) (crtc_mode_property crtc)
                                (of_nat blob) r1]
             in if r1 < 0 then (1, r, ev3 @ [AtomicFree])
             else
               (let r2 = k_atomic_add kern ev3 (connector_id connector)
                           (connector_crtc_id_property connector) (of_nat (crtc_id crtc));
                    ev4 = ev3 @ [AtomicAddProperty (connector_id connector)
                                   (connector_crtc_id_property connector)
                                   (of_nat (crtc_id crtc)) r2]
                in if r2 < 0 then (1, r, ev4 @ [AtomicFree])
                else
                  (let pset = [(crtc_id crtc, crtc_mode_property crtc, of_nat blob),
                               (connector_id connector, connector_crtc_id_property connector,
                                of_nat (crtc_id crtc))];
                       flags = DRM_MODE_ATOMIC_ALLOW_MODESET;
                       ret = k_atomic_commit kern ev4 pset flags;
                       ev5 = ev4 @ [AtomicCommit pset flags ret]
                   in if ret \<noteq> 0 then (ret, r, ev5 @ [AtomicFree])
                      else (0, set_active_mode k mode r, ev5 @ [AtomicFree])))))))"

section \<open>The composer context (hwcomposer.cpp)\<close>

text \<open>
  \<open>hwc_drm_display_t\<close> keeps, per display, the frame-buffer cache \<open>bo[NUM_FB_BUFFERS]\<close>
  (a slot is \<open>NULL\<close> or points at an imported buffer object), the mode waiting to be
  activated and the two blob ids. \<open>NUM_FB_BUFFERS\<close> comes from a header that is not
  among the sources: it is the length of the cache list. \<open>ctx->displays\<close> is a
  \<open>std::map\<close> read with \<open>operator[]\<close>, which yields an entry for every key.
\<close>

text \<open>
  \<open>hwc_rect_t\<close> holds four C \<open>int\<close>s, 32 bits each. Sums and differences of its fields
  are 32-bit: \<open>-\<close> on \<open>32 word\<close> wraps as the two's-complement target does.
\<close>

record hwc_rect =
  rect_left :: "32 word"
  rect_top :: "32 word"
  rect_right :: "32 word"
  rect_bottom :: "32 word"

record hwc_drm_display =
  hd_bo :: "hwc_drm_bo option list"
  hd_active_mode :: DrmMode
  needs_modeset :: bool
  blob_id :: nat
  old_blob_id :: nat

record hwc_context =
  displays :: "int \<Rightarrow> hwc_drm_display"
  drm :: DrmResources
  events :: "event list"

subsection \<open>The frame-buffer cache\<close>

text \<open>The lookup loop: the first occupied slot whose buffer was imported from the handle.\<close>

fun find_bo :: "hwc_drm_bo option list \<Rightarrow> buffer_handle \<Rightarrow> hwc_drm_bo option" where
  "find_bo [] handle = None"
| "find_bo (None # slots) handle = find_bo slots handle"
| "find_bo (Some bo # slots) handle =
     (if bo_priv bo = handle then Some bo else find_bo slots handle)"

text \<open>
  The insertion loop: the first empty slot takes the buffer; when there is none the
  loop ends without storing it.
\<close>

fun insert_bo :: "hwc_drm_bo \<Rightarrow> hwc_drm_bo option list \<Rightarrow> hwc_drm_bo option list" where
  "insert_bo bo [] = []"
| "insert_bo bo (None # slots) = Some bo # slots"
| "insert_bo bo (Some other # slots) = Some other # insert_bo bo slots"

text \<open>
  The block both frame paths start with: look the handle up; on a miss import it and
  try to cache it. An import failure is the function's return value.
\<close>

definition acquire_bo ::
  "kernel \<Rightarrow> buffer_handle \<Rightarrow> hwc_drm_bo option list \<Rightarrow> event list \<Rightarrow>
     int \<times> hwc_drm_bo option \<times> hwc_drm_bo option list \<times> event list" where
  "acquire_bo kern handle cache ev =
     (case find_bo cache handle of
        Some bo \<Rightarrow> (0, Some bo, cache, ev)
      | None \<Rightarrow>
          (case k_import kern ev handle of (ret, bo) \<Rightarrow>
             if ret \<noteq> 0 then (ret, None, cache, ev @ [ImportBuffer handle ret])
             else (0, Some bo, insert_bo bo cache, ev @ [ImportBuffer handle ret])))"

text \<open>\<open>hwc_release_display\<close>: every occupied slot is released and cleared.\<close>

fun release_slots :: "hwc_drm_bo option list \<Rightarrow> event list" where
  "release_slots [] = []"
| "release_slots (None # slots) = release_slots slots"
| "release_slots (Some bo # slots) = ReleaseBuffer bo # release_slots slots"

definition hwc_release_display :: "int \<Rightarrow> hwc_context \<Rightarrow> hwc_context" where
  "hwc_release_display display ctx =
     (let hd = displays ctx display in
      ctx\<lparr>displays := (displays ctx)(display := hd\<lparr>hd_bo := map (\<lambda>_. None) (hd_bo hd)\<rparr>),
          events := events ctx @ release_slots (hd_bo hd)\<rparr>)"

subsection \<open>The transaction of a frame\<close>

text \<open>
  \<open>drmModeAtomicAddProperty\<close> takes the value as \<open>uint64_t\<close>. An \<open>int\<close> argument is
  converted from its signed value, so a negative \<open>int\<close> is sign-extended.
\<close>

definition u64 :: "32 word \<Rightarrow> 64 word" where
  "u64 i = word_of_int (sint i)"

text \<open>
  The properties a frame adds when a modeset is pending, in source order. Only the
  error branches of the first two additions free the request. Width and height are
  subtracted in \<open>int\<close> and then converted.
\<close>

definition modeset_properties ::
  "DrmCrtc \<Rightarrow> DrmConnector \<Rightarrow> DrmPlane \<Rightarrow> nat \<Rightarrow> hwc_rect \<Rightarrow>
     (bool \<times> nat \<times> nat \<times> 64 word) list" where
  "modeset_properties crtc connector plane blob frame =
     [(True, crtc_id crtc, crtc_mode_property crtc, of_nat blob),
      (True, connector_id connector, connector_crtc_id_property connector, of_nat (crtc_id crtc)),
      (False, plane_id plane, plane_crtc_property plane, of_nat (crtc_id crtc)),
      (False, plane_id plane, plane_crtc_x_property plane, u64 (rect_left frame)),
      (False, plane_id plane, plane_crtc_y_property plane, u64 (rect_top frame)),
      (False, plane_id plane, plane_crtc_w_property plane,
         u64 (rect_right frame - rect_left frame)),
      (False, plane_id plane, plane_crtc_h_property plane,
         u64 (rect_bottom frame - rect_top frame)),
      (False, plane_id plane, plane_src_x_property plane, u64 (rect_left frame)),
      (False, plane_id plane, plane_src_y_property plane, u64 (rect_top frame)),
      (False, plane_id plane, plane_src_w_property plane,
         u64 (rect_right frame - rect_left frame)),
      (False, plane_id plane, plane_src_h_property plane,
         u64 (rect_bottom frame - rect_top frame))]"

definition fb_property :: "DrmPlane \<Rightarrow> hwc_drm_bo \<Rightarrow> (bool \<times> nat \<times> nat \<times> 64 word) list" where
  "fb_property plane bo = [(False, plane_id plane, plane_fb_property plane, of_nat (bo_fb_id bo))]"

text \<open>
  What follows a successful commit: with a modeset pending, the old blob is destroyed,
  the bookkeeping is updated and the display is powered on.
\<close>

definition after_commit :: "kernel \<Rightarrow> int \<Rightarrow> connector_ptr \<Rightarrow> hwc_context \<Rightarrow> int \<times> hwc_context" where
  "after_commit kern display k ctx =
     (let hd = displays ctx display in
      if needs_modeset hd then
        (case DestroyPropertyBlob kern (old_blob_id hd) (events ctx) of (ret, ev) \<Rightarrow>
           if ret \<noteq> 0 then (ret, ctx\<lparr>events := ev\<rparr>)
           else
             (let hd' = hd\<lparr>old_blob_id := blob_id hd, needs_modeset := False\<rparr>;
                  r' = set_active_mode k (hd_active_mode hd) (drm ctx)
              in case SetDpmsMode kern r' display DRM_MODE_DPMS_ON ev of (ret', ev') \<Rightarrow>
                   (ret', ctx\<lparr>displays := (displays ctx)(display := hd'), drm := r',
                              events := ev'\<rparr>)))
      else (0, ctx))"

subsection \<open>RenderWorker::Render\<close>

text \<open>
  \<open>Render\<close> reads the worker's \<open>id_\<close> (here \<open>display\<close>) and \<open>displayFrame_\<close> (here
  \<open>frame\<close>). The steps are those of the source, in order; every \<open>return\<close> of the
  source is one branch.
\<close>

definition Render ::
  "kernel \<Rightarrow> int \<Rightarrow> hwc_rect \<Rightarrow> buffer_handle \<Rightarrow> hwc_context \<Rightarrow> int \<times> hwc_context" where
  "Render kern display frame handle ctx =
     (let hd = displays ctx display in
      case acquire_bo kern handle (hd_bo hd) (events ctx) of
        (ret, None, cache, ev) \<Rightarrow> (ret, ctx\<lparr>events := ev\<rparr>)
      | (ret, Some bo, cache, ev) \<Rightarrow>
     (let ctx1 = ctx\<lparr>displays := (displays ctx)(display := hd\<lparr>hd_bo := cache\<rparr>), events := ev\<rparr> in
      case GetCrtcForDisplay (drm ctx) display of
        None \<Rightarrow> (- ENODEV, ctx1)
      | Some c \<Rightarrow>
     (case GetPrimaryPlaneForCrtc (drm ctx) (crtcs (drm ctx) ! c) of
        None \<Rightarrow> (- ENODEV, ctx1)
      | Some p \<Rightarrow>
     (let pset_ok = k_atomic_alloc kern ev;
          ev1 = ev @ [AtomicAlloc pset_ok]
      in if \<not> pset_ok then (- ENOMEM, ctx1\<lparr>events := ev1\<rparr>)
      else case GetConnectorForDisplay (drm ctx) display of
        None \<Rightarrow> (- ENODEV, ctx1\<lparr>events := ev1\<rparr>)
      | Some k \<Rightarrow>
     (let crtc = crtcs (drm ctx) ! c; plane = planes (drm ctx) ! p;
          connector = connectors (drm ctx) ! k;
          props = (if needs_modeset hd
                   then modeset_properties crtc connector plane (blob_id hd) frame else [])
                  @ fb_property plane bo
      in case add_properties kern props [] ev1 of
        (Some ret, pset, ev2) \<Rightarrow> (ret, ctx1\<lparr>events := ev2\<rparr>)
      | (None, pset, ev2) \<Rightarrow>
          (let flags = DRM_MODE_ATOMIC_ALLOW_MODESET;
               ret = k_atomic_commit kern ev2 pset flags;
               ev3 = ev2 @ [AtomicCommit pset flags ret]
           in if ret \<noteq> 0 then (ret, ctx1\<lparr>events := ev3 @ [AtomicFree]\<rparr>)
              else after_commit kern display k (ctx1\<lparr>events := ev3 @ [AtomicFree]\<rparr>)))))))"

subsection \<open>render_fb\<close>

text \<open>
  The layer argument: the buffer handle, the display frame and the acquire fence.
  \<open>render_fb\<close> differs from \<open>Render\<close> in the \<open>NULL\<close> handle check and in waiting on and
  closing the acquire fence around the commit.
\<close>

record hwc_layer =
  layer_handle :: buffer_handle
  layer_displayFrame :: hwc_rect
  layer_acquireFenceFd :: int

definition render_fb ::
  "kernel \<Rightarrow> int \<Rightarrow> hwc_layer \<Rightarrow> hwc_context \<Rightarrow> int \<times> hwc_layer \<times> hwc_context" where
  "render_fb kern display fb_layer ctx =
     (let hd = displays ctx display; handle = layer_handle fb_layer;
          frame = layer_displayFrame fb_layer
      in if handle = 0 then (- EINVAL, fb_layer, ctx)
      else case acquire_bo kern handle (hd_bo hd) (events ctx) of
        (ret, None, cache, ev) \<Rightarrow> (ret, fb_layer, ctx\<lparr>events := ev\<rparr>)
      | (ret, Some bo, cache, ev) \<Rightarrow>
     (let ctx1 = ctx\<lparr>displays := (displays ctx)(display := hd\<lparr>hd_bo := cache\<rparr>), events := ev\<rparr> in
      case GetCrtcForDisplay (drm ctx) display of
        None \<Rightarrow> (- ENODEV, fb_layer, ctx1)
      | Some c \<Rightarrow>
     (case GetPrimaryPlaneForCrtc (drm ctx) (crtcs (drm ctx) ! c) of
        None \<Rightarrow> (- ENODEV, fb_layer, ctx1)
      | Some p \<Rightarrow>
     (let pset_ok = k_atomic_alloc kern ev;
          ev1 = ev @ [AtomicAlloc pset_ok]
      in if \<not> pset_ok then (- ENOMEM, fb_layer, ctx1\<lparr>events := ev1\<rparr>)
      else case GetConnectorForDisplay (drm ctx) display of
        None \<Rightarrow> (- ENODEV, fb_layer, ctx1\<lparr>events := ev1\<rparr>)
      | Some k \<Rightarrow>
     (let crtc = crtcs (drm ctx) ! c; plane = planes (drm ctx) ! p;
          connector = connectors (drm ctx) ! k;
          props = (if needs_modeset hd
                   then modeset_properties crtc connector plane (blob_id hd) frame else [])
                  @ fb_property plane bo
      in case add_properties kern props [] ev1 of
        (Some ret, pset, ev2) \<Rightarrow> (ret, fb_layer, ctx1\<lparr>events := ev2\<rparr>)
      | (None, pset, ev2) \<Rightarrow>
          (let fence = layer_acquireFenceFd fb_layer;
               ev3 = (if fence \<ge> 0 then ev2 @ [SyncWait fence] else ev2);
               flags = DRM_MODE_ATOMIC_ALLOW_MODESET;
               ret = k_atomic_commit kern ev3 pset flags;
               ev4 = ev3 @ [AtomicCommit pset flags ret];
               ev5 = (if fence \<ge> 0 then ev4 @ [CloseFd fence] else ev4);
               fb_layer' = (if fence \<ge> 0 then fb_layer\<lparr>layer_acquireFenceFd := - 1\<rparr>
                            else fb_layer)
           in if ret \<noteq> 0 then (ret, fb_layer', ctx1\<lparr>events := ev5 @ [AtomicFree]\<rparr>)
              else case after_commit kern display k (ctx1\<lparr>events := ev5 @ [AtomicFree]\<rparr>) of
                (ret', ctx') \<Rightarrow> (ret', fb_layer', ctx')))))))"

subsection \<open>hwc_set_display_active_mode\<close>

definition hwc_set_display_active_mode ::
  "kernel \<Rightarrow> int \<Rightarrow> DrmMode \<Rightarrow> hwc_context \<Rightarrow> int \<times> hwc_context" where
  "hwc_set_display_active_mode kern display mode ctx =
     (case GetConnectorForDisplay (drm ctx) display of
        None \<Rightarrow> (- ENODEV, ctx)
      | Some k \<Rightarrow>
          (let hd = displays ctx display in
           case CreatePropertyBlob kern mode (events ctx) of
             (ret, None, ev) \<Rightarrow> (ret, ctx\<lparr>events := ev\<rparr>)
           | (ret, Some new_id, ev) \<Rightarrow>
               if ret \<noteq> 0 then (ret, ctx\<lparr>events := ev\<rparr>)
               else
                 (let hd' = hd\<lparr>needs_modeset := True, blob_id := new_id, hd_active_mode := mode\<rparr>
                  in (0, ctx\<lparr>displays := (displays ctx)(display := hd'),
                             drm := set_active_mode k mode (drm ctx),
                             events := ev\<rparr>))))"

subsection \<open>DrmHotplugHandler::HandleEvent\<close>

text \<open>
  Modelled from the spec: \<open>DrmConnector::UpdateModes\<close> lives in drmconnector.cpp, which
  is not among the sources. The spec has the handler "re-read connection state" and
  the Output's "connection state and mode list refreshed on hotplug"; when the kernel
  gives no connector the object keeps what it had.
\<close>

definition UpdateModes :: "kernel \<Rightarrow> connector_ptr \<Rightarrow> hwc_context \<Rightarrow> hwc_context" where
  "UpdateModes kern k ctx =
     (let conn = connectors (drm ctx) ! k;
          ev = events ctx @ [GetConnector (connector_id conn)]
      in case k_get_connector kern (events ctx) (connector_id conn) of
        None \<Rightarrow> ctx\<lparr>events := ev\<rparr>
      | Some (st, ms) \<Rightarrow>
          ctx\<lparr>drm := (drm ctx)\<lparr>connectors := (connectors (drm ctx))
                   [k := conn\<lparr>connector_state := st, connector_modes := ms\<rparr>]\<rparr>,
              events := ev\<rparr>)"

text \<open>"Take the first one, then look for the preferred."\<close>

definition choose_mode :: "DrmMode list \<Rightarrow> DrmMode option" where
  "choose_mode ms =
     (case ms of
        [] \<Rightarrow> None
      | first # _ \<Rightarrow>
          (case find (\<lambda>m. mode_type m AND DRM_MODE_TYPE_PREFERRED \<noteq> 0) ms of
             Some m \<Rightarrow> Some m
           | None \<Rightarrow> Some first))"

text \<open>
  The loop over the connectors. The result is \<open>None\<close> when the handler dereferences
  \<open>begin()\<close> of an empty mode list (undefined behaviour in the source).
\<close>

fun HandleEvent_loop :: "kernel \<Rightarrow> connector_ptr list \<Rightarrow> hwc_context \<Rightarrow> hwc_context option" where
  "HandleEvent_loop kern [] ctx = Some ctx"
| "HandleEvent_loop kern (k # ks) ctx =
     (let old_state = connector_state (connectors (drm ctx) ! k);
          ctx1 = UpdateModes kern k ctx;
          conn = connectors (drm ctx1) ! k;
          cur_state = connector_state conn;
          display = connector_display conn
      in if cur_state = old_state then HandleEvent_loop kern ks ctx1
      else if cur_state = DRM_MODE_CONNECTED then
        (case choose_mode (connector_modes conn) of
           None \<Rightarrow> None
         | Some mode \<Rightarrow>
             (case hwc_set_display_active_mode kern display mode ctx1 of (ret, ctx2) \<Rightarrow>
                if ret \<noteq> 0 then Some ctx2
                else HandleEvent_loop kern ks
                       (ctx2\<lparr>events := events ctx2 @ [Hotplug display 1]\<rparr>)))
      else
        (case SetDpmsMode kern (drm ctx1) display DRM_MODE_DPMS_OFF (events ctx1) of
           (ret, ev) \<Rightarrow>
             if ret \<noteq> 0 then Some (ctx1\<lparr>events := ev\<rparr>)
             else
               (let ctx2 = (if display = 1 then hwc_release_display display (ctx1\<lparr>events := ev\<rparr>)
                            else ctx1\<lparr>events := ev\<rparr>)
                in HandleEvent_loop kern ks
                     (ctx2\<lparr>events := events ctx2 @ [Hotplug display 0]\<rparr>))))"

definition HandleEvent :: "kernel \<Rightarrow> hwc_context \<Rightarrow> hwc_context option" where
  "HandleEvent kern ctx = HandleEvent_loop kern [0..<length (connectors (drm ctx))] ctx"

section \<open>The frame queue (renderworker.h)\<close>

text \<open>
  \<open>NXQueue\<close> wraps a \<open>std::queue\<close>: \<open>queue\<close> pushes at the back, \<open>pop\<close> and \<open>dequeue\<close>
  remove the front. The queue is a list with the oldest entry first. A buffer handle
  is a pointer; \<open>NULL\<close> is \<open>0\<close>. \<open>Signal()\<close> wakes the worker thread and changes no data.
\<close>

record RenderWorker =
  rw_id :: int
  rw_queue :: "buffer_handle list"



definition FlushFB :: "RenderWorker \<Rightarrow> RenderWorker" where
  "FlushFB w = w\<lparr>rw_queue := []\<rparr>"













section \<open>Reading the event log\<close>

fun is_commit :: "event \<Rightarrow> bool" where
  "is_commit (AtomicCommit pset flags ret) = True"
| "is_commit e = False"

fun is_destroy :: "event \<Rightarrow> bool" where
  "is_destroy (DestroyPropBlob blob ret) = True"
| "is_destroy e = False"

fun is_set_property :: "event \<Rightarrow> bool" where
  "is_set_property (ConnectorSetProperty obj prop val ret) = True"
| "is_set_property e = False"

fun is_alloc :: "event \<Rightarrow> bool" where
  "is_alloc (AtomicAlloc ok) = ok"
| "is_alloc e = False"

fun is_free :: "event \<Rightarrow> bool" where
  "is_free AtomicFree = True"
| "is_free e = False"

fun is_hotplug :: "event \<Rightarrow> bool" where
  "is_hotplug (Hotplug display connected) = True"
| "is_hotplug e = False"

text \<open>The fence calls \<open>render_fb\<close> makes around the commit, and the layer it leaves.\<close>

definition fence_wait :: "hwc_layer \<Rightarrow> event list" where
  "fence_wait l = (if layer_acquireFenceFd l \<ge> 0 then [SyncWait (layer_acquireFenceFd l)] else [])"

definition fence_close :: "hwc_layer \<Rightarrow> event list" where
  "fence_close l = (if layer_acquireFenceFd l \<ge> 0 then [CloseFd (layer_acquireFenceFd l)] else [])"

definition fence_closed :: "hwc_layer \<Rightarrow> hwc_layer" where
  "fence_closed l = (if layer_acquireFenceFd l \<ge> 0 then l\<lparr>layer_acquireFenceFd := - 1\<rparr> else l)"

text \<open>
  The transaction the specification asks of a frame with a modeset pending: mode blob,
  connector crtc-id, plane controller-attach, destination and source geometry, and the
  framebuffer id. The frame's coordinates are 32-bit integers; each geometry value is
  the 64-bit property value of a signed 32-bit quantity, width and height being the
  32-bit differences of the frame's edges.
\<close>

definition modeset_transaction ::
  "DrmCrtc \<Rightarrow> DrmConnector \<Rightarrow> DrmPlane \<Rightarrow> nat \<Rightarrow> hwc_rect \<Rightarrow> nat \<Rightarrow> property_set" where
  "modeset_transaction crtc connector plane blob frame fb =
     [(crtc_id crtc, crtc_mode_property crtc, of_nat blob),
      (connector_id connector, connector_crtc_id_property connector, of_nat (crtc_id crtc)),
      (plane_id plane, plane_crtc_property plane, of_nat (crtc_id crtc)),
      (plane_id plane, plane_crtc_x_property plane, u64 (rect_left frame)),
      (plane_id plane, plane_crtc_y_property plane, u64 (rect_top frame)),
      (plane_id plane, plane_crtc_w_property plane, u64 (rect_right frame - rect_left frame)),
      (plane_id plane, plane_crtc_h_property plane, u64 (rect_bottom frame - rect_top frame)),
      (plane_id plane, plane_src_x_property plane, u64 (rect_left frame)),
      (plane_id plane, plane_src_y_property plane, u64 (rect_top frame)),
      (plane_id plane, plane_src_w_property plane, u64 (rect_right frame - rect_left frame)),
      (plane_id plane, plane_src_h_property plane, u64 (rect_bottom frame - rect_top frame)),
      (plane_id plane, plane_fb_property plane, of_nat fb)]"

text \<open>
  What one frame with a modeset pending may do to the log and the display, from the
  context \<open>ctx\<close> to the context \<open>ctx'\<close> with return value \<open>ret\<close>: either no commit is
  issued, or exactly one, carrying the transaction \<open>txn\<close> with the allow-modeset flag;
  and when that commit fails, its status is returned, the modeset stays pending, the
  blob ids are kept, and neither a blob destroy nor a connector property (power mode)
  call is made.
\<close>

definition pending_modeset_frame ::
  "hwc_context \<Rightarrow> int \<Rightarrow> property_set \<Rightarrow> int \<Rightarrow> hwc_context \<Rightarrow> bool" where
  "pending_modeset_frame ctx display txn ret ctx' \<longleftrightarrow>
     filter is_commit (events ctx') = filter is_commit (events ctx) \<or>
     (\<exists>st. filter is_commit (events ctx') =
             filter is_commit (events ctx) @ [AtomicCommit txn DRM_MODE_ATOMIC_ALLOW_MODESET st] \<and>
           (st \<noteq> 0 \<longrightarrow>
              ret = st \<and>
              needs_modeset (displays ctx' display) \<and>
              blob_id (displays ctx' display) = blob_id (displays ctx display) \<and>
              old_blob_id (displays ctx' display) = old_blob_id (displays ctx display) \<and>
              filter is_destroy (events ctx') = filter is_destroy (events ctx) \<and>
              filter is_set_property (events ctx') = filter is_set_property (events ctx)))"

text \<open>
  What one frame does when its handle is not cached and the cache has no free slot,
  from \<open>ctx\<close> to \<open>ctx'\<close>: the cache is as before; the first call made is the import of
  the handle; every commit issued ends with the framebuffer id of the buffer just
  imported; the release path releases no buffer imported from the handle; and the
  handle is again uncached in a full cache.
\<close>

definition uncached_frame ::
  "kernel \<Rightarrow> hwc_context \<Rightarrow> int \<Rightarrow> buffer_handle \<Rightarrow> hwc_context \<Rightarrow> bool" where
  "uncached_frame kern ctx display handle ctx' \<longleftrightarrow>
     hd_bo (displays ctx' display) = hd_bo (displays ctx display) \<and>
     prefix (events ctx @ [ImportBuffer handle (fst (k_import kern (events ctx) handle))])
       (events ctx') \<and>
     (\<forall>ps fl st. AtomicCommit ps fl st \<in> set (drop (length (events ctx)) (events ctx')) \<longrightarrow>
        ps \<noteq> [] \<and>
        snd (snd (last ps)) = of_nat (bo_fb_id (snd (k_import kern (events ctx) handle)))) \<and>
     (\<forall>bo. ReleaseBuffer bo \<in> set (release_slots (hd_bo (displays ctx' display))) \<longrightarrow>
        bo_priv bo \<noteq> handle) \<and>
     find_bo (hd_bo (displays ctx' display)) handle = None \<and>
     None \<notin> set (hd_bo (displays ctx' display))"

text \<open>
  The display's controller, primary plane and connector are all found, so a frame gets
  as far as building its transaction.
\<close>

definition pipeline_found :: "DrmResources \<Rightarrow> int \<Rightarrow> bool" where
  "pipeline_found r display \<longleftrightarrow>
     (case GetCrtcForDisplay r display of
        None \<Rightarrow> False
      | Some c \<Rightarrow> GetPrimaryPlaneForCrtc r (crtcs r ! c) \<noteq> None) \<and>
     GetConnectorForDisplay r display \<noteq> None"

definition never_fails_building :: "kernel \<Rightarrow> bool" where
  "never_fails_building kern \<longleftrightarrow>
     (\<forall>ev. k_atomic_alloc kern ev) \<and> (\<forall>ev obj prop val. 0 \<le> k_atomic_add kern ev obj prop val)"

section \<open>Properties of the resource graph\<close>

text \<open>Every pointer of the graph points into the vector it is meant for.\<close>

definition pointers_valid :: "DrmResources \<Rightarrow> bool" where
  "pointers_valid r \<longleftrightarrow>
     (\<forall>k < length (connectors r).
        (\<forall>e \<in> set (possible_encoders (connectors r ! k)). e < length (encoders r)) \<and>
        (\<forall>e. connector_encoder (connectors r ! k) = Some e \<longrightarrow> e < length (encoders r))) \<and>
     (\<forall>e < length (encoders r).
        (\<forall>c \<in> set (possible_crtcs (encoders r ! e)). c < length (crtcs r)) \<and>
        (\<forall>c. encoder_crtc (encoders r ! e) = Some c \<longrightarrow> c < length (crtcs r)))"

text \<open>
  The invariant of the data model: an Output's bound Encoder, if set, is one of its legal
  Encoders, and an Encoder's current controller, if set, is one of its legal controllers.
\<close>

definition legal_bindings :: "DrmResources \<Rightarrow> bool" where
  "legal_bindings r \<longleftrightarrow>
     (\<forall>k < length (connectors r). \<forall>e.
        connector_encoder (connectors r ! k) = Some e \<longrightarrow>
        e \<in> set (possible_encoders (connectors r ! k))) \<and>
     (\<forall>e < length (encoders r). \<forall>c.
        encoder_crtc (encoders r ! e) = Some c \<longrightarrow> c \<in> set (possible_crtcs (encoders r ! e)))"

text \<open>
  Output \<open>k\<close> has a pipeline: a bound Encoder that is legal for it, driving a controller
  that is legal for that Encoder.
\<close>

definition bound_legal :: "connector_ptr \<Rightarrow> DrmResources \<Rightarrow> bool" where
  "bound_legal k r \<longleftrightarrow>
     (\<exists>e c. connector_encoder (connectors r ! k) = Some e \<and>
            e \<in> set (possible_encoders (connectors r ! k)) \<and>
            encoder_crtc (encoders r ! e) = Some c \<and>
            c \<in> set (possible_crtcs (encoders r ! e)))"

text \<open>No controller that serves a display in \<open>r\<close> serves a different one in \<open>r'\<close>.\<close>

definition keeps_served_displays :: "DrmResources \<Rightarrow> DrmResources \<Rightarrow> bool" where
  "keeps_served_displays r r' \<longleftrightarrow>
     (\<forall>c. crtc_display (crtcs r ! c) \<noteq> - 1 \<longrightarrow>
          crtc_display (crtcs r' ! c) = crtc_display (crtcs r ! c))"

section \<open>Properties of a hotplug event\<close>

definition hotplug_flag :: "drmModeConnection \<Rightarrow> int" where
  "hotplug_flag s = (if s = DRM_MODE_CONNECTED then 1 else 0)"

text \<open>The calls of the internal re-configuration, when they report failure.\<close>

fun is_failure :: "event \<Rightarrow> bool" where
  "is_failure (CreatePropBlob data ret blob) = (ret \<noteq> 0)"
| "is_failure (ConnectorSetProperty obj prop val ret) = (ret \<noteq> 0)"
| "is_failure e = False"

definition state_changed :: "hwc_context \<Rightarrow> hwc_context \<Rightarrow> connector_ptr \<Rightarrow> bool" where
  "state_changed ctx ctx' k \<longleftrightarrow>
     connector_state (connectors (drm ctx') ! k) \<noteq> connector_state (connectors (drm ctx) ! k)"

text \<open>
  The Outputs of \<open>ks\<close>, in order, whose connection state differs between \<open>ctx\<close> and
  \<open>ctx'\<close>, and the callback the compositor is owed for such an Output: its display
  index and its new connected state.
\<close>

definition changed_outputs :: "hwc_context \<Rightarrow> connector_ptr list \<Rightarrow> hwc_context \<Rightarrow> connector_ptr list" where
  "changed_outputs ctx ks ctx' = filter (state_changed ctx ctx') ks"

definition notification :: "hwc_context \<Rightarrow> hwc_context \<Rightarrow> connector_ptr \<Rightarrow> event" where
  "notification ctx ctx' k =
     Hotplug (connector_display (connectors (drm ctx) ! k))
       (hotplug_flag (connector_state (connectors (drm ctx') ! k)))"

text \<open>
  What handling Output \<open>k\<close> adds to the log: the poll of its connector; when its state
  changed, the calls of its re-configuration, at least one and none of them a
  callback; and then its callback, unless one of those calls failed. A call that
  fails is the last call made and the only one that fails.
\<close>

definition output_segment :: "hwc_context \<Rightarrow> hwc_context \<Rightarrow> connector_ptr \<Rightarrow> event list \<Rightarrow> bool" where
  "output_segment ctx ctx' k seg \<longleftrightarrow>
     (\<exists>cfg. seg = GetConnector (connector_id (connectors (drm ctx) ! k)) # cfg @
                    (if state_changed ctx ctx' k \<and> filter is_failure cfg = []
                     then [notification ctx ctx' k] else []) \<and>
            filter is_hotplug cfg = [] \<and>
            (cfg = [] \<longleftrightarrow> \<not> state_changed ctx ctx' k) \<and>
            (filter is_failure cfg = [] \<or>
             is_failure (last cfg) \<and> filter is_failure (butlast cfg) = []))"

text \<open>
  The log of one event over the Outputs \<open>ks\<close>: the segments of the Outputs in listing
  order, up to and including the first segment with a failure; the Outputs after that
  one are not looked at, so their state is as it was.
\<close>

fun hotplug_log :: "hwc_context \<Rightarrow> hwc_context \<Rightarrow> connector_ptr list \<Rightarrow> event list \<Rightarrow> bool" where
  "hotplug_log ctx ctx' [] new \<longleftrightarrow> new = []"
| "hotplug_log ctx ctx' (k # ks) new \<longleftrightarrow>
     (\<exists>seg rest. new = seg @ rest \<and> output_segment ctx ctx' k seg \<and>
        (if filter is_failure seg = [] then hotplug_log ctx ctx' ks rest
         else rest = [] \<and> changed_outputs ctx ks ctx' = []))"

text \<open>
  What handling the connectors \<open>ks\<close> does, from \<open>ctx\<close> to \<open>ctx'\<close>. The log grows by the
  segments of the Outputs, as above. When no re-configuration call failed, the
  callbacks made are exactly those of the Outputs whose state changed, one each, in
  listing order. When one failed, that call is the last thing the handler did and it
  is the only failure; the Output being re-configured is the last one whose state
  changed, and the callbacks made are exactly those of the Outputs that changed
  before it, one each, in listing order: the failing Output gets none, and no later
  Output is looked at.
\<close>

definition hotplug_outcome :: "hwc_context \<Rightarrow> connector_ptr list \<Rightarrow> hwc_context \<Rightarrow> bool" where
  "hotplug_outcome ctx ks ctx' \<longleftrightarrow>
     (\<exists>new. events ctx' = events ctx @ new \<and>
        hotplug_log ctx ctx' ks new \<and>
        (if filter is_failure new = []
         then filter is_hotplug new = map (notification ctx ctx') (changed_outputs ctx ks ctx')
         else new \<noteq> [] \<and> is_failure (last new) \<and> filter is_failure (butlast new) = [] \<and>
              changed_outputs ctx ks ctx' \<noteq> [] \<and>
              filter is_hotplug new =
                map (notification ctx ctx') (butlast (changed_outputs ctx ks ctx'))))"

section \<open>Concrete inputs\<close>

text \<open>A kernel, importer and callback table where every call succeeds; blob ids count up from 1.\<close>

definition blobs_created :: "event list \<Rightarrow> nat" where
  "blobs_created ev = length (filter (\<lambda>e. case e of CreatePropBlob _ _ _ \<Rightarrow> True | _ \<Rightarrow> False) ev)"

definition ok_kernel :: kernel where
  "ok_kernel =
     \<lparr>k_create_blob = (\<lambda>ev data. (0, blobs_created ev + 1)),
      k_destroy_blob = (\<lambda>ev blob. 0),
      k_atomic_alloc = (\<lambda>ev. True),
      k_atomic_add = (\<lambda>ev obj prop val. 1),
      k_atomic_commit = (\<lambda>ev pset flags. 0),
      k_set_property = (\<lambda>ev obj prop val. 0),
      k_get_connector = (\<lambda>ev cid. None),
      k_import = (\<lambda>ev handle. (0, \<lparr>bo_fb_id = 100 + handle, bo_priv = handle\<rparr>))\<rparr>"


text \<open>One controller, one encoder, one connector (display 0) and one primary plane.\<close>

definition example_mode :: DrmMode where
  "example_mode = \<lparr>mode_id = 1, mode_type = 8, h_display = 1024, v_display = 600\<rparr>"

definition example_resources :: DrmResources where
  "example_resources =
     \<lparr>crtcs = [\<lparr>crtc_id = 31, crtc_pipe = 0, crtc_display = 0, crtc_mode_property = 40\<rparr>],
      encoders = [\<lparr>encoder_id = 21, encoder_crtc = Some 0, possible_crtcs = [0]\<rparr>],
      connectors =
        [\<lparr>connector_id = 11, connector_display = 0, connector_encoder = Some 0,
          possible_encoders = [0], connector_state = DRM_MODE_DISCONNECTED,
          connector_modes = [], connector_active_mode = no_mode,
          connector_crtc_id_property = 50, connector_dpms_property = 51\<rparr>],
      planes =
        [\<lparr>plane_id = 61, plane_type = 1, possible_crtc_mask = 1,
          plane_crtc_property = 70, plane_fb_property = 71,
          plane_crtc_x_property = 72, plane_crtc_y_property = 73,
          plane_crtc_w_property = 74, plane_crtc_h_property = 75,
          plane_src_x_property = 76, plane_src_y_property = 77,
          plane_src_w_property = 78, plane_src_h_property = 79\<rparr>]\<rparr>"

definition example_display :: hwc_drm_display where
  "example_display =
     \<lparr>hd_bo = [None, None], hd_active_mode = no_mode, needs_modeset = False,
      blob_id = 0, old_blob_id = 0\<rparr>"

definition example_context :: hwc_context where
  "example_context =
     \<lparr>displays = (\<lambda>d. example_display), drm = example_resources, events = []\<rparr>"

definition example_frame :: hwc_rect where
  "example_frame = \<lparr>rect_left = 0, rect_top = 0, rect_right = 1024, rect_bottom = 600\<rparr>"

text \<open>Display 0 with a modeset pending (blob 5 waiting, blob 4 the previous one).\<close>

definition pending_display :: hwc_drm_display where
  "pending_display =
     \<lparr>hd_bo = [None, None], hd_active_mode = example_mode, needs_modeset = True,
      blob_id = 5, old_blob_id = 4\<rparr>"

definition pending_context :: hwc_context where
  "pending_context =
     \<lparr>displays = (\<lambda>d. pending_display), drm = example_resources, events = []\<rparr>"

text \<open>Display 0 with every cache slot taken, by the buffers of handles 1 and 2.\<close>

definition full_display :: hwc_drm_display where
  "full_display =
     \<lparr>hd_bo = [Some \<lparr>bo_fb_id = 101, bo_priv = 1\<rparr>, Some \<lparr>bo_fb_id = 102, bo_priv = 2\<rparr>],
      hd_active_mode = no_mode, needs_modeset = False, blob_id = 0, old_blob_id = 0\<rparr>"

definition full_context :: hwc_context where
  "full_context =
     \<lparr>displays = (\<lambda>d. full_display), drm = example_resources, events = []\<rparr>"

definition example_layer :: hwc_layer where
  "example_layer =
     \<lparr>layer_handle = 7, layer_displayFrame = example_frame, layer_acquireFenceFd = 9\<rparr>"

text \<open>
  A kernel report with two controllers (ids 10 and 11), one encoder (id 20) that is on
  controller 11 while its possible-crtcs mask names only pipe 0, and one connector
  (id 30) on that encoder.
\<close>

definition skewed_device :: drm_device where
  "skewed_device =
     \<lparr>dev_open = 3, dev_cap_universal_planes = 0, dev_cap_atomic = 0,
      dev_GetResources = Some \<lparr>res_crtcs = [10, 11], res_encoders = [20], res_connectors = [30]\<rparr>,
      dev_GetCrtc = (\<lambda>x. Some x),
      dev_crtc_Init = (\<lambda>x. 0),
      dev_crtc_mode_property = (\<lambda>x. 40),
      dev_GetEncoder = (\<lambda>x. Some \<lparr>enc_encoder_id = x, enc_crtc_id = 11, enc_possible_crtcs = 1\<rparr>),
      dev_GetConnector =
        (\<lambda>x. Some \<lparr>conn_connector_id = x, conn_encoder_id = 20, conn_encoders = [20],
                     conn_connection = DRM_MODE_CONNECTED\<rparr>),
      dev_connector_Init = (\<lambda>x. 0),
      dev_connector_modes = (\<lambda>x. [example_mode]),
      dev_connector_crtc_id_property = (\<lambda>x. 50),
      dev_connector_dpms_property = (\<lambda>x. 51),
      dev_GetPlaneResources = Some [],
      dev_GetPlane = (\<lambda>x. None),
      dev_plane_Init = (\<lambda>x. 0),
      dev_event_listener_Init = 0\<rparr>"

text \<open>The same report with the encoder's mask naming both pipes.\<close>

definition sound_device :: drm_device where
  "sound_device =
     skewed_device\<lparr>dev_GetEncoder :=
       (\<lambda>x. Some \<lparr>enc_encoder_id = x, enc_crtc_id = 11, enc_possible_crtcs = 3\<rparr>)\<rparr>"

text \<open>
  Two Outputs. Output 0 (display 0) is bound, through Encoder 0, to controller 0, which
  serves display 0. Output 1 (display 1) is unbound; its legal Encoders are 0 and 1,
  and Encoder 1 may drive controller 0 or 1.
\<close>

definition two_output_resources :: DrmResources where
  "two_output_resources =
     \<lparr>crtcs = [\<lparr>crtc_id = 10, crtc_pipe = 0, crtc_display = 0, crtc_mode_property = 40\<rparr>,
               \<lparr>crtc_id = 11, crtc_pipe = 1, crtc_display = - 1, crtc_mode_property = 40\<rparr>],
      encoders = [\<lparr>encoder_id = 20, encoder_crtc = Some 0, possible_crtcs = [0]\<rparr>,
                  \<lparr>encoder_id = 21, encoder_crtc = None, possible_crtcs = [0, 1]\<rparr>],
      connectors =
        [\<lparr>connector_id = 30, connector_display = 0, connector_encoder = Some 0,
          possible_encoders = [0], connector_state = DRM_MODE_CONNECTED,
          connector_modes = [example_mode], connector_active_mode = no_mode,
          connector_crtc_id_property = 50, connector_dpms_property = 51\<rparr>,
         \<lparr>connector_id = 31, connector_display = 1, connector_encoder = None,
          possible_encoders = [0, 1], connector_state = DRM_MODE_CONNECTED,
          connector_modes = [example_mode], connector_active_mode = no_mode,
          connector_crtc_id_property = 50, connector_dpms_property = 51\<rparr>],
      planes = []\<rparr>"

text \<open>The same graph with Encoder 1 allowed on controller 0 only: Output 1 has no pipeline.\<close>

definition exhausted_resources :: DrmResources where
  "exhausted_resources =
     two_output_resources\<lparr>encoders :=
       [\<lparr>encoder_id = 20, encoder_crtc = Some 0, possible_crtcs = [0]\<rparr>,
        \<lparr>encoder_id = 21, encoder_crtc = None, possible_crtcs = [0]\<rparr>]\<rparr>"

text \<open>A kernel that reports connector 11 connected, with one mode.\<close>

definition plug_kernel :: kernel where
  "plug_kernel =
     ok_kernel\<lparr>k_get_connector := (\<lambda>ev cid. Some (DRM_MODE_CONNECTED, [example_mode]))\<rparr>"

text \<open>The same kernel, refusing to create a property blob.\<close>

definition no_blob_kernel :: kernel where
  "no_blob_kernel = plug_kernel\<lparr>k_create_blob := (\<lambda>ev data. (- 12, 0))\<rparr>"

text \<open>
  The two Outputs of \<open>two_output_resources\<close>, and a kernel that reports every connector
  disconnected and refuses connector 31 its power-mode property.
\<close>

definition two_output_context :: hwc_context where
  "two_output_context =
     \<lparr>displays = (\<lambda>d. example_display), drm = two_output_resources, events = []\<rparr>"

definition unplug_kernel :: kernel where
  "unplug_kernel =
     ok_kernel\<lparr>k_get_connector := (\<lambda>ev cid. Some (DRM_MODE_DISCONNECTED, [])),
               k_set_property := (\<lambda>ev obj prop val. if obj = 31 then - 22 else 0)\<rparr>"

text \<open>A kernel whose atomic request refuses property 70, the plane's controller-attach property.\<close>

definition plane_refusing_kernel :: kernel where
  "plane_refusing_kernel =
     ok_kernel\<lparr>k_atomic_add := (\<lambda>ev obj prop val. if prop = 70 then - 22 else 1)\<rparr>"

text \<open>A kernel that refuses to create a property blob, everything else succeeding.\<close>

definition blobless_kernel :: kernel where
  "blobless_kernel = ok_kernel\<lparr>k_create_blob := (\<lambda>ev data. (- 12, 0))\<rparr>"

text \<open>Two mode changes for display 0 with no frame in between, then one frame.\<close>

definition twice_set_then_frame :: hwc_context where
  "twice_set_then_frame =
     snd (Render ok_kernel 0 example_frame 7
       (snd (hwc_set_display_active_mode ok_kernel 0 example_mode
         (snd (hwc_set_display_active_mode ok_kernel 0 example_mode example_context)))))"

section \<open>Binding resolver: first fit\<close>

lemma set_crtc_same:
  assumes "encoder_crtc (encoders r ! e) = Some c"
  shows "set_crtc e c r = r"
proof -
  have "(encoders r ! e)\<lparr>encoder_crtc := Some c\<rparr> = encoders r ! e"
    using assms by (cases "encoders r ! e") simp
  then show ?thesis by (simp add: set_crtc_def)
qed

lemma set_encoder_same:
  assumes "connector_encoder (connectors r ! k) = Some e"
  shows "set_encoder k e r = r"
proof -
  have "(connectors r ! k)\<lparr>connector_encoder := Some e\<rparr> = connectors r ! k"
    using assms by (cases "connectors r ! k") simp
  then show ?thesis by (simp add: set_encoder_def)
qed

lemma try_possible_crtcs_find:
  "try_possible_crtcs d e cs r =
     (case find (\<lambda>c. Some c \<noteq> encoder_crtc (encoders r ! e) \<and> can_bind (crtcs r ! c) d) cs of
        None \<Rightarrow> (- EAGAIN, r)
      | Some c \<Rightarrow> (0, set_display c d (set_crtc e c r)))"
  by (induction cs) auto

lemma find_skip_rejected:
  "\<not> P x \<Longrightarrow> find (\<lambda>c. c \<noteq> x \<and> P c) cs = find P cs"
  by (induction cs) auto

lemma TryEncoderForDisplay_find:
  "TryEncoderForDisplay d e r =
     (case find (\<lambda>c. can_bind (crtcs r ! c) d) (encoder_candidates r e) of
        None \<Rightarrow> (- EAGAIN, r)
      | Some c \<Rightarrow> (0, set_display c d (set_crtc e c r)))"
proof (cases "encoder_crtc (encoders r ! e)")
  case None
  then show ?thesis
    by (simp add: TryEncoderForDisplay_def encoder_candidates_def try_possible_crtcs_find)
next
  case (Some c)
  show ?thesis
  proof (cases "can_bind (crtcs r ! c) d")
    case True
    with Some show ?thesis
      by (simp add: TryEncoderForDisplay_def encoder_candidates_def set_crtc_same)
  next
    case False
    with Some show ?thesis
      by (simp add: TryEncoderForDisplay_def encoder_candidates_def try_possible_crtcs_find
          find_skip_rejected)
  qed
qed

lemma EAGAIN_nonzero: "EAGAIN \<noteq> 0"
  by (simp add: EAGAIN_def)

lemma find_pair_candidates:
  "find (\<lambda>(e', c). P c) (map (Pair e) cs) = map_option (Pair e) (find P cs)"
  by (induction cs) auto

lemma find_append_cases:
  "find P (xs @ ys) = (case find P xs of None \<Rightarrow> find P ys | Some x \<Rightarrow> Some x)"
  by (induction xs) auto

lemma connector_display_set_encoder [simp]:
  "connector_display (connectors (set_encoder k e r) ! j) = connector_display (connectors r ! j)"
proof (cases "k < length (connectors r)")
  case True
  then show ?thesis by (simp add: set_encoder_def nth_list_update)
next
  case False
  then have "length (connectors r) \<le> k" by simp
  then show ?thesis by (simp add: set_encoder_def list_update_beyond)
qed

lemma try_possible_encoders_find:
  "try_possible_encoders k d es r =
     (case find (\<lambda>(e, c). can_bind (crtcs r ! c) d) (pipe_candidates r es) of
        None \<Rightarrow> (- ENODEV, r)
      | Some (e, c) \<Rightarrow> (0, set_encoder k e (set_display c d (set_crtc e c r))))"
proof (induction es)
  case Nil
  show ?case by (simp add: pipe_candidates_def)
next
  case (Cons e es)
  have split: "pipe_candidates r (e # es) = map (Pair e) (encoder_candidates r e) @ pipe_candidates r es"
    by (simp add: pipe_candidates_def)
  show ?case
  proof (cases "find (\<lambda>c. can_bind (crtcs r ! c) d) (encoder_candidates r e)")
    case None
    then show ?thesis
      using Cons.IH
      by (simp add: split find_append_cases find_pair_candidates TryEncoderForDisplay_find
          EAGAIN_nonzero)
  next
    case (Some c)
    then show ?thesis
      by (simp add: split find_append_cases find_pair_candidates TryEncoderForDisplay_find)
  qed
qed

lemma bind_pipe_setters:
  "bind_pipe k e c r =
     set_encoder k e (set_display c (connector_display (connectors r ! k)) (set_crtc e c r))"
  by (simp add: bind_pipe_def set_encoder_def set_display_def set_crtc_def)

lemma find_SomeD_mem: "find P xs = Some x \<Longrightarrow> x \<in> set xs \<and> P x"
  by (induction xs) (auto split: if_splits)

lemma first_fit_SomeD:
  assumes "first_fit r k = Some (e, c)"
  shows "e \<in> set (encoder_order r k)" "c \<in> set (encoder_candidates r e)"
    "can_bind (crtcs r ! c) (connector_display (connectors r ! k))"
proof -
  from assms have m: "(e, c) \<in> set (pipe_candidates r (encoder_order r k))"
    and "can_bind (crtcs r ! c) (connector_display (connectors r ! k))"
    by (auto simp: first_fit_def dest: find_SomeD_mem)
  then show "can_bind (crtcs r ! c) (connector_display (connectors r ! k))" by simp
  from m show "e \<in> set (encoder_order r k)" "c \<in> set (encoder_candidates r e)"
    by (auto simp: pipe_candidates_def)
qed

lemma bind_pipe_fields:
  "connectors (bind_pipe k e c r) =
     (connectors r)[k := (connectors r ! k)\<lparr>connector_encoder := Some e\<rparr>]"
  "encoders (bind_pipe k e c r) = (encoders r)[e := (encoders r ! e)\<lparr>encoder_crtc := Some c\<rparr>]"
  "crtcs (bind_pipe k e c r) =
     (crtcs r)[c := (crtcs r ! c)\<lparr>crtc_display := connector_display (connectors r ! k)\<rparr>]"
  by (simp_all add: bind_pipe_def)

lemma CreateDisplayPipe_find:
  "CreateDisplayPipe k r =
     (case first_fit r k of
        None \<Rightarrow> (- ENODEV, r)
      | Some (e, c) \<Rightarrow> (0, bind_pipe k e c r))"
proof (cases "connector_encoder (connectors r ! k)")
  case None
  then show ?thesis
    by (simp add: CreateDisplayPipe_def first_fit_def encoder_order_def bind_pipe_setters
        try_possible_encoders_find Let_def pipe_candidates_def split: option.split)
next
  case (Some e)
  let ?d = "connector_display (connectors r ! k)"
  have order: "pipe_candidates r (encoder_order r k) =
      map (Pair e) (encoder_candidates r e) @ pipe_candidates r (possible_encoders (connectors r ! k))"
    using Some by (simp add: encoder_order_def pipe_candidates_def)
  show ?thesis
  proof (cases "find (\<lambda>c. can_bind (crtcs r ! c) ?d) (encoder_candidates r e)")
    case None
    with Some show ?thesis
      by (simp add: CreateDisplayPipe_def first_fit_def order find_append_cases
          find_pair_candidates TryEncoderForDisplay_find EAGAIN_nonzero bind_pipe_setters
          try_possible_encoders_find Let_def split: option.split)
  next
    case found: (Some c)
    have "set_encoder k e (set_display c ?d (set_crtc e c r)) = set_display c ?d (set_crtc e c r)"
      using Some by (intro set_encoder_same) (simp add: set_display_def set_crtc_def)
    with Some found show ?thesis
      by (simp add: CreateDisplayPipe_def first_fit_def order find_append_cases
          find_pair_candidates TryEncoderForDisplay_find bind_pipe_setters Let_def)
  qed
qed


text \<open>
  C1. For every Output, CreateDisplayPipe is the first-fit search: the Output's bound
  Encoder (if any) is tried first, then its legal Encoders in listing order; per
  Encoder the current controller is tried first, then the legal controllers in listing
  order. When the first candidate pair whose controller can serve the display is
  (Encoder e, controller c), no earlier candidate can serve it, the call returns 0,
  and afterwards controller c serves the Output's display, Encoder e drives
  controller c and the Output is bound to Encoder e, every other object of the graph
  being as before. When no candidate can serve the display the call returns -ENODEV
  and the graph, the Output's binding included, is left as it was.
\<close>

theorem CreateDisplayPipe_first_fit:
  "CreateDisplayPipe k r =
     (case first_fit r k of
        None \<Rightarrow> (- ENODEV, r)
      | Some (e, c) \<Rightarrow> (0, bind_pipe k e c r)) \<and>
   (first_fit r k = Some (e, c) \<and> k < length (connectors r) \<and> e < length (encoders r) \<and>
    c < length (crtcs r) \<longrightarrow>
      fst (CreateDisplayPipe k r) = 0 \<and>
      (\<exists>i < length (pipe_candidates r (encoder_order r k)).
         pipe_candidates r (encoder_order r k) ! i = (e, c) \<and>
         can_bind (crtcs r ! c) (connector_display (connectors r ! k)) \<and>
         (\<forall>j < i. \<not> can_bind (crtcs r ! snd (pipe_candidates r (encoder_order r k) ! j))
                       (connector_display (connectors r ! k)))) \<and>
      crtc_display (crtcs (snd (CreateDisplayPipe k r)) ! c) =
        connector_display (connectors r ! k) \<and>
      encoder_crtc (encoders (snd (CreateDisplayPipe k r)) ! e) = Some c \<and>
      connector_encoder (connectors (snd (CreateDisplayPipe k r)) ! k) = Some e \<and>
      (\<forall>j. j \<noteq> c \<longrightarrow> crtcs (snd (CreateDisplayPipe k r)) ! j = crtcs r ! j) \<and>
      (\<forall>j. j \<noteq> e \<longrightarrow> encoders (snd (CreateDisplayPipe k r)) ! j = encoders r ! j) \<and>
      (\<forall>j. j \<noteq> k \<longrightarrow> connectors (snd (CreateDisplayPipe k r)) ! j = connectors r ! j) \<and>
      planes (snd (CreateDisplayPipe k r)) = planes r) \<and>
   (first_fit r k = None \<longrightarrow>
      CreateDisplayPipe k r = (- ENODEV, r) \<and>
      (\<forall>ec \<in> set (pipe_candidates r (encoder_order r k)).
         \<not> can_bind (crtcs r ! snd ec) (connector_display (connectors r ! k))))"
proof -
  let ?d = "connector_display (connectors r ! k)"
  let ?cands = "pipe_candidates r (encoder_order r k)"
  have eq: "CreateDisplayPipe k r =
     (case first_fit r k of
        None \<Rightarrow> (- ENODEV, r)
      | Some (e, c) \<Rightarrow> (0, bind_pipe k e c r))"
    by (rule CreateDisplayPipe_find)
  have found: "fst (CreateDisplayPipe k r) = 0 \<and>
      (\<exists>i < length ?cands. ?cands ! i = (e, c) \<and> can_bind (crtcs r ! c) ?d \<and>
         (\<forall>j < i. \<not> can_bind (crtcs r ! snd (?cands ! j)) ?d)) \<and>
      crtc_display (crtcs (snd (CreateDisplayPipe k r)) ! c) = ?d \<and>
      encoder_crtc (encoders (snd (CreateDisplayPipe k r)) ! e) = Some c \<and>
      connector_encoder (connectors (snd (CreateDisplayPipe k r)) ! k) = Some e \<and>
      (\<forall>j. j \<noteq> c \<longrightarrow> crtcs (snd (CreateDisplayPipe k r)) ! j = crtcs r ! j) \<and>
      (\<forall>j. j \<noteq> e \<longrightarrow> encoders (snd (CreateDisplayPipe k r)) ! j = encoders r ! j) \<and>
      (\<forall>j. j \<noteq> k \<longrightarrow> connectors (snd (CreateDisplayPipe k r)) ! j = connectors r ! j) \<and>
      planes (snd (CreateDisplayPipe k r)) = planes r"
    if ff: "first_fit r k = Some (e, c)" and k: "k < length (connectors r)"
      and e: "e < length (encoders r)" and c: "c < length (crtcs r)"
  proof -
    from ff have run: "CreateDisplayPipe k r = (0, bind_pipe k e c r)"
      by (simp add: CreateDisplayPipe_find)
    from ff obtain i where "i < length ?cands" "?cands ! i = (e, c)"
      "can_bind (crtcs r ! c) ?d"
      "\<forall>j < i. \<not> (case ?cands ! j of (e', c') \<Rightarrow> can_bind (crtcs r ! c') ?d)"
      unfolding first_fit_def find_Some_iff by auto
    then have first: "\<exists>i < length ?cands. ?cands ! i = (e, c) \<and> can_bind (crtcs r ! c) ?d \<and>
         (\<forall>j < i. \<not> can_bind (crtcs r ! snd (?cands ! j)) ?d)"
      by (auto simp: case_prod_beta)
    have planes: "planes (bind_pipe k e c r) = planes r" by (simp add: bind_pipe_def)
    from first k e c planes show ?thesis
      unfolding run by (simp add: bind_pipe_fields)
  qed
  have none: "CreateDisplayPipe k r = (- ENODEV, r) \<and>
      (\<forall>ec \<in> set ?cands. \<not> can_bind (crtcs r ! snd ec) ?d)"
    if nf: "first_fit r k = None"
  proof -
    from nf have "CreateDisplayPipe k r = (- ENODEV, r)"
      by (simp add: CreateDisplayPipe_find)
    moreover from nf have "\<forall>ec \<in> set ?cands. \<not> can_bind (crtcs r ! snd ec) ?d"
      by (auto simp: first_fit_def find_None_iff)
    ultimately show ?thesis by simp
  qed
  from eq found none show ?thesis by blast
qed

theorem CreateDisplayPipe_first_fit_witness:
  "first_fit two_output_resources 1 = Some (1, 1) \<and>
   (1::nat) < length (connectors two_output_resources) \<and>
   (1::nat) < length (encoders two_output_resources) \<and>
   (1::nat) < length (crtcs two_output_resources) \<and>
   pipe_candidates two_output_resources (encoder_order two_output_resources 1) =
     [(0, 0), (0, 0), (1, 0), (1, 1)] \<and>
   fst (CreateDisplayPipe 1 two_output_resources) = 0 \<and>
   crtc_display (crtcs (snd (CreateDisplayPipe 1 two_output_resources)) ! 1) = 1 \<and>
   encoder_crtc (encoders (snd (CreateDisplayPipe 1 two_output_resources)) ! 1) = Some 1 \<and>
   connector_encoder (connectors (snd (CreateDisplayPipe 1 two_output_resources)) ! 1) = Some 1 \<and>
   crtcs (snd (CreateDisplayPipe 1 two_output_resources)) ! 0 = crtcs two_output_resources ! 0 \<and>
   first_fit exhausted_resources 1 = None \<and>
   CreateDisplayPipe 1 exhausted_resources = (- ENODEV, exhausted_resources)"
proof -
  have ff: "first_fit two_output_resources 1 = Some (1, 1)" by code_simp
  have len: "(1::nat) < length (connectors two_output_resources)"
    "(1::nat) < length (encoders two_output_resources)"
    "(1::nat) < length (crtcs two_output_resources)" by code_simp+
  have cands: "pipe_candidates two_output_resources (encoder_order two_output_resources 1) =
     [(0, 0), (0, 0), (1, 0), (1, 1)]" by code_simp
  have d: "connector_display (connectors two_output_resources ! 1) = 1" by code_simp
  have none: "first_fit exhausted_resources 1 = None" by code_simp
  from CreateDisplayPipe_first_fit [where k = 1 and r = two_output_resources and e = 1 and c = 1]
    ff len
  have bound: "fst (CreateDisplayPipe 1 two_output_resources) = 0 \<and>
    crtc_display (crtcs (snd (CreateDisplayPipe 1 two_output_resources)) ! 1) =
      connector_display (connectors two_output_resources ! 1) \<and>
    encoder_crtc (encoders (snd (CreateDisplayPipe 1 two_output_resources)) ! 1) = Some 1 \<and>
    connector_encoder (connectors (snd (CreateDisplayPipe 1 two_output_resources)) ! 1) = Some 1"
    and others: "\<forall>j. j \<noteq> 1 \<longrightarrow>
      crtcs (snd (CreateDisplayPipe 1 two_output_resources)) ! j = crtcs two_output_resources ! j"
    by blast+
  from others [rule_format, of 0]
  have zero: "crtcs (snd (CreateDisplayPipe 1 two_output_resources)) ! 0 =
      crtcs two_output_resources ! 0" by simp
  from CreateDisplayPipe_first_fit [where k = 1 and r = exhausted_resources and e = 0 and c = 0]
    none
  have "CreateDisplayPipe 1 exhausted_resources = (- ENODEV, exhausted_resources)" by blast
  with bound zero d show ?thesis using ff len cands none by simp
qed

section \<open>Property blobs: DestroyPropertyBlob\<close>

text \<open>
  C8. DestroyPropertyBlob called with blob id 0 returns success and makes no kernel
  call (the event log is unchanged), however often it is repeated; for a nonzero id
  it makes exactly one kernel destroy call and returns that call's status.
\<close>

theorem DestroyPropertyBlob_zero_or_once:
  "DestroyPropertyBlob kern 0 ev = (0, ev) \<and>
   ((\<lambda>e. snd (DestroyPropertyBlob kern 0 e)) ^^ n) ev = ev \<and>
   (blob \<noteq> 0 \<longrightarrow>
      DestroyPropertyBlob kern blob ev =
        (k_destroy_blob kern ev blob, ev @ [DestroyPropBlob blob (k_destroy_blob kern ev blob)]))"
proof -
  have zero: "DestroyPropertyBlob kern 0 e = (0, e)" for e
    by (simp add: DestroyPropertyBlob_def)
  have "((\<lambda>e. snd (DestroyPropertyBlob kern 0 e)) ^^ n) ev = ev"
    by (induction n) (simp_all add: zero)
  moreover have "blob \<noteq> 0 \<longrightarrow>
      DestroyPropertyBlob kern blob ev =
        (k_destroy_blob kern ev blob, ev @ [DestroyPropBlob blob (k_destroy_blob kern ev blob)])"
    by (simp add: DestroyPropertyBlob_def Let_def)
  ultimately show ?thesis using zero by simp
qed

theorem DestroyPropertyBlob_zero_or_once_witness:
  "(5::nat) \<noteq> 0 \<and>
   DestroyPropertyBlob (ok_kernel\<lparr>k_destroy_blob := (\<lambda>ev blob. - 22)\<rparr>) 5 [] =
     (- 22, [DestroyPropBlob 5 (- 22)]) \<and>
   DestroyPropertyBlob (ok_kernel\<lparr>k_destroy_blob := (\<lambda>ev blob. - 22)\<rparr>) 0 [] = (0, [])"
  using DestroyPropertyBlob_zero_or_once
    [of "ok_kernel\<lparr>k_destroy_blob := (\<lambda>ev blob. - 22)\<rparr>" "[]" 1 5]
  by (simp add: ok_kernel_def)

section \<open>Plane lookup: GetPrimaryPlaneForCrtc\<close>

lemma primary_plane_loop_last:
  "primary_plane_loop ps crtc idx acc =
     (if filter (\<lambda>p. plane_type (ps ! p) = DRM_PLANE_TYPE_PRIMARY \<and> GetCrtcSupported (ps ! p) crtc) idx = []
      then acc
      else Some (last (filter (\<lambda>p. plane_type (ps ! p) = DRM_PLANE_TYPE_PRIMARY \<and>
                                   GetCrtcSupported (ps ! p) crtc) idx)))"
  by (induction idx arbitrary: acc) auto

text \<open>
  C9. GetPrimaryPlaneForCrtc returns, among the planes whose kind is primary and which
  may be attached to the given Pipeline-Controller, the last one in plane-listing
  order, and null when no plane matches.
\<close>

theorem GetPrimaryPlaneForCrtc_last_match:
  "GetPrimaryPlaneForCrtc r crtc =
     (if filter (\<lambda>p. plane_type (planes r ! p) = DRM_PLANE_TYPE_PRIMARY \<and>
                      GetCrtcSupported (planes r ! p) crtc) [0..<length (planes r)] = []
      then None
      else Some (last (filter (\<lambda>p. plane_type (planes r ! p) = DRM_PLANE_TYPE_PRIMARY \<and>
                                    GetCrtcSupported (planes r ! p) crtc)
                         [0..<length (planes r)])))"
  unfolding GetPrimaryPlaneForCrtc_def by (rule primary_plane_loop_last)

section \<open>The frame queue\<close>




















section \<open>Frame path: what the building blocks do to the log\<close>


lemma insert_bo_full: "None \<notin> set cache \<Longrightarrow> insert_bo bo cache = cache"
  by (induction bo cache rule: insert_bo.induct) auto

lemma release_slots_priv:
  "find_bo cache h = None \<Longrightarrow> ReleaseBuffer b \<in> set (release_slots cache) \<Longrightarrow> bo_priv b \<noteq> h"
  by (induction cache h rule: find_bo.induct) (auto split: if_splits)

lemma add_properties_prefix:
  "add_properties kern props pset ev = (res, pset', ev') \<Longrightarrow> prefix ev ev'"
proof (induction props arbitrary: pset ev)
  case Nil
  then show ?case by simp
next
  case (Cons a props)
  obtain fr ob pr vl where a: "a = (fr, ob, pr, vl)" by (cases a)
  show ?case
  proof (cases "k_atomic_add kern ev ob pr vl < 0")
    case True
    with Cons.prems a show ?thesis by (auto simp: Let_def split: if_splits)
  next
    case False
    with Cons.prems a have
      "add_properties kern props (pset @ [(ob, pr, vl)])
         (ev @ [AtomicAddProperty ob pr vl (k_atomic_add kern ev ob pr vl)]) = (res, pset', ev')"
      by (simp add: Let_def)
    from Cons.IH [OF this] show ?thesis by (rule append_prefixD)
  qed
qed

lemma add_properties_filter:
  assumes "\<And>obj prop val ret. \<not> P (AtomicAddProperty obj prop val ret)" and "\<not> P AtomicFree"
  shows "add_properties kern props pset ev = (res, pset', ev') \<Longrightarrow> filter P ev' = filter P ev"
proof (induction props arbitrary: pset ev)
  case Nil
  then show ?case by simp
next
  case (Cons a props)
  obtain fr ob pr vl where a: "a = (fr, ob, pr, vl)" by (cases a)
  show ?case
  proof (cases "k_atomic_add kern ev ob pr vl < 0")
    case True
    with Cons.prems a assms show ?thesis by (auto simp: Let_def split: if_splits)
  next
    case False
    with Cons.prems a have
      "add_properties kern props (pset @ [(ob, pr, vl)])
         (ev @ [AtomicAddProperty ob pr vl (k_atomic_add kern ev ob pr vl)]) = (res, pset', ev')"
      by (simp add: Let_def)
    from Cons.IH [OF this] assms show ?thesis by simp
  qed
qed

lemma add_properties_pset:
  "add_properties kern props pset ev = (None, pset', ev') \<Longrightarrow> pset' = pset @ map snd props"
proof (induction props arbitrary: pset ev)
  case Nil
  then show ?case by simp
next
  case (Cons a props)
  obtain fr ob pr vl where a: "a = (fr, ob, pr, vl)" by (cases a)
  show ?case
  proof (cases "k_atomic_add kern ev ob pr vl < 0")
    case True
    with Cons.prems a show ?thesis by (simp add: Let_def)
  next
    case False
    with Cons.prems a have
      "add_properties kern props (pset @ [(ob, pr, vl)])
         (ev @ [AtomicAddProperty ob pr vl (k_atomic_add kern ev ob pr vl)]) = (None, pset', ev')"
      by (simp add: Let_def)
    from Cons.IH [OF this] a show ?thesis by simp
  qed
qed

lemma add_properties_never_fails:
  "\<forall>ev obj prop val. 0 \<le> k_atomic_add kern ev obj prop val \<Longrightarrow>
   fst (add_properties kern props pset ev) = None"
proof (induction props arbitrary: pset ev)
  case Nil
  then show ?case by simp
next
  case (Cons a props)
  obtain fr ob pr vl where a: "a = (fr, ob, pr, vl)" by (cases a)
  from Cons.prems have "\<not> k_atomic_add kern ev ob pr vl < 0"
    by (simp add: not_less)
  with Cons a show ?case by (simp add: Let_def)
qed

lemma DestroyPropertyBlob_prefix:
  "DestroyPropertyBlob kern blob ev = (ret, ev') \<Longrightarrow> prefix ev ev'"
  by (auto simp: DestroyPropertyBlob_def Let_def split: if_splits)

lemma SetDpmsMode_prefix:
  "SetDpmsMode kern r display mode ev = (ret, ev') \<Longrightarrow> prefix ev ev'"
  by (auto simp: SetDpmsMode_def Let_def split: if_splits option.splits)

lemma DestroyPropertyBlob_commits:
  "DestroyPropertyBlob kern blob ev = (ret, ev') \<Longrightarrow> filter is_commit ev' = filter is_commit ev"
  by (auto simp: DestroyPropertyBlob_def Let_def split: if_splits)

lemma SetDpmsMode_commits:
  "SetDpmsMode kern r display mode ev = (ret, ev') \<Longrightarrow> filter is_commit ev' = filter is_commit ev"
  by (auto simp: SetDpmsMode_def Let_def split: if_splits option.splits)

lemma after_commit_prefix:
  "after_commit kern display k ctx = (ret, ctx') \<Longrightarrow> prefix (events ctx) (events ctx')"
  by (auto simp: after_commit_def Let_def split: if_splits prod.splits
      dest!: DestroyPropertyBlob_prefix SetDpmsMode_prefix)

lemma after_commit_commits:
  "after_commit kern display k ctx = (ret, ctx') \<Longrightarrow>
   filter is_commit (events ctx') = filter is_commit (events ctx)"
  by (auto simp: after_commit_def Let_def split: if_splits prod.splits
      dest!: DestroyPropertyBlob_commits SetDpmsMode_commits)

lemma after_commit_cache:
  "after_commit kern display k ctx = (ret, ctx') \<Longrightarrow>
   hd_bo (displays ctx' d) = hd_bo (displays ctx d)"
  by (auto simp: after_commit_def Let_def split: if_splits prod.splits)



lemma acquire_bo_uncached:
  assumes "find_bo cache handle = None" and "None \<notin> set cache"
  shows "acquire_bo kern handle cache ev =
     (if fst (k_import kern ev handle) \<noteq> 0
      then (fst (k_import kern ev handle), None, cache,
            ev @ [ImportBuffer handle (fst (k_import kern ev handle))])
      else (0, Some (snd (k_import kern ev handle)), cache,
            ev @ [ImportBuffer handle (fst (k_import kern ev handle))]))"
  using assms by (simp add: acquire_bo_def insert_bo_full split: prod.splits)

lemma commit_in_drop:
  assumes "prefix (ev @ pre) ev'" and "filter is_commit ev' = filter is_commit (ev @ pre) @ cs"
  shows "AtomicCommit ps fl st \<in> set (drop (length ev) ev') \<Longrightarrow>
         AtomicCommit ps fl st \<in> set (filter is_commit pre) \<union> set cs"
proof -
  assume m: "AtomicCommit ps fl st \<in> set (drop (length ev) ev')"
  from assms(1) obtain post where ev': "ev' = ev @ pre @ post" by (auto simp: prefix_def)
  with assms(2) have "filter is_commit post = cs" by simp
  with m ev' show ?thesis by auto
qed



lemma add_properties_facts:
  assumes "add_properties kern props pset ev = (res, pset', ev')"
  shows "\<exists>new. ev' = ev @ new \<and> filter is_commit new = [] \<and> filter is_destroy new = [] \<and>
           filter is_set_property new = [] \<and> filter is_alloc new = [] \<and>
           (res = None \<longrightarrow> pset' = pset @ map snd props \<and> filter is_free new = [])"
proof -
  from add_properties_prefix [OF assms] obtain new where new: "ev' = ev @ new"
    by (auto simp: prefix_def)
  have "filter is_commit ev' = filter is_commit ev" "filter is_destroy ev' = filter is_destroy ev"
    "filter is_set_property ev' = filter is_set_property ev" "filter is_alloc ev' = filter is_alloc ev"
    by (rule add_properties_filter [OF _ _ assms]; simp)+
  moreover have "res = None \<longrightarrow> pset' = pset @ map snd props"
    using assms by (auto dest: add_properties_pset)
  moreover have "res = None \<longrightarrow> filter is_free new = []"
    using assms new
  proof (induction props arbitrary: pset ev new)
    case Nil
    then show ?case by simp
  next
    case (Cons a props)
    obtain fr ob pr vl where a: "a = (fr, ob, pr, vl)" by (cases a)
    show ?case
    proof (cases "k_atomic_add kern ev ob pr vl < 0")
      case True
      with Cons.prems a show ?thesis by (auto simp: Let_def split: if_splits)
    next
      case False
      let ?e = "AtomicAddProperty ob pr vl (k_atomic_add kern ev ob pr vl)"
      from False Cons.prems a have step:
        "add_properties kern props (pset @ [(ob, pr, vl)]) (ev @ [?e]) = (res, pset', ev')"
        by (simp add: Let_def)
      from add_properties_prefix [OF step] obtain new' where new': "ev' = (ev @ [?e]) @ new'"
        by (auto simp: prefix_def)
      from Cons.IH [OF step new'] have "res = None \<longrightarrow> filter is_free new' = []" .
      moreover from new' Cons.prems(2) have "new = ?e # new'" by simp
      ultimately show ?thesis by simp
    qed
  qed
  ultimately show ?thesis using new by auto
qed

lemma after_commit_facts:
  assumes "after_commit kern display k ctx = (ret, ctx')"
  shows "\<exists>new. events ctx' = events ctx @ new \<and> filter is_commit new = [] \<and>
           filter is_alloc new = [] \<and> filter is_free new = [] \<and>
           (\<forall>d. hd_bo (displays ctx' d) = hd_bo (displays ctx d))"
  using assms
  by (auto simp: after_commit_def Let_def DestroyPropertyBlob_def SetDpmsMode_def
      split: if_splits prod.splits option.splits)


subsection \<open>The paths through Render and render_fb\<close>


lemma Render_cases [consumes 1, case_names import_failed no_crtc no_plane alloc_failed
    no_connector add_failed commit_failed committed]:
  assumes run: "Render kern display frame handle ctx = (ret, ctx')"
  obtains
    (import_failed) cache ev0 where
      "acquire_bo kern handle (hd_bo (displays ctx display)) (events ctx) = (ret, None, cache, ev0)"
      "ctx' = ctx\<lparr>events := ev0\<rparr>"
  | (no_crtc) r0 bo cache ev0 where
      "acquire_bo kern handle (hd_bo (displays ctx display)) (events ctx) = (r0, Some bo, cache, ev0)"
      "GetCrtcForDisplay (drm ctx) display = None"
      "ret = - ENODEV"
      "ctx' = ctx\<lparr>displays := (displays ctx)(display := (displays ctx display)\<lparr>hd_bo := cache\<rparr>),
                   events := ev0\<rparr>"
  | (no_plane) r0 bo cache ev0 c where
      "acquire_bo kern handle (hd_bo (displays ctx display)) (events ctx) = (r0, Some bo, cache, ev0)"
      "GetCrtcForDisplay (drm ctx) display = Some c"
      "GetPrimaryPlaneForCrtc (drm ctx) (crtcs (drm ctx) ! c) = None"
      "ret = - ENODEV"
      "ctx' = ctx\<lparr>displays := (displays ctx)(display := (displays ctx display)\<lparr>hd_bo := cache\<rparr>),
                   events := ev0\<rparr>"
  | (alloc_failed) r0 bo cache ev0 c p where
      "acquire_bo kern handle (hd_bo (displays ctx display)) (events ctx) = (r0, Some bo, cache, ev0)"
      "GetCrtcForDisplay (drm ctx) display = Some c"
      "GetPrimaryPlaneForCrtc (drm ctx) (crtcs (drm ctx) ! c) = Some p"
      "\<not> k_atomic_alloc kern ev0"
      "ret = - ENOMEM"
      "ctx' = ctx\<lparr>displays := (displays ctx)(display := (displays ctx display)\<lparr>hd_bo := cache\<rparr>),
                   events := ev0 @ [AtomicAlloc False]\<rparr>"
  | (no_connector) r0 bo cache ev0 c p where
      "acquire_bo kern handle (hd_bo (displays ctx display)) (events ctx) = (r0, Some bo, cache, ev0)"
      "GetCrtcForDisplay (drm ctx) display = Some c"
      "GetPrimaryPlaneForCrtc (drm ctx) (crtcs (drm ctx) ! c) = Some p"
      "k_atomic_alloc kern ev0"
      "GetConnectorForDisplay (drm ctx) display = None"
      "ret = - ENODEV"
      "ctx' = ctx\<lparr>displays := (displays ctx)(display := (displays ctx display)\<lparr>hd_bo := cache\<rparr>),
                   events := ev0 @ [AtomicAlloc True]\<rparr>"
  | (add_failed) r0 bo cache ev0 c p k pset ev2 where
      "acquire_bo kern handle (hd_bo (displays ctx display)) (events ctx) = (r0, Some bo, cache, ev0)"
      "GetCrtcForDisplay (drm ctx) display = Some c"
      "GetPrimaryPlaneForCrtc (drm ctx) (crtcs (drm ctx) ! c) = Some p"
      "k_atomic_alloc kern ev0"
      "GetConnectorForDisplay (drm ctx) display = Some k"
      "add_properties kern
         ((if needs_modeset (displays ctx display)
           then modeset_properties (crtcs (drm ctx) ! c) (connectors (drm ctx) ! k)
                  (planes (drm ctx) ! p) (blob_id (displays ctx display)) frame
           else []) @ fb_property (planes (drm ctx) ! p) bo)
         [] (ev0 @ [AtomicAlloc True]) = (Some ret, pset, ev2)"
      "ctx' = ctx\<lparr>displays := (displays ctx)(display := (displays ctx display)\<lparr>hd_bo := cache\<rparr>),
                   events := ev2\<rparr>"
  | (commit_failed) r0 bo cache ev0 c p k pset ev2 where
      "acquire_bo kern handle (hd_bo (displays ctx display)) (events ctx) = (r0, Some bo, cache, ev0)"
      "GetCrtcForDisplay (drm ctx) display = Some c"
      "GetPrimaryPlaneForCrtc (drm ctx) (crtcs (drm ctx) ! c) = Some p"
      "k_atomic_alloc kern ev0"
      "GetConnectorForDisplay (drm ctx) display = Some k"
      "add_properties kern
         ((if needs_modeset (displays ctx display)
           then modeset_properties (crtcs (drm ctx) ! c) (connectors (drm ctx) ! k)
                  (planes (drm ctx) ! p) (blob_id (displays ctx display)) frame
           else []) @ fb_property (planes (drm ctx) ! p) bo)
         [] (ev0 @ [AtomicAlloc True]) = (None, pset, ev2)"
      "ret = k_atomic_commit kern ev2 pset DRM_MODE_ATOMIC_ALLOW_MODESET"
      "ret \<noteq> 0"
      "ctx' = ctx\<lparr>displays := (displays ctx)(display := (displays ctx display)\<lparr>hd_bo := cache\<rparr>),
                   events := ev2 @ [AtomicCommit pset DRM_MODE_ATOMIC_ALLOW_MODESET ret, AtomicFree]\<rparr>"
  | (committed) r0 bo cache ev0 c p k pset ev2 where
      "acquire_bo kern handle (hd_bo (displays ctx display)) (events ctx) = (r0, Some bo, cache, ev0)"
      "GetCrtcForDisplay (drm ctx) display = Some c"
      "GetPrimaryPlaneForCrtc (drm ctx) (crtcs (drm ctx) ! c) = Some p"
      "k_atomic_alloc kern ev0"
      "GetConnectorForDisplay (drm ctx) display = Some k"
      "add_properties kern
         ((if needs_modeset (displays ctx display)
           then modeset_properties (crtcs (drm ctx) ! c) (connectors (drm ctx) ! k)
                  (planes (drm ctx) ! p) (blob_id (displays ctx display)) frame
           else []) @ fb_property (planes (drm ctx) ! p) bo)
         [] (ev0 @ [AtomicAlloc True]) = (None, pset, ev2)"
      "k_atomic_commit kern ev2 pset DRM_MODE_ATOMIC_ALLOW_MODESET = 0"
      "after_commit kern display k
         (ctx\<lparr>displays := (displays ctx)(display := (displays ctx display)\<lparr>hd_bo := cache\<rparr>),
              events := ev2 @ [AtomicCommit pset DRM_MODE_ATOMIC_ALLOW_MODESET 0, AtomicFree]\<rparr>)
        = (ret, ctx')"
proof -
  obtain r0 bo_opt cache ev0 where
    acq: "acquire_bo kern handle (hd_bo (displays ctx display)) (events ctx) = (r0, bo_opt, cache, ev0)"
    by (metis prod_cases4)
  show thesis
  proof (cases bo_opt)
    case None
    with run acq show thesis by (intro import_failed) (auto simp: Render_def Let_def)
  next
    case bo: (Some bo)
    show thesis
    proof (cases "GetCrtcForDisplay (drm ctx) display")
      case None
      with run acq bo show thesis by (intro no_crtc) (auto simp: Render_def Let_def)
    next
      case c: (Some c)
      show thesis
      proof (cases "GetPrimaryPlaneForCrtc (drm ctx) (crtcs (drm ctx) ! c)")
        case None
        with run acq bo c show thesis by (intro no_plane) (auto simp: Render_def Let_def)
      next
        case p: (Some p)
        show thesis
        proof (cases "k_atomic_alloc kern ev0")
          case False
          with run acq bo c p show thesis
            by (intro alloc_failed) (auto simp: Render_def Let_def)
        next
          case alloc: True
          show thesis
          proof (cases "GetConnectorForDisplay (drm ctx) display")
            case None
            with run acq bo c p alloc show thesis
              by (intro no_connector) (auto simp: Render_def Let_def)
          next
            case k: (Some k)
            obtain res pset ev2 where add: "add_properties kern
               ((if needs_modeset (displays ctx display)
                 then modeset_properties (crtcs (drm ctx) ! c) (connectors (drm ctx) ! k)
                        (planes (drm ctx) ! p) (blob_id (displays ctx display)) frame
                 else []) @ fb_property (planes (drm ctx) ! p) bo)
               [] (ev0 @ [AtomicAlloc True]) = (res, pset, ev2)"
              by (metis prod_cases3)
            show thesis
            proof (cases res)
              case (Some r)
              with run acq bo c p alloc k add show thesis
                by (intro add_failed) (auto simp: Render_def Let_def)
            next
              case None
              show thesis
              proof (cases "k_atomic_commit kern ev2 pset DRM_MODE_ATOMIC_ALLOW_MODESET = 0")
                case False
                with run acq bo c p alloc k add None show thesis
                  by (intro commit_failed) (auto simp: Render_def Let_def)
              next
                case True
                with run acq bo c p alloc k add None show thesis
                  by (intro committed) (auto simp: Render_def Let_def)
              qed
            qed
          qed
        qed
      qed
    qed
  qed
qed

lemma fence_wait_if:
  "(if 0 \<le> layer_acquireFenceFd l then xs @ [SyncWait (layer_acquireFenceFd l)] else xs) =
   xs @ fence_wait l"
  by (simp add: fence_wait_def)

lemma fence_close_if:
  "(if 0 \<le> layer_acquireFenceFd l then xs @ [CloseFd (layer_acquireFenceFd l)] else xs) =
   xs @ fence_close l"
  by (simp add: fence_close_def)

lemma fence_closed_if:
  "(if 0 \<le> layer_acquireFenceFd l then l\<lparr>layer_acquireFenceFd := - 1\<rparr> else l) = fence_closed l"
  by (simp add: fence_closed_def)

lemma render_fb_cases [consumes 1, case_names null_handle import_failed no_crtc no_plane alloc_failed
    no_connector add_failed commit_failed committed]:
  assumes run: "render_fb kern display fb_layer ctx = (ret, layer', ctx')"
  obtains
    (null_handle)
      "layer_handle fb_layer = 0" "ret = - EINVAL" "layer' = fb_layer" "ctx' = ctx"
  |    (import_failed) cache ev0 where
      "acquire_bo kern (layer_handle fb_layer) (hd_bo (displays ctx display)) (events ctx) = (ret, None, cache, ev0)"
      "ctx' = ctx\<lparr>events := ev0\<rparr>"
      "layer' = fb_layer"
  | (no_crtc) r0 bo cache ev0 where
      "acquire_bo kern (layer_handle fb_layer) (hd_bo (displays ctx display)) (events ctx) = (r0, Some bo, cache, ev0)"
      "GetCrtcForDisplay (drm ctx) display = None"
      "ret = - ENODEV"
      "ctx' = ctx\<lparr>displays := (displays ctx)(display := (displays ctx display)\<lparr>hd_bo := cache\<rparr>),
                   events := ev0\<rparr>"
      "layer' = fb_layer"
  | (no_plane) r0 bo cache ev0 c where
      "acquire_bo kern (layer_handle fb_layer) (hd_bo (displays ctx display)) (events ctx) = (r0, Some bo, cache, ev0)"
      "GetCrtcForDisplay (drm ctx) display = Some c"
      "GetPrimaryPlaneForCrtc (drm ctx) (crtcs (drm ctx) ! c) = None"
      "ret = - ENODEV"
      "ctx' = ctx\<lparr>displays := (displays ctx)(display := (displays ctx display)\<lparr>hd_bo := cache\<rparr>),
                   events := ev0\<rparr>"
      "layer' = fb_layer"
  | (alloc_failed) r0 bo cache ev0 c p where
      "acquire_bo kern (layer_handle fb_layer) (hd_bo (displays ctx display)) (events ctx) = (r0, Some bo, cache, ev0)"
      "GetCrtcForDisplay (drm ctx) display = Some c"
      "GetPrimaryPlaneForCrtc (drm ctx) (crtcs (drm ctx) ! c) = Some p"
      "\<not> k_atomic_alloc kern ev0"
      "ret = - ENOMEM"
      "ctx' = ctx\<lparr>displays := (displays ctx)(display := (displays ctx display)\<lparr>hd_bo := cache\<rparr>),
                   events := ev0 @ [AtomicAlloc False]\<rparr>"
      "layer' = fb_layer"
  | (no_connector) r0 bo cache ev0 c p where
      "acquire_bo kern (layer_handle fb_layer) (hd_bo (displays ctx display)) (events ctx) = (r0, Some bo, cache, ev0)"
      "GetCrtcForDisplay (drm ctx) display = Some c"
      "GetPrimaryPlaneForCrtc (drm ctx) (crtcs (drm ctx) ! c) = Some p"
      "k_atomic_alloc kern ev0"
      "GetConnectorForDisplay (drm ctx) display = None"
      "ret = - ENODEV"
      "ctx' = ctx\<lparr>displays := (displays ctx)(display := (displays ctx display)\<lparr>hd_bo := cache\<rparr>),
                   events := ev0 @ [AtomicAlloc True]\<rparr>"
      "layer' = fb_layer"
  | (add_failed) r0 bo cache ev0 c p k pset ev2 where
      "acquire_bo kern (layer_handle fb_layer) (hd_bo (displays ctx display)) (events ctx) = (r0, Some bo, cache, ev0)"
      "GetCrtcForDisplay (drm ctx) display = Some c"
      "GetPrimaryPlaneForCrtc (drm ctx) (crtcs (drm ctx) ! c) = Some p"
      "k_atomic_alloc kern ev0"
      "GetConnectorForDisplay (drm ctx) display = Some k"
      "add_properties kern
         ((if needs_modeset (displays ctx display)
           then modeset_properties (crtcs (drm ctx) ! c) (connectors (drm ctx) ! k)
                  (planes (drm ctx) ! p) (blob_id (displays ctx display)) (layer_displayFrame fb_layer)
           else []) @ fb_property (planes (drm ctx) ! p) bo)
         [] (ev0 @ [AtomicAlloc True]) = (Some ret, pset, ev2)"
      "ctx' = ctx\<lparr>displays := (displays ctx)(display := (displays ctx display)\<lparr>hd_bo := cache\<rparr>),
                   events := ev2\<rparr>"
      "layer' = fb_layer"
  | (commit_failed) r0 bo cache ev0 c p k pset ev2 where
      "acquire_bo kern (layer_handle fb_layer) (hd_bo (displays ctx display)) (events ctx) = (r0, Some bo, cache, ev0)"
      "GetCrtcForDisplay (drm ctx) display = Some c"
      "GetPrimaryPlaneForCrtc (drm ctx) (crtcs (drm ctx) ! c) = Some p"
      "k_atomic_alloc kern ev0"
      "GetConnectorForDisplay (drm ctx) display = Some k"
      "add_properties kern
         ((if needs_modeset (displays ctx display)
           then modeset_properties (crtcs (drm ctx) ! c) (connectors (drm ctx) ! k)
                  (planes (drm ctx) ! p) (blob_id (displays ctx display)) (layer_displayFrame fb_layer)
           else []) @ fb_property (planes (drm ctx) ! p) bo)
         [] (ev0 @ [AtomicAlloc True]) = (None, pset, ev2)"
      "ret = k_atomic_commit kern (ev2 @ fence_wait fb_layer) pset DRM_MODE_ATOMIC_ALLOW_MODESET"
      "ret \<noteq> 0"
      "layer' = fence_closed fb_layer"
      "ctx' = ctx\<lparr>displays := (displays ctx)(display := (displays ctx display)\<lparr>hd_bo := cache\<rparr>),
                   events := ev2 @ fence_wait fb_layer @
                     [AtomicCommit pset DRM_MODE_ATOMIC_ALLOW_MODESET ret] @
                     fence_close fb_layer @ [AtomicFree]\<rparr>"
  | (committed) r0 bo cache ev0 c p k pset ev2 where
      "acquire_bo kern (layer_handle fb_layer) (hd_bo (displays ctx display)) (events ctx) = (r0, Some bo, cache, ev0)"
      "GetCrtcForDisplay (drm ctx) display = Some c"
      "GetPrimaryPlaneForCrtc (drm ctx) (crtcs (drm ctx) ! c) = Some p"
      "k_atomic_alloc kern ev0"
      "GetConnectorForDisplay (drm ctx) display = Some k"
      "add_properties kern
         ((if needs_modeset (displays ctx display)
           then modeset_properties (crtcs (drm ctx) ! c) (connectors (drm ctx) ! k)
                  (planes (drm ctx) ! p) (blob_id (displays ctx display)) (layer_displayFrame fb_layer)
           else []) @ fb_property (planes (drm ctx) ! p) bo)
         [] (ev0 @ [AtomicAlloc True]) = (None, pset, ev2)"
      "k_atomic_commit kern (ev2 @ fence_wait fb_layer) pset DRM_MODE_ATOMIC_ALLOW_MODESET = 0"
      "layer' = fence_closed fb_layer"
      "after_commit kern display k
         (ctx\<lparr>displays := (displays ctx)(display := (displays ctx display)\<lparr>hd_bo := cache\<rparr>),
              events := ev2 @ fence_wait fb_layer @
                [AtomicCommit pset DRM_MODE_ATOMIC_ALLOW_MODESET 0] @
                fence_close fb_layer @ [AtomicFree]\<rparr>)
        = (ret, ctx')"
proof -
  obtain r0 bo_opt cache ev0 where
    acq: "acquire_bo kern (layer_handle fb_layer) (hd_bo (displays ctx display)) (events ctx) = (r0, bo_opt, cache, ev0)"
    by (metis prod_cases4)
  show thesis
  proof (cases "layer_handle fb_layer = 0")
    case True
    with run show thesis by (intro null_handle) (auto simp: render_fb_def Let_def)
  next
    case nz: False
    show thesis
  proof (cases bo_opt)
    case None
    with run nz acq show thesis by (intro import_failed) (auto simp: render_fb_def Let_def fence_wait_if fence_close_if fence_closed_if split: prod.splits)
  next
    case bo: (Some bo)
    show thesis
    proof (cases "GetCrtcForDisplay (drm ctx) display")
      case None
      with run nz acq bo show thesis by (intro no_crtc) (auto simp: render_fb_def Let_def fence_wait_if fence_close_if fence_closed_if split: prod.splits)
    next
      case c: (Some c)
      show thesis
      proof (cases "GetPrimaryPlaneForCrtc (drm ctx) (crtcs (drm ctx) ! c)")
        case None
        with run nz acq bo c show thesis by (intro no_plane) (auto simp: render_fb_def Let_def fence_wait_if fence_close_if fence_closed_if split: prod.splits)
      next
        case p: (Some p)
        show thesis
        proof (cases "k_atomic_alloc kern ev0")
          case False
          with run nz acq bo c p show thesis
            by (intro alloc_failed) (auto simp: render_fb_def Let_def fence_wait_if fence_close_if fence_closed_if split: prod.splits)
        next
          case alloc: True
          show thesis
          proof (cases "GetConnectorForDisplay (drm ctx) display")
            case None
            with run nz acq bo c p alloc show thesis
              by (intro no_connector) (auto simp: render_fb_def Let_def fence_wait_if fence_close_if fence_closed_if split: prod.splits)
          next
            case k: (Some k)
            obtain res pset ev2 where add: "add_properties kern
               ((if needs_modeset (displays ctx display)
                 then modeset_properties (crtcs (drm ctx) ! c) (connectors (drm ctx) ! k)
                        (planes (drm ctx) ! p) (blob_id (displays ctx display)) (layer_displayFrame fb_layer)
                 else []) @ fb_property (planes (drm ctx) ! p) bo)
               [] (ev0 @ [AtomicAlloc True]) = (res, pset, ev2)"
              by (metis prod_cases3)
            show thesis
            proof (cases res)
              case (Some r)
              with run nz acq bo c p alloc k add show thesis
                by (intro add_failed) (auto simp: render_fb_def Let_def fence_wait_if fence_close_if fence_closed_if split: prod.splits)
            next
              case None
              show thesis
              proof (cases "k_atomic_commit kern (ev2 @ fence_wait fb_layer) pset DRM_MODE_ATOMIC_ALLOW_MODESET = 0")
                case False
                with run nz acq bo c p alloc k add None show thesis
                  by (intro commit_failed) (auto simp: render_fb_def Let_def fence_wait_if fence_close_if fence_closed_if split: prod.splits)
              next
                case True
                with run nz acq bo c p alloc k add None show thesis
                  by (intro committed) (auto simp: render_fb_def Let_def fence_wait_if fence_close_if fence_closed_if split: prod.splits)
              qed
            qed
          qed
        qed
      qed
    qed
  qed
qed
qed



lemma uncached_frameI:
  assumes "find_bo (hd_bo (displays ctx display)) handle = None"
      and "None \<notin> set (hd_bo (displays ctx display))"
      and "hd_bo (displays ctx' display) = hd_bo (displays ctx display)"
      and "events ctx' = events ctx @ ImportBuffer handle (fst (k_import kern (events ctx) handle)) # new"
      and "\<And>ps fl st. AtomicCommit ps fl st \<in> set new \<Longrightarrow>
             ps \<noteq> [] \<and>
             snd (snd (last ps)) = of_nat (bo_fb_id (snd (k_import kern (events ctx) handle)))"
  shows "uncached_frame kern ctx display handle ctx'"
  using assms unfolding uncached_frame_def
  by (auto dest: release_slots_priv)

lemma Render_uncached:
  assumes miss: "find_bo (hd_bo (displays ctx display)) handle = None"
      and full: "None \<notin> set (hd_bo (displays ctx display))"
      and run: "Render kern display frame handle ctx = (ret, ctx')"
  shows "uncached_frame kern ctx display handle ctx'"
proof -
  note acq = acquire_bo_uncached [OF miss full, of kern "events ctx"]
  from run show ?thesis
  proof (cases rule: Render_cases)
    case (import_failed cache ev0)
    with acq show ?thesis
      by (intro uncached_frameI [OF miss full, where new = "[]"]) (auto split: if_splits)
  next
    case (no_crtc r0 bo cache ev0)
    with acq show ?thesis
      by (intro uncached_frameI [OF miss full, where new = "[]"]) (auto split: if_splits)
  next
    case (no_plane r0 bo cache ev0 c)
    with acq show ?thesis
      by (intro uncached_frameI [OF miss full, where new = "[]"]) (auto split: if_splits)
  next
    case (alloc_failed r0 bo cache ev0 c p)
    with acq show ?thesis
      by (intro uncached_frameI [OF miss full, where new = "[AtomicAlloc False]"])
         (auto split: if_splits)
  next
    case (no_connector r0 bo cache ev0 c p)
    with acq show ?thesis
      by (intro uncached_frameI [OF miss full, where new = "[AtomicAlloc True]"])
         (auto split: if_splits)
  next
    case (add_failed r0 bo cache ev0 c p k pset ev2)
    from add_properties_facts [OF add_failed(6)] obtain new where
      new: "ev2 = (ev0 @ [AtomicAlloc True]) @ new" "filter is_commit new = []" by blast
    with add_failed acq show ?thesis
      by (intro uncached_frameI [OF miss full, where new = "AtomicAlloc True # new"])
         (auto split: if_splits simp: filter_empty_conv)
  next
    case (commit_failed r0 bo cache ev0 c p k pset ev2)
    from add_properties_facts [OF commit_failed(6)] obtain new where
      new: "ev2 = (ev0 @ [AtomicAlloc True]) @ new" "filter is_commit new = []"
        "pset = [] @ map snd ((if needs_modeset (displays ctx display)
           then modeset_properties (crtcs (drm ctx) ! c) (connectors (drm ctx) ! k)
                  (planes (drm ctx) ! p) (blob_id (displays ctx display)) frame
           else []) @ fb_property (planes (drm ctx) ! p) bo)" by blast
    with commit_failed acq show ?thesis
      by (intro uncached_frameI [OF miss full, where
            new = "AtomicAlloc True # new @ [AtomicCommit pset DRM_MODE_ATOMIC_ALLOW_MODESET ret, AtomicFree]"])
         (auto split: if_splits simp: filter_empty_conv fb_property_def)
  next
    case (committed r0 bo cache ev0 c p k pset ev2)
    from add_properties_facts [OF committed(6)] obtain new where
      new: "ev2 = (ev0 @ [AtomicAlloc True]) @ new" "filter is_commit new = []"
        "pset = [] @ map snd ((if needs_modeset (displays ctx display)
           then modeset_properties (crtcs (drm ctx) ! c) (connectors (drm ctx) ! k)
                  (planes (drm ctx) ! p) (blob_id (displays ctx display)) frame
           else []) @ fb_property (planes (drm ctx) ! p) bo)" by blast
    from after_commit_facts [OF committed(8)] obtain post where
      post: "events ctx' = (ev2 @ [AtomicCommit pset DRM_MODE_ATOMIC_ALLOW_MODESET 0, AtomicFree]) @ post"
        "filter is_commit post = []"
        "hd_bo (displays ctx' display) = cache" by auto
    with new committed acq show ?thesis
      by (intro uncached_frameI [OF miss full, where
            new = "AtomicAlloc True # new @ [AtomicCommit pset DRM_MODE_ATOMIC_ALLOW_MODESET 0, AtomicFree] @ post"])
         (auto split: if_splits simp: filter_empty_conv fb_property_def)
  qed
qed



lemma acquire_bo_facts:
  assumes "acquire_bo kern handle cache ev = (r, bo, cache', ev')"
  shows "\<exists>imp. ev' = ev @ imp \<and> filter is_commit imp = [] \<and> filter is_destroy imp = [] \<and>
           filter is_set_property imp = [] \<and> filter is_alloc imp = [] \<and> filter is_free imp = []"
  using assms by (auto simp: acquire_bo_def split: option.splits prod.splits if_splits)

lemma fence_filters [simp]:
  "filter is_commit (fence_wait l) = []" "filter is_commit (fence_close l) = []"
  "filter is_destroy (fence_wait l) = []" "filter is_destroy (fence_close l) = []"
  "filter is_set_property (fence_wait l) = []" "filter is_set_property (fence_close l) = []"
  "filter is_alloc (fence_wait l) = []" "filter is_alloc (fence_close l) = []"
  "filter is_free (fence_wait l) = []" "filter is_free (fence_close l) = []"
  by (simp_all add: fence_wait_def fence_close_def)

lemma modeset_transaction_props:
  "map snd (modeset_properties crtc connector plane blob frame) @ map snd (fb_property plane bo) =
   modeset_transaction crtc connector plane blob frame (bo_fb_id bo)"
  by (simp add: modeset_properties_def fb_property_def modeset_transaction_def)

lemma Render_pending_modeset:
  assumes nm: "needs_modeset (displays ctx display)"
      and c: "GetCrtcForDisplay (drm ctx) display = Some c"
      and p: "GetPrimaryPlaneForCrtc (drm ctx) (crtcs (drm ctx) ! c) = Some p"
      and k: "GetConnectorForDisplay (drm ctx) display = Some k"
      and acq: "acquire_bo kern handle (hd_bo (displays ctx display)) (events ctx) =
                  (r0, Some bo, cache, ev0)"
      and run: "Render kern display frame handle ctx = (ret, ctx')"
  shows "pending_modeset_frame ctx display
           (modeset_transaction (crtcs (drm ctx) ! c) (connectors (drm ctx) ! k)
              (planes (drm ctx) ! p) (blob_id (displays ctx display)) frame (bo_fb_id bo))
           ret ctx'"
proof -
  from acquire_bo_facts [OF acq] obtain imp where
    imp: "ev0 = events ctx @ imp" "filter is_commit imp = []" "filter is_destroy imp = []"
      "filter is_set_property imp = []" by blast
  from run show ?thesis
  proof (cases rule: Render_cases)
    case (import_failed cache ev0)
    with acq show ?thesis by simp
  next
    case (no_crtc r0 bo cache ev0)
    with c show ?thesis by simp
  next
    case (no_plane r0 bo cache ev0 c)
    with c p show ?thesis by simp
  next
    case (alloc_failed r0' bo' cache' ev0' c' p')
    with acq imp have "ev0' = events ctx @ imp" by simp
    with alloc_failed imp show ?thesis by (simp add: pending_modeset_frame_def)
  next
    case (no_connector r0 bo cache ev0 c p)
    with k show ?thesis by simp
  next
    case (add_failed r0' bo' cache' ev0' c' p' k' pset ev2)
    from add_failed acq imp have "ev0' = events ctx @ imp" by simp
    moreover from add_properties_facts [OF add_failed(6)] obtain new where
      "ev2 = (ev0' @ [AtomicAlloc True]) @ new" "filter is_commit new = []" by blast
    ultimately show ?thesis using add_failed(7) imp by (simp add: pending_modeset_frame_def)
  next
    case (commit_failed r0' bo' cache' ev0' c' p' k' pset ev2)
    with acq c p k have same: "bo' = bo" "cache' = cache" "ev0' = ev0" "c' = c" "p' = p" "k' = k"
      by simp_all
    from add_properties_facts [OF commit_failed(6)] nm same obtain new where
      new: "ev2 = (ev0 @ [AtomicAlloc True]) @ new" "filter is_commit new = []"
        "filter is_destroy new = []" "filter is_set_property new = []"
        "pset = modeset_transaction (crtcs (drm ctx) ! c) (connectors (drm ctx) ! k)
              (planes (drm ctx) ! p) (blob_id (displays ctx display)) frame (bo_fb_id bo)"
      by (auto simp: modeset_transaction_props)
    with commit_failed(7-9) same imp nm show ?thesis
      by (simp add: pending_modeset_frame_def)
  next
    case (committed r0' bo' cache' ev0' c' p' k' pset ev2)
    with acq c p k have same: "bo' = bo" "cache' = cache" "ev0' = ev0" "c' = c" "p' = p" "k' = k"
      by simp_all
    from add_properties_facts [OF committed(6)] nm same obtain new where
      new: "ev2 = (ev0 @ [AtomicAlloc True]) @ new" "filter is_commit new = []"
        "pset = modeset_transaction (crtcs (drm ctx) ! c) (connectors (drm ctx) ! k)
              (planes (drm ctx) ! p) (blob_id (displays ctx display)) frame (bo_fb_id bo)"
      by (auto simp: modeset_transaction_props)
    from after_commit_facts [OF committed(8)] obtain post where
      post: "events ctx' = (ev2 @ [AtomicCommit pset DRM_MODE_ATOMIC_ALLOW_MODESET 0, AtomicFree]) @ post"
        "filter is_commit post = []" by auto
    with new imp show ?thesis
      by (simp add: pending_modeset_frame_def)
  qed
qed

lemma Render_commits:
  assumes c: "GetCrtcForDisplay (drm ctx) display = Some c"
      and p: "GetPrimaryPlaneForCrtc (drm ctx) (crtcs (drm ctx) ! c) = Some p"
      and k: "GetConnectorForDisplay (drm ctx) display = Some k"
      and acq: "acquire_bo kern handle (hd_bo (displays ctx display)) (events ctx) =
                  (r0, Some bo, cache, ev0)"
      and nf: "never_fails_building kern"
      and run: "Render kern display frame handle ctx = (ret, ctx')"
  shows "length (filter is_commit (events ctx')) = Suc (length (filter is_commit (events ctx)))"
proof -
  from acquire_bo_facts [OF acq] obtain imp where
    imp: "ev0 = events ctx @ imp" "filter is_commit imp = []" by blast
  from nf have add_ok: "fst (add_properties kern props pset ev) = None" for props pset ev
    by (intro add_properties_never_fails) (simp add: never_fails_building_def)
  from run show ?thesis
  proof (cases rule: Render_cases)
    case (import_failed cache ev0)
    with acq show ?thesis by simp
  next
    case (no_crtc r0 bo cache ev0)
    with c show ?thesis by simp
  next
    case (no_plane r0 bo cache ev0 c)
    with c p show ?thesis by simp
  next
    case (alloc_failed r0' bo' cache' ev0' c' p')
    with nf show ?thesis by (simp add: never_fails_building_def)
  next
    case (no_connector r0 bo cache ev0 c p)
    with k show ?thesis by simp
  next
    case (add_failed r0' bo' cache' ev0' c' p' k' pset ev2)
    from add_failed(6) add_ok show ?thesis by (metis fst_conv option.distinct(1))
  next
    case (commit_failed r0' bo' cache' ev0' c' p' k' pset ev2)
    from commit_failed acq imp have "ev0' = events ctx @ imp" by simp
    moreover from add_properties_facts [OF commit_failed(6)] obtain new where
      "ev2 = (ev0' @ [AtomicAlloc True]) @ new" "filter is_commit new = []" by blast
    ultimately show ?thesis using commit_failed(9) imp by simp
  next
    case (committed r0' bo' cache' ev0' c' p' k' pset ev2)
    from committed acq imp have "ev0' = events ctx @ imp" by simp
    moreover from add_properties_facts [OF committed(6)] obtain new where
      new: "ev2 = (ev0' @ [AtomicAlloc True]) @ new" "filter is_commit new = []" by blast
    moreover from after_commit_facts [OF committed(8)] obtain post where
      post: "events ctx' = (ev2 @ [AtomicCommit pset DRM_MODE_ATOMIC_ALLOW_MODESET 0, AtomicFree]) @ post"
        "filter is_commit post = []" by auto
    ultimately show ?thesis using imp by simp
  qed
qed



lemma fence_no_commit [simp]:
  "AtomicCommit ps fl st \<notin> set (fence_wait l)" "AtomicCommit ps fl st \<notin> set (fence_close l)"
  by (simp_all add: fence_wait_def fence_close_def)

lemma render_fb_uncached:
  assumes miss: "find_bo (hd_bo (displays ctx display)) (layer_handle fb_layer) = None"
      and full: "None \<notin> set (hd_bo (displays ctx display))"
      and nz: "layer_handle fb_layer \<noteq> 0"
      and run: "render_fb kern display fb_layer ctx = (ret, layer', ctx')"
  shows "uncached_frame kern ctx display (layer_handle fb_layer) ctx'"
proof -
  note acq = acquire_bo_uncached [OF miss full, of kern "events ctx"]
  from run show ?thesis
  proof (cases rule: render_fb_cases)
    case null_handle
    with nz show ?thesis by simp
  next
    case (import_failed cache ev0)
    with acq show ?thesis
      by (intro uncached_frameI [OF miss full, where new = "[]"]) (auto split: if_splits)
  next
    case (no_crtc r0 bo cache ev0)
    with acq show ?thesis
      by (intro uncached_frameI [OF miss full, where new = "[]"]) (auto split: if_splits)
  next
    case (no_plane r0 bo cache ev0 c)
    with acq show ?thesis
      by (intro uncached_frameI [OF miss full, where new = "[]"]) (auto split: if_splits)
  next
    case (alloc_failed r0 bo cache ev0 c p)
    with acq show ?thesis
      by (intro uncached_frameI [OF miss full, where new = "[AtomicAlloc False]"])
         (auto split: if_splits)
  next
    case (no_connector r0 bo cache ev0 c p)
    with acq show ?thesis
      by (intro uncached_frameI [OF miss full, where new = "[AtomicAlloc True]"])
         (auto split: if_splits)
  next
    case (add_failed r0 bo cache ev0 c p k pset ev2)
    from add_properties_facts [OF add_failed(6)] obtain new where
      new: "ev2 = (ev0 @ [AtomicAlloc True]) @ new" "filter is_commit new = []" by blast
    with add_failed acq show ?thesis
      by (intro uncached_frameI [OF miss full, where new = "AtomicAlloc True # new"])
         (auto split: if_splits simp: filter_empty_conv)
  next
    case (commit_failed r0 bo cache ev0 c p k pset ev2)
    from add_properties_facts [OF commit_failed(6)] obtain new where
      new: "ev2 = (ev0 @ [AtomicAlloc True]) @ new" "filter is_commit new = []"
        "pset = [] @ map snd ((if needs_modeset (displays ctx display)
           then modeset_properties (crtcs (drm ctx) ! c) (connectors (drm ctx) ! k)
                  (planes (drm ctx) ! p) (blob_id (displays ctx display)) (layer_displayFrame fb_layer)
           else []) @ fb_property (planes (drm ctx) ! p) bo)" by blast
    with commit_failed acq show ?thesis
      by (intro uncached_frameI [OF miss full, where
            new = "AtomicAlloc True # new @ fence_wait fb_layer @ [AtomicCommit pset DRM_MODE_ATOMIC_ALLOW_MODESET ret] @ fence_close fb_layer @ [AtomicFree]"])
         (auto split: if_splits simp: filter_empty_conv fb_property_def)
  next
    case (committed r0 bo cache ev0 c p k pset ev2)
    from add_properties_facts [OF committed(6)] obtain new where
      new: "ev2 = (ev0 @ [AtomicAlloc True]) @ new" "filter is_commit new = []"
        "pset = [] @ map snd ((if needs_modeset (displays ctx display)
           then modeset_properties (crtcs (drm ctx) ! c) (connectors (drm ctx) ! k)
                  (planes (drm ctx) ! p) (blob_id (displays ctx display)) (layer_displayFrame fb_layer)
           else []) @ fb_property (planes (drm ctx) ! p) bo)" by blast
    from after_commit_facts [OF committed(9)] obtain post where
      post: "events ctx' = (ev2 @ fence_wait fb_layer @ [AtomicCommit pset DRM_MODE_ATOMIC_ALLOW_MODESET 0] @ fence_close fb_layer @ [AtomicFree]) @ post"
        "filter is_commit post = []"
        "hd_bo (displays ctx' display) = cache" by auto
    with new committed acq show ?thesis
      by (intro uncached_frameI [OF miss full, where
            new = "AtomicAlloc True # new @ fence_wait fb_layer @ [AtomicCommit pset DRM_MODE_ATOMIC_ALLOW_MODESET 0] @ fence_close fb_layer @ [AtomicFree] @ post"])
         (auto split: if_splits simp: filter_empty_conv fb_property_def)
  qed
qed


lemma render_fb_pending_modeset:
  assumes nm: "needs_modeset (displays ctx display)"
      and c: "GetCrtcForDisplay (drm ctx) display = Some c"
      and p: "GetPrimaryPlaneForCrtc (drm ctx) (crtcs (drm ctx) ! c) = Some p"
      and k: "GetConnectorForDisplay (drm ctx) display = Some k"
      and acq: "acquire_bo kern (layer_handle fb_layer) (hd_bo (displays ctx display)) (events ctx) =
                  (r0, Some bo, cache, ev0)"
      and nz: "layer_handle fb_layer \<noteq> 0"
      and run: "render_fb kern display fb_layer ctx = (ret, layer', ctx')"
  shows "pending_modeset_frame ctx display
           (modeset_transaction (crtcs (drm ctx) ! c) (connectors (drm ctx) ! k)
              (planes (drm ctx) ! p) (blob_id (displays ctx display)) (layer_displayFrame fb_layer) (bo_fb_id bo))
           ret ctx'"
proof -
  from acquire_bo_facts [OF acq] obtain imp where
    imp: "ev0 = events ctx @ imp" "filter is_commit imp = []" "filter is_destroy imp = []"
      "filter is_set_property imp = []" by blast
  from run show ?thesis
  proof (cases rule: render_fb_cases)
    case null_handle
    with nz show ?thesis by simp
  next
    case (import_failed cache ev0)
    with acq show ?thesis by simp
  next
    case (no_crtc r0 bo cache ev0)
    with c show ?thesis by simp
  next
    case (no_plane r0 bo cache ev0 c)
    with c p show ?thesis by simp
  next
    case (alloc_failed r0' bo' cache' ev0' c' p')
    with acq imp have "ev0' = events ctx @ imp" by simp
    with alloc_failed imp show ?thesis by (simp add: pending_modeset_frame_def)
  next
    case (no_connector r0 bo cache ev0 c p)
    with k show ?thesis by simp
  next
    case (add_failed r0' bo' cache' ev0' c' p' k' pset ev2)
    from add_failed acq imp have "ev0' = events ctx @ imp" by simp
    moreover from add_properties_facts [OF add_failed(6)] obtain new where
      "ev2 = (ev0' @ [AtomicAlloc True]) @ new" "filter is_commit new = []" by blast
    ultimately show ?thesis using add_failed(7) imp by (simp add: pending_modeset_frame_def)
  next
    case (commit_failed r0' bo' cache' ev0' c' p' k' pset ev2)
    with acq c p k have same: "bo' = bo" "cache' = cache" "ev0' = ev0" "c' = c" "p' = p" "k' = k"
      by simp_all
    from add_properties_facts [OF commit_failed(6)] nm same obtain new where
      new: "ev2 = (ev0 @ [AtomicAlloc True]) @ new" "filter is_commit new = []"
        "filter is_destroy new = []" "filter is_set_property new = []"
        "pset = modeset_transaction (crtcs (drm ctx) ! c) (connectors (drm ctx) ! k)
              (planes (drm ctx) ! p) (blob_id (displays ctx display)) (layer_displayFrame fb_layer) (bo_fb_id bo)"
      by (auto simp: modeset_transaction_props)
    with commit_failed(7-10) same imp nm show ?thesis
      by (simp add: pending_modeset_frame_def)
  next
    case (committed r0' bo' cache' ev0' c' p' k' pset ev2)
    with acq c p k have same: "bo' = bo" "cache' = cache" "ev0' = ev0" "c' = c" "p' = p" "k' = k"
      by simp_all
    from add_properties_facts [OF committed(6)] nm same obtain new where
      new: "ev2 = (ev0 @ [AtomicAlloc True]) @ new" "filter is_commit new = []"
        "pset = modeset_transaction (crtcs (drm ctx) ! c) (connectors (drm ctx) ! k)
              (planes (drm ctx) ! p) (blob_id (displays ctx display)) (layer_displayFrame fb_layer) (bo_fb_id bo)"
      by (auto simp: modeset_transaction_props)
    from after_commit_facts [OF committed(9)] obtain post where
      post: "events ctx' = (ev2 @ fence_wait fb_layer @ [AtomicCommit pset DRM_MODE_ATOMIC_ALLOW_MODESET 0] @ fence_close fb_layer @ [AtomicFree]) @ post"
        "filter is_commit post = []" by auto
    with new imp show ?thesis
      by (simp add: pending_modeset_frame_def)
  qed
qed


lemma render_fb_commits:
  assumes c: "GetCrtcForDisplay (drm ctx) display = Some c"
      and p: "GetPrimaryPlaneForCrtc (drm ctx) (crtcs (drm ctx) ! c) = Some p"
      and k: "GetConnectorForDisplay (drm ctx) display = Some k"
      and acq: "acquire_bo kern (layer_handle fb_layer) (hd_bo (displays ctx display)) (events ctx) =
                  (r0, Some bo, cache, ev0)"
      and nf: "never_fails_building kern"
      and nz: "layer_handle fb_layer \<noteq> 0"
      and run: "render_fb kern display fb_layer ctx = (ret, layer', ctx')"
  shows "length (filter is_commit (events ctx')) = Suc (length (filter is_commit (events ctx)))"
proof -
  from acquire_bo_facts [OF acq] obtain imp where
    imp: "ev0 = events ctx @ imp" "filter is_commit imp = []" by blast
  from nf have add_ok: "fst (add_properties kern props pset ev) = None" for props pset ev
    by (intro add_properties_never_fails) (simp add: never_fails_building_def)
  from run show ?thesis
  proof (cases rule: render_fb_cases)
    case null_handle
    with nz show ?thesis by simp
  next
    case (import_failed cache ev0)
    with acq show ?thesis by simp
  next
    case (no_crtc r0 bo cache ev0)
    with c show ?thesis by simp
  next
    case (no_plane r0 bo cache ev0 c)
    with c p show ?thesis by simp
  next
    case (alloc_failed r0' bo' cache' ev0' c' p')
    with nf show ?thesis by (simp add: never_fails_building_def)
  next
    case (no_connector r0 bo cache ev0 c p)
    with k show ?thesis by simp
  next
    case (add_failed r0' bo' cache' ev0' c' p' k' pset ev2)
    from add_failed(6) add_ok show ?thesis by (metis fst_conv option.distinct(1))
  next
    case (commit_failed r0' bo' cache' ev0' c' p' k' pset ev2)
    from commit_failed acq imp have "ev0' = events ctx @ imp" by simp
    moreover from add_properties_facts [OF commit_failed(6)] obtain new where
      "ev2 = (ev0' @ [AtomicAlloc True]) @ new" "filter is_commit new = []" by blast
    ultimately show ?thesis using commit_failed(10) imp by simp
  next
    case (committed r0' bo' cache' ev0' c' p' k' pset ev2)
    from committed acq imp have "ev0' = events ctx @ imp" by simp
    moreover from add_properties_facts [OF committed(6)] obtain new where
      new: "ev2 = (ev0' @ [AtomicAlloc True]) @ new" "filter is_commit new = []" by blast
    moreover from after_commit_facts [OF committed(9)] obtain post where
      post: "events ctx' = (ev2 @ fence_wait fb_layer @ [AtomicCommit pset DRM_MODE_ATOMIC_ALLOW_MODESET 0] @ fence_close fb_layer @ [AtomicFree]) @ post"
        "filter is_commit post = []" by auto
    ultimately show ?thesis using imp by simp
  qed
qed


section \<open>Frame path: a frame with a modeset pending\<close>

text \<open>
  The geometry values of the transaction. For a frame whose left and top edges are not
  negative and not beyond its right and bottom edges, they are the frame's left, top,
  width and height, twice (destination, then source). Outside that range the 32-bit
  difference wraps and a negative \<open>int\<close> is sign-extended.
\<close>

lemma u64_nonneg:
  fixes x :: "32 word"
  assumes "0 \<le> sint x"
  shows "uint (u64 x) = sint x"
proof -
  have "sint x < 2 ^ 31" using sint_lt [of x] by simp
  with assms have "take_bit 64 (sint x) = sint x"
    by (intro take_bit_int_eq_self) simp_all
  then show ?thesis
    unfolding u64_def by (simp only: uint_word_of_int_eq len_of_numeral_defs) simp
qed

lemma u64_extent:
  fixes l r :: "32 word"
  assumes "0 \<le> sint l" "sint l \<le> sint r"
  shows "uint (u64 (r - l)) = sint r - sint l"
proof -
  have ub: "sint r < 2 ^ 31" using sint_lt [of r] by simp
  have "sint (r - l) = signed_take_bit 31 (sint r - sint l)"
    by (simp add: sint_word_ariths)
  also have "\<dots> = sint r - sint l"
    using assms ub by (intro signed_take_bit_int_eq_self) simp_all
  finally have s: "sint (r - l) = sint r - sint l" .
  with assms have "0 \<le> sint (r - l)" by simp
  from u64_nonneg [OF this] s show ?thesis by simp
qed

lemma modeset_transaction_geometry:
  assumes "0 \<le> sint (rect_left frame)" "sint (rect_left frame) \<le> sint (rect_right frame)"
    and "0 \<le> sint (rect_top frame)" "sint (rect_top frame) \<le> sint (rect_bottom frame)"
  shows "map (\<lambda>(obj, prp, val). uint val)
           (take 8 (drop 3 (modeset_transaction crtc connector plane blob frame fb))) =
         [sint (rect_left frame), sint (rect_top frame),
          sint (rect_right frame) - sint (rect_left frame),
          sint (rect_bottom frame) - sint (rect_top frame),
          sint (rect_left frame), sint (rect_top frame),
          sint (rect_right frame) - sint (rect_left frame),
          sint (rect_bottom frame) - sint (rect_top frame)]"
  using assms by (simp add: modeset_transaction_def u64_nonneg u64_extent)

lemma modeset_transaction_geometry_wraps:
  "map (\<lambda>(obj, prp, val). val)
     (take 4 (drop 3 (modeset_transaction crtc connector plane blob
        \<lparr>rect_left = - 1, rect_top = 0, rect_right = 2147483647, rect_bottom = 600\<rparr> fb))) =
   [18446744073709551615, 0, 18446744071562067968, 600]"
  by (simp add: modeset_transaction_def u64_def)

text \<open>
  C5. A frame is rendered, by Render or by render_fb, for a display whose modeset is
  pending, whose controller, primary plane and connector are found and whose buffer
  is available. Then at most one atomic commit is issued, and it carries, in one
  transaction with the allow-modeset flag, the mode blob, the connector's crtc-id,
  the plane's controller-attach property, the destination and source geometry (the
  frame's 32-bit coordinates and their 32-bit differences, as 64-bit property values)
  and the framebuffer id; when building the transaction never fails, exactly one
  commit is issued. If that commit fails, its status is returned, the display's
  "modeset pending" flag stays set, the blob ids are unchanged, and neither a blob
  destroy nor a power-mode request is issued.
\<close>

theorem pending_modeset_frame_one_commit:
  assumes "needs_modeset (displays ctx display)"
      and "GetCrtcForDisplay (drm ctx) display = Some c"
      and "GetPrimaryPlaneForCrtc (drm ctx) (crtcs (drm ctx) ! c) = Some p"
      and "GetConnectorForDisplay (drm ctx) display = Some k"
      and "acquire_bo kern (layer_handle fb_layer) (hd_bo (displays ctx display)) (events ctx) =
             (r0, Some bo, cache, ev0)"
  shows
    "(Render kern display (layer_displayFrame fb_layer) (layer_handle fb_layer) ctx = (ret, ctx') \<longrightarrow>
        pending_modeset_frame ctx display
          (modeset_transaction (crtcs (drm ctx) ! c) (connectors (drm ctx) ! k)
             (planes (drm ctx) ! p) (blob_id (displays ctx display))
             (layer_displayFrame fb_layer) (bo_fb_id bo))
          ret ctx' \<and>
        (never_fails_building kern \<longrightarrow>
           length (filter is_commit (events ctx')) = Suc (length (filter is_commit (events ctx))))) \<and>
     (layer_handle fb_layer \<noteq> 0 \<and> render_fb kern display fb_layer ctx = (ret2, layer2, ctx2) \<longrightarrow>
        pending_modeset_frame ctx display
          (modeset_transaction (crtcs (drm ctx) ! c) (connectors (drm ctx) ! k)
             (planes (drm ctx) ! p) (blob_id (displays ctx display))
             (layer_displayFrame fb_layer) (bo_fb_id bo))
          ret2 ctx2 \<and>
        (never_fails_building kern \<longrightarrow>
           length (filter is_commit (events ctx2)) = Suc (length (filter is_commit (events ctx)))))"
  using Render_pending_modeset [OF assms] Render_commits [OF assms(2-5)]
    render_fb_pending_modeset [OF assms] render_fb_commits [OF assms(2-5)]
  by blast

theorem pending_modeset_frame_one_commit_witness:
  "needs_modeset (displays pending_context 0) \<and>
   GetCrtcForDisplay (drm pending_context) 0 = Some 0 \<and>
   GetPrimaryPlaneForCrtc (drm pending_context) (crtcs (drm pending_context) ! 0) = Some 0 \<and>
   GetConnectorForDisplay (drm pending_context) 0 = Some 0 \<and>
   acquire_bo (ok_kernel\<lparr>k_atomic_commit := (\<lambda>ev pset flags. - 22)\<rparr>) (layer_handle example_layer)
       (hd_bo (displays pending_context 0)) (events pending_context) =
     (0, Some \<lparr>bo_fb_id = 107, bo_priv = 7\<rparr>, [Some \<lparr>bo_fb_id = 107, bo_priv = 7\<rparr>, None],
      [ImportBuffer 7 0]) \<and>
   layer_handle example_layer \<noteq> 0 \<and>
   never_fails_building (ok_kernel\<lparr>k_atomic_commit := (\<lambda>ev pset flags. - 22)\<rparr>) \<and>
   fst (render_fb (ok_kernel\<lparr>k_atomic_commit := (\<lambda>ev pset flags. - 22)\<rparr>) 0 example_layer
          pending_context) = - 22 \<and>
   pending_modeset_frame pending_context 0
     (modeset_transaction (crtcs (drm pending_context) ! 0) (connectors (drm pending_context) ! 0)
        (planes (drm pending_context) ! 0) (blob_id (displays pending_context 0))
        (layer_displayFrame example_layer) 107)
     (fst (render_fb (ok_kernel\<lparr>k_atomic_commit := (\<lambda>ev pset flags. - 22)\<rparr>) 0 example_layer
             pending_context))
     (snd (snd (render_fb (ok_kernel\<lparr>k_atomic_commit := (\<lambda>ev pset flags. - 22)\<rparr>) 0
                  example_layer pending_context))) \<and>
   pending_modeset_frame pending_context 0
     (modeset_transaction (crtcs (drm pending_context) ! 0) (connectors (drm pending_context) ! 0)
        (planes (drm pending_context) ! 0) (blob_id (displays pending_context 0))
        (layer_displayFrame example_layer) 107)
     (fst (Render (ok_kernel\<lparr>k_atomic_commit := (\<lambda>ev pset flags. - 22)\<rparr>) 0
             (layer_displayFrame example_layer) (layer_handle example_layer) pending_context))
     (snd (Render (ok_kernel\<lparr>k_atomic_commit := (\<lambda>ev pset flags. - 22)\<rparr>) 0
             (layer_displayFrame example_layer) (layer_handle example_layer) pending_context)) \<and>
   length (filter is_commit
     (events (snd (Render (ok_kernel\<lparr>k_atomic_commit := (\<lambda>ev pset flags. - 22)\<rparr>) 0
        (layer_displayFrame example_layer) (layer_handle example_layer) pending_context)))) =
     Suc (length (filter is_commit (events pending_context))) \<and>
   needs_modeset
     (displays (snd (Render (ok_kernel\<lparr>k_atomic_commit := (\<lambda>ev pset flags. - 22)\<rparr>) 0
        (layer_displayFrame example_layer) (layer_handle example_layer) pending_context)) 0)"
proof -
  let ?kern = "ok_kernel\<lparr>k_atomic_commit := (\<lambda>ev pset flags. - 22)\<rparr>"
  let ?fb = "render_fb ?kern 0 example_layer pending_context"
  let ?rw = "Render ?kern 0 (layer_displayFrame example_layer) (layer_handle example_layer)
               pending_context"
  have h1: "needs_modeset (displays pending_context 0)" by code_simp
  have h2: "GetCrtcForDisplay (drm pending_context) 0 = Some 0" by code_simp
  have h3: "GetPrimaryPlaneForCrtc (drm pending_context) (crtcs (drm pending_context) ! 0) = Some 0"
    by code_simp
  have h4: "GetConnectorForDisplay (drm pending_context) 0 = Some 0" by code_simp
  have h5: "acquire_bo ?kern (layer_handle example_layer)
       (hd_bo (displays pending_context 0)) (events pending_context) =
     (0, Some \<lparr>bo_fb_id = 107, bo_priv = 7\<rparr>, [Some \<lparr>bo_fb_id = 107, bo_priv = 7\<rparr>, None],
      [ImportBuffer 7 0])" by code_simp
  have h6: "layer_handle example_layer \<noteq> 0" by code_simp
  have h7: "never_fails_building ?kern"
    by (simp add: never_fails_building_def ok_kernel_def)
  have r: "fst ?fb = - 22" by code_simp
  have n: "needs_modeset (displays (snd ?rw) 0)" by code_simp
  have run_fb: "?fb = (fst ?fb, fst (snd ?fb), snd (snd ?fb))" by simp
  have run_rw: "?rw = (fst ?rw, snd ?rw)" by simp
  note main = pending_modeset_frame_one_commit [OF h1 h2 h3 h4 h5,
      of "fst ?rw" "snd ?rw" "fst ?fb" "fst (snd ?fb)" "snd (snd ?fb)"]
  from main h6 h7 run_fb run_rw
  have "pending_modeset_frame pending_context 0
     (modeset_transaction (crtcs (drm pending_context) ! 0) (connectors (drm pending_context) ! 0)
        (planes (drm pending_context) ! 0) (blob_id (displays pending_context 0))
        (layer_displayFrame example_layer) (bo_fb_id \<lparr>bo_fb_id = 107, bo_priv = 7\<rparr>))
     (fst ?fb) (snd (snd ?fb))"
    and "pending_modeset_frame pending_context 0
     (modeset_transaction (crtcs (drm pending_context) ! 0) (connectors (drm pending_context) ! 0)
        (planes (drm pending_context) ! 0) (blob_id (displays pending_context 0))
        (layer_displayFrame example_layer) (bo_fb_id \<lparr>bo_fb_id = 107, bo_priv = 7\<rparr>))
     (fst ?rw) (snd ?rw)"
    and "length (filter is_commit (events (snd ?rw))) =
     Suc (length (filter is_commit (events pending_context)))"
    by blast+
  with h1 h2 h3 h4 h5 h6 h7 r n show ?thesis by simp
qed

section \<open>Frame path: a handle that is not cached, in a full cache\<close>

text \<open>
  C10. In the frame path (Render and render_fb), when the presented handle is not in
  the display's frame-buffer cache and every cache slot is occupied: the handle is
  imported (the import is the first call made), the cache is left as it was, a commit
  that is issued presents the framebuffer just imported, and one is issued when the
  import succeeds, the display's pipeline is found and building the transaction never
  fails. The release path releases no buffer imported from this handle, and afterwards
  the handle is again missing from a full cache, so the next presentation of the same
  handle starts with an import again.
\<close>

theorem uncached_handle_full_cache:
  assumes "find_bo (hd_bo (displays ctx display)) handle = None"
      and "None \<notin> set (hd_bo (displays ctx display))"
  shows
    "(Render kern display frame handle ctx = (ret, ctx') \<longrightarrow>
        uncached_frame kern ctx display handle ctx' \<and>
        (fst (k_import kern (events ctx) handle) = 0 \<and> pipeline_found (drm ctx) display \<and>
         never_fails_building kern \<longrightarrow>
           length (filter is_commit (events ctx')) = Suc (length (filter is_commit (events ctx))))) \<and>
     (handle \<noteq> 0 \<and> layer_handle fb_layer = handle \<and>
      render_fb kern display fb_layer ctx = (ret2, layer2, ctx2) \<longrightarrow>
        uncached_frame kern ctx display handle ctx2 \<and>
        (fst (k_import kern (events ctx) handle) = 0 \<and> pipeline_found (drm ctx) display \<and>
         never_fails_building kern \<longrightarrow>
           length (filter is_commit (events ctx2)) = Suc (length (filter is_commit (events ctx)))))"
proof -
  note acq = acquire_bo_uncached [OF assms, of kern "events ctx"]
  have found: "\<exists>c p k. GetCrtcForDisplay (drm ctx) display = Some c \<and>
      GetPrimaryPlaneForCrtc (drm ctx) (crtcs (drm ctx) ! c) = Some p \<and>
      GetConnectorForDisplay (drm ctx) display = Some k"
    if "pipeline_found (drm ctx) display"
    using that by (auto simp: pipeline_found_def split: option.splits)
  have "length (filter is_commit (events ctx')) = Suc (length (filter is_commit (events ctx)))"
    if "Render kern display frame handle ctx = (ret, ctx')"
      and "fst (k_import kern (events ctx) handle) = 0" "pipeline_found (drm ctx) display"
      and "never_fails_building kern"
  proof -
    from found [OF that(3)] obtain c p k where
      "GetCrtcForDisplay (drm ctx) display = Some c"
      "GetPrimaryPlaneForCrtc (drm ctx) (crtcs (drm ctx) ! c) = Some p"
      "GetConnectorForDisplay (drm ctx) display = Some k" by blast
    moreover from acq that(2) have
      "acquire_bo kern handle (hd_bo (displays ctx display)) (events ctx) =
         (0, Some (snd (k_import kern (events ctx) handle)), hd_bo (displays ctx display),
          events ctx @ [ImportBuffer handle (fst (k_import kern (events ctx) handle))])"
      by simp
    ultimately show ?thesis using that(4) that(1) by (rule Render_commits)
  qed
  moreover
  have "length (filter is_commit (events ctx2)) = Suc (length (filter is_commit (events ctx)))"
    if "render_fb kern display fb_layer ctx = (ret2, layer2, ctx2)"
      and "handle \<noteq> 0" "layer_handle fb_layer = handle"
      and "fst (k_import kern (events ctx) handle) = 0" "pipeline_found (drm ctx) display"
      and "never_fails_building kern"
  proof -
    from found [OF that(5)] obtain c p k where
      "GetCrtcForDisplay (drm ctx) display = Some c"
      "GetPrimaryPlaneForCrtc (drm ctx) (crtcs (drm ctx) ! c) = Some p"
      "GetConnectorForDisplay (drm ctx) display = Some k" by blast
    moreover from acq that(3,4) have
      "acquire_bo kern (layer_handle fb_layer) (hd_bo (displays ctx display)) (events ctx) =
         (0, Some (snd (k_import kern (events ctx) handle)), hd_bo (displays ctx display),
          events ctx @ [ImportBuffer handle (fst (k_import kern (events ctx) handle))])"
      by simp
    moreover note that(6)
    moreover from that(2,3) have "layer_handle fb_layer \<noteq> 0" by simp
    ultimately show ?thesis using that(1)
      by (rule render_fb_commits)
  qed
  moreover have "uncached_frame kern ctx display handle ctx'"
    if "Render kern display frame handle ctx = (ret, ctx')"
    using assms that by (rule Render_uncached)
  moreover have "uncached_frame kern ctx display handle ctx2"
    if "render_fb kern display fb_layer ctx = (ret2, layer2, ctx2)"
      and "handle \<noteq> 0" "layer_handle fb_layer = handle"
    using render_fb_uncached [of ctx display fb_layer kern ret2 layer2 ctx2] assms that by simp
  ultimately show ?thesis by blast
qed

theorem uncached_handle_full_cache_witness:
  "find_bo (hd_bo (displays full_context 0)) 7 = None \<and>
   None \<notin> set (hd_bo (displays full_context 0)) \<and>
   fst (k_import ok_kernel (events full_context) 7) = 0 \<and>
   pipeline_found (drm full_context) 0 \<and>
   never_fails_building ok_kernel \<and>
   (7::nat) \<noteq> 0 \<and> layer_handle example_layer = 7 \<and>
   hd_bo (displays (snd (Render ok_kernel 0 example_frame 7 full_context)) 0) =
     hd_bo (displays full_context 0) \<and>
   uncached_frame ok_kernel full_context 0 7 (snd (Render ok_kernel 0 example_frame 7 full_context)) \<and>
   length (filter is_commit (events (snd (Render ok_kernel 0 example_frame 7 full_context)))) =
     Suc (length (filter is_commit (events full_context))) \<and>
   uncached_frame ok_kernel full_context 0 7
     (snd (snd (render_fb ok_kernel 0 example_layer full_context))) \<and>
   length (filter is_commit (events (snd (snd (render_fb ok_kernel 0 example_layer full_context))))) =
     Suc (length (filter is_commit (events full_context)))"
proof -
  let ?rw = "Render ok_kernel 0 example_frame 7 full_context"
  let ?fb = "render_fb ok_kernel 0 example_layer full_context"
  have h1: "find_bo (hd_bo (displays full_context 0)) 7 = None" by code_simp
  have h2: "None \<notin> set (hd_bo (displays full_context 0))" by code_simp
  have h3: "fst (k_import ok_kernel (events full_context) 7) = 0" by code_simp
  have h4: "pipeline_found (drm full_context) 0" by code_simp
  have h5: "never_fails_building ok_kernel"
    by (simp add: never_fails_building_def ok_kernel_def)
  have h6: "(7::nat) \<noteq> 0" "layer_handle example_layer = 7" by code_simp+
  have c: "hd_bo (displays (snd ?rw) 0) = hd_bo (displays full_context 0)" by code_simp
  have run_rw: "?rw = (fst ?rw, snd ?rw)" by simp
  have run_fb: "?fb = (fst ?fb, fst (snd ?fb), snd (snd ?fb))" by simp
  note main = uncached_handle_full_cache [OF h1 h2,
      of ok_kernel example_frame "fst ?rw" "snd ?rw" example_layer "fst ?fb" "fst (snd ?fb)"
         "snd (snd ?fb)"]
  from main h3 h4 h5 h6 run_rw run_fb
  have "uncached_frame ok_kernel full_context 0 7 (snd ?rw)"
    and "length (filter is_commit (events (snd ?rw))) =
      Suc (length (filter is_commit (events full_context)))"
    and "uncached_frame ok_kernel full_context 0 7 (snd (snd ?fb))"
    and "length (filter is_commit (events (snd (snd ?fb)))) =
      Suc (length (filter is_commit (events full_context)))"
    by blast+
  with h1 h2 h3 h4 h5 h6 c show ?thesis by simp
qed

section \<open>Binding resolver: legality of the bindings\<close>


lemma legal_candidates:
  assumes pv: "pointers_valid r" and lb: "legal_bindings r" and k: "k < length (connectors r)"
    and e: "e \<in> set (encoder_order r k)" and c: "c \<in> set (encoder_candidates r e)"
  shows "e \<in> set (possible_encoders (connectors r ! k))" "e < length (encoders r)"
    "c \<in> set (possible_crtcs (encoders r ! e))" "c < length (crtcs r)"
proof -
  from e lb k show e_legal: "e \<in> set (possible_encoders (connectors r ! k))"
    by (auto simp: encoder_order_def legal_bindings_def split: option.splits)
  with pv k show e_valid: "e < length (encoders r)"
    by (auto simp: pointers_valid_def)
  from c lb e_valid show c_legal: "c \<in> set (possible_crtcs (encoders r ! e))"
    by (auto simp: encoder_candidates_def legal_bindings_def split: option.splits)
  with pv e_valid show "c < length (crtcs r)"
    by (auto simp: pointers_valid_def)
qed

lemma bind_pipe_invariant:
  assumes pv: "pointers_valid r" and lb: "legal_bindings r" and k: "k < length (connectors r)"
    and e: "e \<in> set (encoder_order r k)" and c: "c \<in> set (encoder_candidates r e)"
    and cb: "can_bind (crtcs r ! c) (connector_display (connectors r ! k))"
  shows "pointers_valid (bind_pipe k e c r)" "legal_bindings (bind_pipe k e c r)"
    "keeps_served_displays r (bind_pipe k e c r)" "bound_legal k (bind_pipe k e c r)"
    "crtc_display (crtcs (bind_pipe k e c r) ! c) = connector_display (connectors r ! k)"
proof -
  note lc = legal_candidates [OF pv lb k e c]
  show "pointers_valid (bind_pipe k e c r)"
    using pv lc k unfolding pointers_valid_def bind_pipe_fields
    by (auto simp: nth_list_update split: if_splits)
  show "legal_bindings (bind_pipe k e c r)"
    using lb lc k unfolding legal_bindings_def bind_pipe_fields
    by (auto simp: nth_list_update split: if_splits)
  show "keeps_served_displays r (bind_pipe k e c r)"
    using cb lc unfolding keeps_served_displays_def bind_pipe_fields
    by (auto simp: nth_list_update can_bind_def)
  show "bound_legal k (bind_pipe k e c r)"
    using k lc unfolding bound_legal_def bind_pipe_fields
    by (auto simp: nth_list_update)
  show "crtc_display (crtcs (bind_pipe k e c r) ! c) = connector_display (connectors r ! k)"
    using lc unfolding bind_pipe_fields by simp
qed

lemma keeps_served_displays_refl: "keeps_served_displays r r"
  by (simp add: keeps_served_displays_def)

lemma CreateDisplayPipe_invariant:
  assumes pv: "pointers_valid r" and lb: "legal_bindings r" and k: "k < length (connectors r)"
    and run: "CreateDisplayPipe k r = (ret, r')"
  shows "pointers_valid r' \<and> legal_bindings r' \<and> keeps_served_displays r r' \<and>
      (ret = 0 \<longrightarrow> bound_legal k r' \<and>
       (\<exists>c < length (crtcs r'). crtc_display (crtcs r' ! c) = connector_display (connectors r ! k))) \<and>
      length (connectors r') = length (connectors r) \<and>
      (\<forall>j. j \<noteq> k \<longrightarrow> connectors r' ! j = connectors r ! j) \<and>
      (\<forall>e. encoder_crtc (encoders r ! e) \<noteq> None \<longrightarrow> encoder_crtc (encoders r' ! e) \<noteq> None) \<and>
      (\<forall>e. possible_crtcs (encoders r' ! e) = possible_crtcs (encoders r ! e)) \<and>
      length (encoders r') = length (encoders r)"
proof (cases "first_fit r k")
  case None
  with run have "r' = r" "ret = - ENODEV" by (simp_all add: CreateDisplayPipe_find)
  with pv lb show ?thesis
    by (simp add: keeps_served_displays_refl ENODEV_def)
next
  case (Some ec)
  obtain e c where ec: "ec = (e, c)" by (cases ec)
  with Some run have r': "r' = bind_pipe k e c r" and ret: "ret = 0"
    by (simp_all add: CreateDisplayPipe_find)
  note ff = first_fit_SomeD [OF Some [unfolded ec]]
  note inv = bind_pipe_invariant [OF pv lb k ff]
  note lc = legal_candidates [OF pv lb k ff(1,2)]
  have "\<exists>c < length (crtcs r'). crtc_display (crtcs r' ! c) = connector_display (connectors r ! k)"
    using inv(5) lc(4) unfolding r' by (auto simp: bind_pipe_fields)
  moreover have "\<forall>e'. encoder_crtc (encoders r ! e') \<noteq> None \<longrightarrow> encoder_crtc (encoders r' ! e') \<noteq> None"
    unfolding r' bind_pipe_fields using lc(2) by (auto simp: nth_list_update)
  moreover have "\<forall>e'. possible_crtcs (encoders r' ! e') = possible_crtcs (encoders r ! e')"
    unfolding r' bind_pipe_fields using lc(2) by (auto simp: nth_list_update)
  ultimately show ?thesis
    using inv(1-4) unfolding r' by (simp add: bind_pipe_fields)
qed



lemma bound_legal_preserved:
  assumes b: "bound_legal k r" and k: "k < length (connectors r)" and pv: "pointers_valid r"
    and lb': "legal_bindings r'" and same: "connectors r' ! k = connectors r ! k"
    and some: "\<forall>e. encoder_crtc (encoders r ! e) \<noteq> None \<longrightarrow> encoder_crtc (encoders r' ! e) \<noteq> None"
    and len: "length (encoders r') = length (encoders r)"
  shows "bound_legal k r'"
proof -
  from b obtain e c where e: "connector_encoder (connectors r ! k) = Some e"
    "e \<in> set (possible_encoders (connectors r ! k))" "encoder_crtc (encoders r ! e) = Some c"
    by (auto simp: bound_legal_def)
  from pv k e(1) have "e < length (encoders r)" by (auto simp: pointers_valid_def)
  with len have e_valid: "e < length (encoders r')" by simp
  from some e(3) obtain c' where c': "encoder_crtc (encoders r' ! e) = Some c'" by fastforce
  with lb' e_valid have "c' \<in> set (possible_crtcs (encoders r' ! e))"
    by (auto simp: legal_bindings_def)
  with e c' same show ?thesis by (auto simp: bound_legal_def)
qed

lemma create_pipes_invariant:
  assumes "pointers_valid r" and "legal_bindings r"
    and "\<forall>k \<in> set ks. k < length (connectors r)" and "distinct ks"
    and "create_pipes ks r = (ret, r')"
  shows "pointers_valid r' \<and> legal_bindings r' \<and>
      length (connectors r') = length (connectors r) \<and>
      (ret = 0 \<longrightarrow> (\<forall>k \<in> set ks. bound_legal k r')) \<and>
      (\<forall>j. j \<notin> set ks \<longrightarrow> connectors r' ! j = connectors r ! j) \<and>
      (\<forall>e. encoder_crtc (encoders r ! e) \<noteq> None \<longrightarrow> encoder_crtc (encoders r' ! e) \<noteq> None) \<and>
      length (encoders r') = length (encoders r)"
  using assms
proof (induction ks arbitrary: r)
  case Nil
  then show ?case by simp
next
  case (Cons k ks)
  obtain ret1 r1 where step: "CreateDisplayPipe k r = (ret1, r1)" by (cases "CreateDisplayPipe k r")
  from Cons.prems have k: "k < length (connectors r)" by simp
  note inv = CreateDisplayPipe_invariant [OF Cons.prems(1,2) k step]
  show ?case
  proof (cases "ret1 = 0")
    case False
    with step Cons.prems(5) have "r' = r1" "ret = ret1" by simp_all
    with inv False show ?thesis by simp
  next
    case True
    with step Cons.prems(5) have rest: "create_pipes ks r1 = (ret, r')" by simp
    from inv Cons.prems have "\<forall>k \<in> set ks. k < length (connectors r1)" "distinct ks" by simp_all
    with inv rest have IH: "pointers_valid r' \<and> legal_bindings r' \<and>
      length (connectors r') = length (connectors r1) \<and>
      (ret = 0 \<longrightarrow> (\<forall>k \<in> set ks. bound_legal k r')) \<and>
      (\<forall>j. j \<notin> set ks \<longrightarrow> connectors r' ! j = connectors r1 ! j) \<and>
      (\<forall>e. encoder_crtc (encoders r1 ! e) \<noteq> None \<longrightarrow> encoder_crtc (encoders r' ! e) \<noteq> None) \<and>
      length (encoders r') = length (encoders r1)"
      by (intro Cons.IH) simp_all
    from inv True have b1: "bound_legal k r1" by simp
    from Cons.prems(4) have "k \<notin> set ks" by simp
    with IH have same: "connectors r' ! k = connectors r1 ! k" by simp
    from inv k have k1: "k < length (connectors r1)" by simp
    have "bound_legal k r'"
      using b1 k1 _ _ same
    proof (rule bound_legal_preserved)
      show "pointers_valid r1" using inv by simp
      show "legal_bindings r'" using IH by simp
      show "\<forall>e. encoder_crtc (encoders r1 ! e) \<noteq> None \<longrightarrow> encoder_crtc (encoders r' ! e) \<noteq> None"
        using IH by simp
      show "length (encoders r') = length (encoders r1)" using IH by simp
    qed
    with IH inv show ?thesis by auto
  qed
qed


subsection \<open>Discovery yields pointers into the vectors\<close>


lemma fold_scan:
  "fold (\<lambda>p (possible, current).
           (if A p then possible @ [p] else possible, if B p then Some p else current))
     idx (ps, cur) = (ps', cur')
   \<Longrightarrow> set ps' \<subseteq> set ps \<union> set idx \<and> (\<forall>c. cur' = Some c \<longrightarrow> cur = Some c \<or> c \<in> set idx)"
proof (induction idx arbitrary: ps cur)
  case Nil
  then show ?case by simp
next
  case (Cons p idx)
  from Cons.prems have "fold (\<lambda>p (possible, current).
           (if A p then possible @ [p] else possible, if B p then Some p else current))
     idx (if A p then ps @ [p] else ps, if B p then Some p else cur) = (ps', cur')"
    by simp
  from Cons.IH [OF this] show ?case
    by (cases "A p"; cases "B p") auto
qed



lemma encoder_scan_valid:
  assumes "encoder_scan cs e = (possible, current)"
  shows "(\<forall>c \<in> set possible. c < length cs) \<and> (\<forall>c. current = Some c \<longrightarrow> c < length cs)"
  using fold_scan [OF assms [unfolded encoder_scan_def]] by auto



lemma connector_scan_outer:
  "fold (\<lambda>j. fold (\<lambda>p (possible, current).
                   (if A j p then possible @ [p] else possible,
                    if B p then Some p else current)) idx) js (ps, cur) = (ps', cur')
   \<Longrightarrow> set ps' \<subseteq> set ps \<union> set idx \<and> (\<forall>c. cur' = Some c \<longrightarrow> cur = Some c \<or> c \<in> set idx)"
proof (induction js arbitrary: ps cur)
  case Nil
  then show ?case by simp
next
  case (Cons j js)
  define res where "res = fold (\<lambda>p (possible, current).
                   (if A j p then possible @ [p] else possible,
                    if B p then Some p else current)) idx (ps, cur)"
  obtain ps1 cur1 where res: "res = (ps1, cur1)" by (cases res)
  from Cons.prems have "fold (\<lambda>j. fold (\<lambda>p (possible, current).
                   (if A j p then possible @ [p] else possible,
                    if B p then Some p else current)) idx) js res = (ps', cur')"
    by (simp add: res_def)
  from Cons.IH [OF this [unfolded res]]
  have 1: "set ps' \<subseteq> set ps1 \<union> set idx" "\<forall>c. cur' = Some c \<longrightarrow> cur1 = Some c \<or> c \<in> set idx"
    by simp_all
  from fold_scan [OF res [unfolded res_def]]
  have 2: "set ps1 \<subseteq> set ps \<union> set idx" "\<forall>c. cur1 = Some c \<longrightarrow> cur = Some c \<or> c \<in> set idx"
    by simp_all
  from 1 2 show ?case by blast
qed

lemma connector_scan_valid:
  assumes "connector_scan es c = (possible, current)"
  shows "(\<forall>e \<in> set possible. e < length es) \<and> (\<forall>e. current = Some e \<longrightarrow> e < length es)"
  using connector_scan_outer [OF assms [unfolded connector_scan_def]] by auto



lemma pointers_valid_add_crtc:
  "pointers_valid r \<Longrightarrow> pointers_valid (r\<lparr>crtcs := crtcs r @ [x]\<rparr>)"
  by (fastforce simp: pointers_valid_def)

lemma pointers_valid_add_encoder:
  assumes "pointers_valid r" and "\<forall>c \<in> set possible. c < length (crtcs r)"
    and "\<forall>c. current = Some c \<longrightarrow> c < length (crtcs r)"
  shows "pointers_valid (r\<lparr>encoders := encoders r @
           [\<lparr>encoder_id = i, encoder_crtc = current, possible_crtcs = possible\<rparr>]\<rparr>)"
  using assms unfolding pointers_valid_def
  by (auto simp: nth_append less_Suc_eq)

lemma pointers_valid_add_connector:
  assumes "pointers_valid r" and "\<forall>e \<in> set possible. e < length (encoders r)"
    and "\<forall>e. current = Some e \<longrightarrow> e < length (encoders r)"
    and "connector_encoder x = current" "possible_encoders x = possible"
  shows "pointers_valid (r\<lparr>connectors := connectors r @ [x]\<rparr>)"
  using assms unfolding pointers_valid_def
  by (auto simp: nth_append less_Suc_eq)

lemma pointers_valid_add_plane:
  "pointers_valid r \<Longrightarrow> pointers_valid (r\<lparr>planes := planes r @ [x]\<rparr>)"
  by (simp add: pointers_valid_def)

lemma init_crtcs_valid:
  "init_crtcs dev xs i r = (ret, r') \<Longrightarrow> pointers_valid r \<Longrightarrow> pointers_valid r'"
  by (induction xs arbitrary: i r)
     (auto split: option.splits if_splits dest: pointers_valid_add_crtc)

lemma init_encoders_valid:
  "init_encoders dev xs r = (ret, r') \<Longrightarrow> pointers_valid r \<Longrightarrow> pointers_valid r'"
proof (induction xs arbitrary: r)
  case Nil
  then show ?case by simp
next
  case (Cons x xs)
  show ?case
  proof (cases "dev_GetEncoder dev x")
    case None
    with Cons.prems show ?thesis by simp
  next
    case (Some e)
    obtain possible current where scan: "encoder_scan (crtcs r) e = (possible, current)"
      by (cases "encoder_scan (crtcs r) e")
    from Cons.prems(2) encoder_scan_valid [OF scan]
    have "pointers_valid (r\<lparr>encoders := encoders r @
           [\<lparr>encoder_id = enc_encoder_id e, encoder_crtc = current, possible_crtcs = possible\<rparr>]\<rparr>)"
      by (intro pointers_valid_add_encoder) simp_all
    with Cons.prems(1) Some scan show ?thesis by (auto intro: Cons.IH)
  qed
qed

lemma init_connectors_valid:
  "init_connectors dev xs fp n r = (ret, r') \<Longrightarrow> pointers_valid r \<Longrightarrow> pointers_valid r'"
proof (induction xs arbitrary: fp n r)
  case Nil
  then show ?case by simp
next
  case (Cons x xs)
  show ?case
  proof (cases "dev_GetConnector dev x")
    case None
    with Cons.prems show ?thesis by simp
  next
    case (Some c)
    obtain possible current where scan: "connector_scan (encoders r) c = (possible, current)"
      by (cases "connector_scan (encoders r) c")
    show ?thesis
    proof (cases "dev_connector_Init dev x = 0")
      case False
      with Cons.prems Some scan show ?thesis by simp
    next
      case True
      let ?x = "\<lparr>connector_id = conn_connector_id c,
                      connector_display = (if fp then n else 0),
                      connector_encoder = current,
                      possible_encoders = possible,
                      connector_state = conn_connection c,
                      connector_modes = dev_connector_modes dev x,
                      connector_active_mode = no_mode,
                      connector_crtc_id_property = dev_connector_crtc_id_property dev x,
                      connector_dpms_property = dev_connector_dpms_property dev x\<rparr>"
      from Cons.prems(2) connector_scan_valid [OF scan]
      have "pointers_valid (r\<lparr>connectors := connectors r @ [?x]\<rparr>)"
        by (intro pointers_valid_add_connector [where current = current and possible = possible])
           simp_all
      with Cons.prems(1) Some scan True show ?thesis by (auto intro: Cons.IH)
    qed
  qed
qed

lemma init_planes_valid:
  "init_planes dev xs r = (ret, r') \<Longrightarrow> pointers_valid r \<Longrightarrow> pointers_valid r'"
  by (induction xs arbitrary: r)
     (auto split: option.splits if_splits dest: pointers_valid_add_plane)

lemma pointers_valid_no_resources: "pointers_valid no_resources"
  by (simp add: pointers_valid_def no_resources_def)


lemma Init_discover_valid: "pointers_valid (snd (Init_discover dev))"
proof (cases "dev_open dev < 0 \<or> dev_cap_universal_planes dev \<noteq> 0 \<or> dev_cap_atomic dev \<noteq> 0 \<or>
    dev_GetResources dev = None")
  case True
  then show ?thesis
    by (auto simp: Init_discover_def pointers_valid_no_resources)
next
  case False
  then obtain res where res: "dev_GetResources dev = Some res" by auto
  obtain ret1 r1 where s1: "init_crtcs dev (res_crtcs res) 0 no_resources = (ret1, r1)"
    by (cases "init_crtcs dev (res_crtcs res) 0 no_resources")
  obtain ret2 r2 where s2:
    "(if ret1 = 0 then init_encoders dev (res_encoders res) r1 else (ret1, r1)) = (ret2, r2)"
    by (cases "if ret1 = 0 then init_encoders dev (res_encoders res) r1 else (ret1, r1)")
  obtain ret3 r3 where s3:
    "(if ret2 = 0 then init_connectors dev (res_connectors res) False 1 r2 else (ret2, r2)) = (ret3, r3)"
    by (cases "if ret2 = 0 then init_connectors dev (res_connectors res) False 1 r2 else (ret2, r2)")
  have v1: "pointers_valid r1"
    using init_crtcs_valid [OF s1 pointers_valid_no_resources] .
  have v2: "pointers_valid r2"
    using s2 v1 by (auto split: if_splits dest: init_encoders_valid)
  have v3: "pointers_valid r3"
    using s3 v2 by (auto split: if_splits dest: init_connectors_valid)
  have v4: "pointers_valid (snd (init_planes dev ids r3))" for ids
    using init_planes_valid [OF _ v3] by (metis prod.collapse)
  have "snd (Init_discover dev) = r3 \<or> (\<exists>ids. snd (Init_discover dev) = snd (init_planes dev ids r3))"
    using False res s1 s2 s3
    by (auto simp: Init_discover_def split: option.splits prod.splits if_splits)
       (metis snd_conv)+
  with v3 v4 show ?thesis by auto
qed

section \<open>Binding resolver: the invariant of the graph\<close>


text \<open>
  C7, as the code has it. Provided the bindings the kernel reports at discovery are legal
  (each Output's current Encoder is one of its legal Encoders, each Encoder's current
  controller one of its legal controllers): after initialization, whatever it returns,
  every bound Encoder and every current controller of the graph is legal, and when
  initialization succeeds every Output has a pipeline, its bound Encoder being in its
  legal-encoder list and the controller that Encoder drives in the Encoder's
  legal-controller set. And every resolver call on a graph with legal bindings leaves
  the bindings legal, never moves a controller that serves a display to another display
  (a controller has one served-display field, so it serves at most one), and on
  success leaves the Output with such a pipeline and a controller serving its display.
\<close>

theorem bindings_stay_legal:
  "(legal_bindings (snd (Init_discover dev)) \<and> Init dev = (ret, r) \<longrightarrow>
      pointers_valid r \<and> legal_bindings r \<and>
      (ret = 0 \<longrightarrow> (\<forall>k < length (connectors r). bound_legal k r))) \<and>
   (pointers_valid r0 \<and> legal_bindings r0 \<and> k < length (connectors r0) \<and>
    CreateDisplayPipe k r0 = (ret0, r1) \<longrightarrow>
      pointers_valid r1 \<and> legal_bindings r1 \<and> keeps_served_displays r0 r1 \<and>
      (ret0 = 0 \<longrightarrow>
         bound_legal k r1 \<and>
         (\<exists>c < length (crtcs r1).
            crtc_display (crtcs r1 ! c) = connector_display (connectors r0 ! k))))"
proof -
  have init: "pointers_valid r \<and> legal_bindings r \<and>
      (ret = 0 \<longrightarrow> (\<forall>k < length (connectors r). bound_legal k r))"
    if legal: "legal_bindings (snd (Init_discover dev))" and run: "Init dev = (ret, r)"
  proof -
    obtain retd rd where d: "Init_discover dev = (retd, rd)" by (cases "Init_discover dev")
    from Init_discover_valid [of dev] d have pv: "pointers_valid rd" by simp
    from legal d have lb: "legal_bindings rd" by simp
    show ?thesis
    proof (cases "retd = 0")
      case False
      with run d have "r = rd" "ret \<noteq> 0" by (simp_all add: Init_def)
      with pv lb show ?thesis by simp
    next
      case True
      with run d have pipes: "create_pipes [0..<length (connectors rd)] rd = (ret, r)"
        by (simp add: Init_def)
      from create_pipes_invariant [OF pv lb _ _ pipes] show ?thesis by simp
    qed
  qed
  have call: "pointers_valid r1 \<and> legal_bindings r1 \<and> keeps_served_displays r0 r1 \<and>
      (ret0 = 0 \<longrightarrow>
         bound_legal k r1 \<and>
         (\<exists>c < length (crtcs r1).
            crtc_display (crtcs r1 ! c) = connector_display (connectors r0 ! k)))"
    if "pointers_valid r0" "legal_bindings r0" "k < length (connectors r0)"
      "CreateDisplayPipe k r0 = (ret0, r1)"
    using CreateDisplayPipe_invariant [OF that] by simp
  from init call show ?thesis by blast
qed

lemma skewed_init:
  "fst (Init skewed_device) = 0"
  "connectors (snd (Init skewed_device)) ! 0 =
     \<lparr>connector_id = 30, connector_display = 0, connector_encoder = Some 0,
      possible_encoders = [0], connector_state = DRM_MODE_CONNECTED,
      connector_modes = [example_mode], connector_active_mode = no_mode,
      connector_crtc_id_property = 50, connector_dpms_property = 51\<rparr>"
  "encoders (snd (Init skewed_device)) ! 0 =
     \<lparr>encoder_id = 20, encoder_crtc = Some 1, possible_crtcs = [0]\<rparr>"
  "length (connectors (snd (Init skewed_device))) = 1"
  "crtc_display (crtcs (snd (Init skewed_device)) ! 1) = 0"
  by code_simp+

text \<open>
  Without the proviso the property fails: the resolver first tries the Encoder's current
  controller whatever the possible-crtcs mask says. For a kernel report whose encoder
  is on controller 11 while its mask names pipe 0 only, initialization succeeds and
  leaves the Output on a controller outside the Encoder's legal set.
\<close>

theorem illegal_kernel_binding_counterexample:
  "\<not> (\<forall>dev r. Init dev = (0, r) \<longrightarrow> (\<forall>k < length (connectors r). bound_legal k r))"
proof
  assume claim: "\<forall>dev r. Init dev = (0, r) \<longrightarrow> (\<forall>k < length (connectors r). bound_legal k r)"
  have "Init skewed_device = (0, snd (Init skewed_device))"
    using skewed_init(1) by (metis prod.collapse)
  with claim skewed_init(4) have "bound_legal 0 (snd (Init skewed_device))" by simp
  then show False
    by (simp add: bound_legal_def skewed_init(2,3))
qed

lemma sound_discover:
  "snd (Init_discover sound_device) =
     \<lparr>crtcs = [\<lparr>crtc_id = 10, crtc_pipe = 0, crtc_display = - 1, crtc_mode_property = 40\<rparr>,
               \<lparr>crtc_id = 11, crtc_pipe = 1, crtc_display = - 1, crtc_mode_property = 40\<rparr>],
      encoders = [\<lparr>encoder_id = 20, encoder_crtc = Some 1, possible_crtcs = [0, 1]\<rparr>],
      connectors =
        [\<lparr>connector_id = 30, connector_display = 0, connector_encoder = Some 0,
          possible_encoders = [0], connector_state = DRM_MODE_CONNECTED,
          connector_modes = [example_mode], connector_active_mode = no_mode,
          connector_crtc_id_property = 50, connector_dpms_property = 51\<rparr>],
      planes = []\<rparr>"
  by code_simp

theorem bindings_stay_legal_witness:
  "legal_bindings (snd (Init_discover sound_device)) \<and>
   pointers_valid (snd (Init_discover sound_device)) \<and>
   (0::nat) < length (connectors (snd (Init_discover sound_device))) \<and>
   fst (Init sound_device) = 0 \<and>
   legal_bindings (snd (Init sound_device)) \<and>
   bound_legal 0 (snd (Init sound_device)) \<and>
   bound_legal 0 (snd (CreateDisplayPipe 0 (snd (Init_discover sound_device))))"
proof -
  have legal: "legal_bindings (snd (Init_discover sound_device))"
    by (simp add: sound_discover legal_bindings_def)
  have valid: "pointers_valid (snd (Init_discover sound_device))"
    by (simp add: sound_discover pointers_valid_def)
  have k: "(0::nat) < length (connectors (snd (Init_discover sound_device)))"
    by (simp add: sound_discover)
  have ret: "fst (Init sound_device) = 0" by code_simp
  have len: "length (connectors (snd (Init sound_device))) = 1" by code_simp
  have pipe: "fst (CreateDisplayPipe 0 (snd (Init_discover sound_device))) = 0" by code_simp
  have run: "Init sound_device = (0, snd (Init sound_device))"
    using ret by (metis prod.collapse)
  have call: "CreateDisplayPipe 0 (snd (Init_discover sound_device)) =
      (0, snd (CreateDisplayPipe 0 (snd (Init_discover sound_device))))"
    using pipe by (metis prod.collapse)
  from bindings_stay_legal [of sound_device 0 "snd (Init sound_device)"
      "snd (Init_discover sound_device)" 0 0
      "snd (CreateDisplayPipe 0 (snd (Init_discover sound_device)))"]
    legal valid k run call len
  have "legal_bindings (snd (Init sound_device)) \<and> bound_legal 0 (snd (Init sound_device)) \<and>
    bound_legal 0 (snd (CreateDisplayPipe 0 (snd (Init_discover sound_device))))"
    by simp
  with legal valid k ret show ?thesis by simp
qed

section \<open>Hotplug: what one event does\<close>


lemma find_upt_not_None:
  "k < n \<Longrightarrow> P k \<Longrightarrow> find P [0..<n] \<noteq> None"
  by (auto simp: find_None_iff)

lemma GetConnectorForDisplay_own:
  "k < length (connectors r) \<Longrightarrow>
   GetConnectorForDisplay r (connector_display (connectors r ! k)) \<noteq> None"
  unfolding GetConnectorForDisplay_def by (rule find_upt_not_None) simp_all

lemma UpdateModes_facts:
  assumes "k < length (connectors (drm ctx))"
  shows "events (UpdateModes kern k ctx) =
           events ctx @ [GetConnector (connector_id (connectors (drm ctx) ! k))]"
    "length (connectors (drm (UpdateModes kern k ctx))) = length (connectors (drm ctx))"
    "connector_display (connectors (drm (UpdateModes kern k ctx)) ! j) =
       connector_display (connectors (drm ctx) ! j)"
    "j \<noteq> k \<Longrightarrow> connector_state (connectors (drm (UpdateModes kern k ctx)) ! j) =
       connector_state (connectors (drm ctx) ! j)"
    "connector_id (connectors (drm (UpdateModes kern k ctx)) ! j) =
       connector_id (connectors (drm ctx) ! j)"
  using assms
  by (auto simp: UpdateModes_def Let_def nth_list_update split: option.splits)

lemma hwc_set_display_active_mode_facts:
  assumes "hwc_set_display_active_mode kern display mode ctx = (ret, ctx')"
    and "GetConnectorForDisplay (drm ctx) display \<noteq> None"
  shows "\<exists>blob. events ctx' = events ctx @ [CreatePropBlob mode ret blob]"
    "length (connectors (drm ctx')) = length (connectors (drm ctx))"
    "connector_display (connectors (drm ctx') ! j) = connector_display (connectors (drm ctx) ! j)"
    "connector_state (connectors (drm ctx') ! j) = connector_state (connectors (drm ctx) ! j)"
    "connector_id (connectors (drm ctx') ! j) = connector_id (connectors (drm ctx) ! j)"
proof -
  from assms(2) obtain k where k: "GetConnectorForDisplay (drm ctx) display = Some k" by auto
  then have "k < length (connectors (drm ctx))"
    by (auto simp: GetConnectorForDisplay_def find_Some_iff)
  with assms(1) k show "\<exists>blob. events ctx' = events ctx @ [CreatePropBlob mode ret blob]"
    "length (connectors (drm ctx')) = length (connectors (drm ctx))"
    "connector_display (connectors (drm ctx') ! j) = connector_display (connectors (drm ctx) ! j)"
    "connector_state (connectors (drm ctx') ! j) = connector_state (connectors (drm ctx) ! j)"
    "connector_id (connectors (drm ctx') ! j) = connector_id (connectors (drm ctx) ! j)"
    by (auto simp: hwc_set_display_active_mode_def CreatePropertyBlob_def set_active_mode_def
        Let_def nth_list_update split: prod.splits if_splits)
qed

lemma SetDpmsMode_facts:
  assumes "SetDpmsMode kern r display mode ev = (ret, ev')"
    and "GetConnectorForDisplay r display \<noteq> None"
  shows "\<exists>obj prop. ev' = ev @ [ConnectorSetProperty obj prop mode ret]"
  using assms by (auto simp: SetDpmsMode_def Let_def split: option.splits if_splits)

lemma release_slots_quiet:
  "filter is_hotplug (release_slots cache) = []" "filter is_failure (release_slots cache) = []"
  by (induction cache rule: release_slots.induct) simp_all

lemma hwc_release_display_facts:
  "events (hwc_release_display display ctx) = events ctx @ release_slots (hd_bo (displays ctx display))"
  "drm (hwc_release_display display ctx) = drm ctx"
  by (simp_all add: hwc_release_display_def Let_def)



lemma failure_not_hotplug: "is_failure e \<Longrightarrow> \<not> is_hotplug e"
  by (cases e) simp_all

lemma changed_outputs_Cons:
  "changed_outputs ctx (k # ks) ctx' =
     (if state_changed ctx ctx' k then [k] else []) @ changed_outputs ctx ks ctx'"
  by (simp add: changed_outputs_def)

lemma output_segment_unchanged:
  "\<not> state_changed ctx ctx' k \<Longrightarrow>
   output_segment ctx ctx' k [GetConnector (connector_id (connectors (drm ctx) ! k))]"
  unfolding output_segment_def by (intro exI [of _ "[]"]) simp

lemma output_segment_notified:
  assumes "state_changed ctx ctx' k" and "cfg \<noteq> []"
    and "filter is_failure cfg = []" and "filter is_hotplug cfg = []"
  shows "output_segment ctx ctx' k
     (GetConnector (connector_id (connectors (drm ctx) ! k)) # cfg @ [notification ctx ctx' k])"
  unfolding output_segment_def using assms by (intro exI [of _ cfg]) simp

lemma output_segment_failed:
  assumes "state_changed ctx ctx' k" and "is_failure e"
  shows "output_segment ctx ctx' k [GetConnector (connector_id (connectors (drm ctx) ! k)), e]"
  unfolding output_segment_def using assms failure_not_hotplug [OF assms(2)]
  by (intro exI [of _ "[e]"]) simp

lemma output_segment_cong:
  assumes "connector_id (connectors (drm ctxm) ! k) = connector_id (connectors (drm ctx) ! k)"
    and "connector_display (connectors (drm ctxm) ! k) = connector_display (connectors (drm ctx) ! k)"
    and "connector_state (connectors (drm ctxm) ! k) = connector_state (connectors (drm ctx) ! k)"
  shows "output_segment ctxm ctx' k seg = output_segment ctx ctx' k seg"
  using assms by (simp add: output_segment_def state_changed_def notification_def)

lemma changed_outputs_cong:
  assumes "\<forall>j \<in> set ks. connector_state (connectors (drm ctxm) ! j) =
             connector_state (connectors (drm ctx) ! j)"
  shows "changed_outputs ctxm ks ctx' = changed_outputs ctx ks ctx'"
  unfolding changed_outputs_def using assms
  by (intro filter_cong) (simp_all add: state_changed_def)

lemma hotplug_log_cong:
  assumes "\<forall>j. connector_id (connectors (drm ctxm) ! j) = connector_id (connectors (drm ctx) ! j)"
    and "\<forall>j. connector_display (connectors (drm ctxm) ! j) =
             connector_display (connectors (drm ctx) ! j)"
    and "\<forall>j \<in> set ks. connector_state (connectors (drm ctxm) ! j) =
             connector_state (connectors (drm ctx) ! j)"
  shows "hotplug_log ctxm ctx' ks new = hotplug_log ctx ctx' ks new"
  using assms(3)
proof (induction ks arbitrary: new)
  case Nil
  show ?case by simp
next
  case (Cons k ks)
  from Cons.prems have st: "\<forall>j \<in> set ks. connector_state (connectors (drm ctxm) ! j) =
             connector_state (connectors (drm ctx) ! j)" by simp
  have seg: "output_segment ctxm ctx' k seg = output_segment ctx ctx' k seg" for seg
    using assms(1,2) Cons.prems by (intro output_segment_cong) simp_all
  show ?case
    by (simp add: seg Cons.IH [OF st] changed_outputs_cong [OF st])
qed

lemma hotplug_outcome_quietI:
  assumes "events ctx' = events ctx @ new" and "hotplug_log ctx ctx' ks new"
    and "filter is_failure new = []"
    and "filter is_hotplug new = map (notification ctx ctx') (changed_outputs ctx ks ctx')"
  shows "hotplug_outcome ctx ks ctx'"
  unfolding hotplug_outcome_def using assms by (intro exI [of _ new]) simp

lemma hotplug_outcome_failedI:
  assumes "events ctx' = events ctx @ new" and "hotplug_log ctx ctx' ks new"
    and "filter is_failure new \<noteq> []"
    and "new \<noteq> []" and "is_failure (last new)" and "filter is_failure (butlast new) = []"
    and "changed_outputs ctx ks ctx' \<noteq> []"
    and "filter is_hotplug new =
      map (notification ctx ctx') (butlast (changed_outputs ctx ks ctx'))"
  shows "hotplug_outcome ctx ks ctx'"
  unfolding hotplug_outcome_def using assms by (intro exI [of _ new]) simp

lemma hotplug_outcome_stop:
  assumes ev: "events ctx' = events ctx @ pre @ [e]" and e: "is_failure e"
    and nf: "filter is_failure pre = []" and nh: "filter is_hotplug pre = []"
    and ch: "state_changed ctx ctx' k"
    and others: "\<forall>j \<in> set ks. connector_state (connectors (drm ctx') ! j) =
                   connector_state (connectors (drm ctx) ! j)"
    and seg: "output_segment ctx ctx' k (pre @ [e])"
  shows "hotplug_outcome ctx (k # ks) ctx'"
proof -
  from others have none: "changed_outputs ctx ks ctx' = []"
    by (simp add: changed_outputs_def state_changed_def)
  with ch have c: "changed_outputs ctx (k # ks) ctx' = [k]"
    by (simp add: changed_outputs_Cons)
  show ?thesis
  proof (rule hotplug_outcome_failedI [where new = "pre @ [e]"])
    show "events ctx' = events ctx @ pre @ [e]" by (rule ev)
    show "hotplug_log ctx ctx' (k # ks) (pre @ [e])"
      unfolding hotplug_log.simps using seg e none
      by (intro exI [of _ "pre @ [e]"] exI [of _ "[]"]) simp
    show "filter is_failure (pre @ [e]) \<noteq> []" using e by simp
    show "pre @ [e] \<noteq> []" by simp
    show "is_failure (last (pre @ [e]))" using e by simp
    show "filter is_failure (butlast (pre @ [e])) = []" using nf by simp
    show "changed_outputs ctx (k # ks) ctx' \<noteq> []" using c by simp
    show "filter is_hotplug (pre @ [e]) =
        map (notification ctx ctx') (butlast (changed_outputs ctx (k # ks) ctx'))"
      using nh failure_not_hotplug [OF e] c by simp
  qed
qed

lemma hotplug_outcome_continue:
  assumes out: "hotplug_outcome ctxm ks ctx'"
    and ev: "events ctxm = events ctx @ pre" and nf: "filter is_failure pre = []"
    and disp: "\<forall>j. connector_display (connectors (drm ctxm) ! j) =
                   connector_display (connectors (drm ctx) ! j)"
    and st: "\<forall>j \<in> set ks. connector_state (connectors (drm ctxm) ! j) =
                   connector_state (connectors (drm ctx) ! j)"
    and kst: "connector_state (connectors (drm ctx') ! k) =
                connector_state (connectors (drm ctxm) ! k)"
    and hp: "filter is_hotplug pre =
       (if connector_state (connectors (drm ctxm) ! k) = connector_state (connectors (drm ctx) ! k)
        then []
        else [Hotplug (connector_display (connectors (drm ctx) ! k))
                (hotplug_flag (connector_state (connectors (drm ctxm) ! k)))])"
    and ids: "\<forall>j. connector_id (connectors (drm ctxm) ! j) =
                   connector_id (connectors (drm ctx) ! j)"
    and seg: "output_segment ctx ctx' k pre"
  shows "hotplug_outcome ctx (k # ks) ctx'"
proof -
  define own where "own = (if state_changed ctx ctx' k then [k] else [])"
  define rest where "rest = changed_outputs ctxm ks ctx'"
  from out obtain new1 where new1: "events ctx' = events ctxm @ new1"
    and log1: "hotplug_log ctxm ctx' ks new1"
    and quiet: "filter is_failure new1 = [] \<Longrightarrow>
           filter is_hotplug new1 = map (notification ctxm ctx') rest"
    and failed: "filter is_failure new1 \<noteq> [] \<Longrightarrow>
           new1 \<noteq> [] \<and> is_failure (last new1) \<and> filter is_failure (butlast new1) = [] \<and>
           rest \<noteq> [] \<and> filter is_hotplug new1 = map (notification ctxm ctx') (butlast rest)"
    unfolding hotplug_outcome_def rest_def by (auto split: if_splits)
  have note_eq: "notification ctxm ctx' = notification ctx ctx'"
    using disp by (simp add: notification_def fun_eq_iff)
  have "changed_outputs ctx ks ctx' = rest"
    unfolding rest_def by (rule changed_outputs_cong [OF st, symmetric])
  then have ch: "changed_outputs ctx (k # ks) ctx' = own @ rest"
    by (simp add: changed_outputs_Cons own_def)
  have pre_hp: "filter is_hotplug pre = map (notification ctx ctx') own"
    using hp kst by (simp add: own_def state_changed_def notification_def)
  from new1 ev have evs: "events ctx' = events ctx @ (pre @ new1)" by simp
  from log1 have "hotplug_log ctx ctx' ks new1"
    by (simp add: hotplug_log_cong [OF ids disp st])
  with seg nf have log: "hotplug_log ctx ctx' (k # ks) (pre @ new1)"
    unfolding hotplug_log.simps by (intro exI [of _ pre] exI [of _ new1]) simp
  show ?thesis
  proof (cases "filter is_failure new1 = []")
    case True
    show ?thesis
    proof (rule hotplug_outcome_quietI [where new = "pre @ new1"])
      show "events ctx' = events ctx @ pre @ new1" using evs by simp
      show "hotplug_log ctx ctx' (k # ks) (pre @ new1)" by (rule log)
      show "filter is_failure (pre @ new1) = []" using True nf by simp
      show "filter is_hotplug (pre @ new1) =
          map (notification ctx ctx') (changed_outputs ctx (k # ks) ctx')"
        using quiet [OF True] pre_hp note_eq ch by simp
    qed
  next
    case False
    from failed [OF False] have ne: "new1 \<noteq> []" and l: "is_failure (last new1)"
      and bl: "filter is_failure (butlast new1) = []" and rne: "rest \<noteq> []"
      and hp1: "filter is_hotplug new1 = map (notification ctxm ctx') (butlast rest)"
      by simp_all
    show ?thesis
    proof (rule hotplug_outcome_failedI [where new = "pre @ new1"])
      show "events ctx' = events ctx @ pre @ new1" using evs by simp
      show "hotplug_log ctx ctx' (k # ks) (pre @ new1)" by (rule log)
      show "filter is_failure (pre @ new1) \<noteq> []" using False by simp
      show "pre @ new1 \<noteq> []" using ne by simp
      show "is_failure (last (pre @ new1))" using ne l by simp
      show "filter is_failure (butlast (pre @ new1)) = []"
        using ne nf bl by (simp add: butlast_append)
      show "changed_outputs ctx (k # ks) ctx' \<noteq> []" using rne ch by simp
      show "filter is_hotplug (pre @ new1) =
          map (notification ctx ctx') (butlast (changed_outputs ctx (k # ks) ctx'))"
        using hp1 pre_hp note_eq rne ch by (simp add: butlast_append)
    qed
  qed
qed

lemma hotplug_outcome_Nil: "hotplug_outcome ctx [] ctx"
  by (simp add: hotplug_outcome_def changed_outputs_def)



lemma HandleEvent_loop_outcome:
  assumes "HandleEvent_loop kern ks ctx = Some ctx'" and "distinct ks"
    and "\<forall>k \<in> set ks. k < length (connectors (drm ctx))"
  shows "hotplug_outcome ctx ks ctx' \<and>
     length (connectors (drm ctx')) = length (connectors (drm ctx)) \<and>
     (\<forall>j. connector_display (connectors (drm ctx') ! j) =
          connector_display (connectors (drm ctx) ! j)) \<and>
     (\<forall>j. j \<notin> set ks \<longrightarrow>
          connector_state (connectors (drm ctx') ! j) = connector_state (connectors (drm ctx) ! j))"
  using assms
proof (induction ks arbitrary: ctx)
  case Nil
  then show ?case by (simp add: hotplug_outcome_Nil)
next
  case (Cons k ks)
  define ctx1 where "ctx1 = UpdateModes kern k ctx"
  define old where "old = connector_state (connectors (drm ctx) ! k)"
  define cur where "cur = connector_state (connectors (drm ctx1) ! k)"
  define d where "d = connector_display (connectors (drm ctx1) ! k)"
  define g where "g = GetConnector (connector_id (connectors (drm ctx) ! k))"
  from Cons.prems have k: "k < length (connectors (drm ctx))" and nk: "k \<notin> set ks"
    and dist: "distinct ks" and ks: "\<forall>j \<in> set ks. j < length (connectors (drm ctx))"
    by simp_all
  note U = UpdateModes_facts [OF k, where kern = kern, folded ctx1_def g_def]
  have d_eq: "d = connector_display (connectors (drm ctx) ! k)"
    unfolding d_def by (rule U(3))
  from k U(2) have k1: "k < length (connectors (drm ctx1))" by simp
  from ks U(2) have ks1: "\<forall>j \<in> set ks. j < length (connectors (drm ctx1))" by simp
  have own: "GetConnectorForDisplay (drm ctx1) d \<noteq> None"
    unfolding d_def by (rule GetConnectorForDisplay_own [OF k1])
  have st1: "\<forall>j \<in> set ks. connector_state (connectors (drm ctx1) ! j) =
      connector_state (connectors (drm ctx) ! j)"
    using nk by (auto intro!: U(4))
  have other1: "connector_state (connectors (drm ctx1) ! j) =
      connector_state (connectors (drm ctx) ! j)" if "j \<notin> set (k # ks)" for j
    using that by (intro U(4)) auto
  note loop = Cons.prems(1) [unfolded HandleEvent_loop.simps Let_def,
      folded ctx1_def, folded old_def cur_def d_def]
  show ?case
  proof (cases "cur = old")
    case True
    with loop have rest: "HandleEvent_loop kern ks ctx1 = Some ctx'" by simp
    note IH = Cons.IH [OF rest dist ks1]
    have "hotplug_outcome ctx (k # ks) ctx'"
    proof (rule hotplug_outcome_continue [where ctxm = ctx1 and pre = "[g]"])
      show "hotplug_outcome ctx1 ks ctx'" using IH by simp
      show "events ctx1 = events ctx @ [g]" by (rule U(1))
      show "filter is_failure [g] = []" by (simp add: g_def)
      show "\<forall>j. connector_display (connectors (drm ctx1) ! j) =
          connector_display (connectors (drm ctx) ! j)" using U(3) by simp
      show "\<forall>j \<in> set ks. connector_state (connectors (drm ctx1) ! j) =
          connector_state (connectors (drm ctx) ! j)" by (rule st1)
      show kst: "connector_state (connectors (drm ctx') ! k) = connector_state (connectors (drm ctx1) ! k)"
        using IH nk by simp
      show "\<forall>j. connector_id (connectors (drm ctx1) ! j) = connector_id (connectors (drm ctx) ! j)"
        using U(5) by simp
      have "\<not> state_changed ctx ctx' k"
        using kst True by (simp add: state_changed_def cur_def old_def)
      then show "output_segment ctx ctx' k [g]"
        unfolding g_def by (rule output_segment_unchanged)
      show "filter is_hotplug [g] =
        (if connector_state (connectors (drm ctx1) ! k) = connector_state (connectors (drm ctx) ! k)
         then []
         else [Hotplug (connector_display (connectors (drm ctx) ! k))
                 (hotplug_flag (connector_state (connectors (drm ctx1) ! k)))])"
        using True by (simp add: g_def cur_def old_def)
    qed
    moreover have "connector_state (connectors (drm ctx') ! j) =
        connector_state (connectors (drm ctx) ! j)" if "j \<notin> set (k # ks)" for j
      using IH other1 [OF that] that by simp
    ultimately show ?thesis using IH U(2,3) by simp
  next
    case changed: False
    show ?thesis
    proof (cases "cur = DRM_MODE_CONNECTED")
      case True
      with loop changed obtain mode where
        mode: "choose_mode (connector_modes (connectors (drm ctx1) ! k)) = Some mode"
        by (auto split: option.splits)
      obtain ret ctx2 where set: "hwc_set_display_active_mode kern d mode ctx1 = (ret, ctx2)"
        by (cases "hwc_set_display_active_mode kern d mode ctx1")
      from hwc_set_display_active_mode_facts(1) [OF set own] obtain blob where
        ev2: "events ctx2 = events ctx1 @ [CreatePropBlob mode ret blob]" by blast
      note H = hwc_set_display_active_mode_facts(2-5) [OF set own]
      show ?thesis
      proof (cases "ret = 0")
        case False
        with loop changed True mode set have fin: "ctx' = ctx2" by simp
        have "hotplug_outcome ctx (k # ks) ctx'"
        proof (rule hotplug_outcome_stop [where pre = "[g]" and e = "CreatePropBlob mode ret blob"])
          show "events ctx' = events ctx @ [g] @ [CreatePropBlob mode ret blob]"
            using fin ev2 U(1) by simp
          show "is_failure (CreatePropBlob mode ret blob)" using False by simp
          show "filter is_failure [g] = []" "filter is_hotplug [g] = []" by (simp_all add: g_def)
          show ch: "state_changed ctx ctx' k"
            using changed fin H(3) [of k] by (simp add: state_changed_def cur_def old_def)
          have "is_failure (CreatePropBlob mode ret blob)" using False by simp
          from output_segment_failed [OF ch this]
          show "output_segment ctx ctx' k ([g] @ [CreatePropBlob mode ret blob])"
            by (simp add: g_def)
          show "\<forall>j \<in> set ks. connector_state (connectors (drm ctx') ! j) =
              connector_state (connectors (drm ctx) ! j)"
            using fin H(3) st1 by simp
        qed
        moreover have "connector_state (connectors (drm ctx') ! j) =
            connector_state (connectors (drm ctx) ! j)" if "j \<notin> set (k # ks)" for j
          using fin H(3) other1 [OF that] by simp
        ultimately show ?thesis using fin H(1,2) U(2,3) by simp
      next
        case ok: True
        define ctx3 where "ctx3 = ctx2\<lparr>events := events ctx2 @ [Hotplug d 1]\<rparr>"
        from loop changed True mode set ok
        have rest: "HandleEvent_loop kern ks ctx3 = Some ctx'" by (simp add: ctx3_def)
        have drm3: "drm ctx3 = drm ctx2" by (simp add: ctx3_def)
        from ks1 H(1) drm3 have ks3: "\<forall>j \<in> set ks. j < length (connectors (drm ctx3))" by simp
        note IH = Cons.IH [OF rest dist ks3]
        have "hotplug_outcome ctx (k # ks) ctx'"
        proof (rule hotplug_outcome_continue [where ctxm = ctx3 and
              pre = "[g, CreatePropBlob mode ret blob, Hotplug d 1]"])
          show "hotplug_outcome ctx3 ks ctx'" using IH by simp
          show "events ctx3 = events ctx @ [g, CreatePropBlob mode ret blob, Hotplug d 1]"
            using ev2 U(1) by (simp add: ctx3_def)
          show "filter is_failure [g, CreatePropBlob mode ret blob, Hotplug d 1] = []"
            using ok by (simp add: g_def)
          show "\<forall>j. connector_display (connectors (drm ctx3) ! j) =
              connector_display (connectors (drm ctx) ! j)" using drm3 H(2) U(3) by simp
          show "\<forall>j \<in> set ks. connector_state (connectors (drm ctx3) ! j) =
              connector_state (connectors (drm ctx) ! j)" using drm3 H(3) st1 by simp
          show kst: "connector_state (connectors (drm ctx') ! k) = connector_state (connectors (drm ctx3) ! k)"
            using IH nk by simp
          show "\<forall>j. connector_id (connectors (drm ctx3) ! j) = connector_id (connectors (drm ctx) ! j)"
            using drm3 H(4) U(5) by simp
          have ch: "state_changed ctx ctx' k"
            using kst changed drm3 H(3) [of k] by (simp add: state_changed_def cur_def old_def)
          have n: "notification ctx ctx' k = Hotplug d 1"
            using kst True drm3 H(3) [of k] d_eq
            by (simp add: notification_def hotplug_flag_def cur_def)
          from output_segment_notified [OF ch, of "[CreatePropBlob mode ret blob]"] ok
          show "output_segment ctx ctx' k [g, CreatePropBlob mode ret blob, Hotplug d 1]"
            by (simp add: g_def n)
          show "filter is_hotplug [g, CreatePropBlob mode ret blob, Hotplug d 1] =
            (if connector_state (connectors (drm ctx3) ! k) = connector_state (connectors (drm ctx) ! k)
             then []
             else [Hotplug (connector_display (connectors (drm ctx) ! k))
                     (hotplug_flag (connector_state (connectors (drm ctx3) ! k)))])"
            using changed True drm3 H(3) [of k] d_eq
            by (simp add: g_def cur_def old_def hotplug_flag_def)
        qed
        moreover have "connector_state (connectors (drm ctx') ! j) =
            connector_state (connectors (drm ctx) ! j)" if "j \<notin> set (k # ks)" for j
          using IH drm3 H(3) other1 [OF that] that by simp
        ultimately show ?thesis using IH drm3 H(1,2) U(2,3) by simp
      qed
    next
      case off: False
      obtain ret ev where dpms:
        "SetDpmsMode kern (drm ctx1) d DRM_MODE_DPMS_OFF (events ctx1) = (ret, ev)"
        by (cases "SetDpmsMode kern (drm ctx1) d DRM_MODE_DPMS_OFF (events ctx1)")
      from SetDpmsMode_facts [OF dpms own] obtain obj prp where
        ev: "ev = events ctx1 @ [ConnectorSetProperty obj prp DRM_MODE_DPMS_OFF ret]" by blast
      define sp where "sp = ConnectorSetProperty obj prp DRM_MODE_DPMS_OFF ret"
      show ?thesis
      proof (cases "ret = 0")
        case False
        with loop changed off dpms have fin: "ctx' = ctx1\<lparr>events := ev\<rparr>" by simp
        have "hotplug_outcome ctx (k # ks) ctx'"
        proof (rule hotplug_outcome_stop [where pre = "[g]" and e = sp])
          show "events ctx' = events ctx @ [g] @ [sp]"
            using fin ev U(1) by (simp add: sp_def)
          show "is_failure sp" using False by (simp add: sp_def)
          show "filter is_failure [g] = []" "filter is_hotplug [g] = []" by (simp_all add: g_def)
          show ch: "state_changed ctx ctx' k"
            using changed fin by (simp add: state_changed_def cur_def old_def)
          have "is_failure sp" using False by (simp add: sp_def)
          from output_segment_failed [OF ch this]
          show "output_segment ctx ctx' k ([g] @ [sp])"
            by (simp add: g_def)
          show "\<forall>j \<in> set ks. connector_state (connectors (drm ctx') ! j) =
              connector_state (connectors (drm ctx) ! j)"
            using fin st1 by simp
        qed
        moreover have "connector_state (connectors (drm ctx') ! j) =
            connector_state (connectors (drm ctx) ! j)" if "j \<notin> set (k # ks)" for j
          using fin other1 [OF that] by simp
        ultimately show ?thesis using fin U(2,3) by simp
      next
        case ok: True
        define ctx2 where "ctx2 = (if d = 1 then hwc_release_display d (ctx1\<lparr>events := ev\<rparr>)
                            else ctx1\<lparr>events := ev\<rparr>)"
        define rel where "rel = (if d = 1 then release_slots (hd_bo (displays ctx1 d)) else [])"
        define ctx3 where "ctx3 = ctx2\<lparr>events := events ctx2 @ [Hotplug d 0]\<rparr>"
        from loop changed off dpms ok
        have rest: "HandleEvent_loop kern ks ctx3 = Some ctx'"
          by (simp add: ctx3_def ctx2_def Let_def)
        have drm3: "drm ctx3 = drm ctx1"
          by (simp add: ctx3_def ctx2_def hwc_release_display_facts)
        have ev3: "events ctx3 = events ctx @ ([g, sp] @ rel @ [Hotplug d 0])"
          using ev U(1) by (simp add: ctx3_def ctx2_def rel_def sp_def hwc_release_display_facts)
        have quiet: "filter is_failure rel = []" "filter is_hotplug rel = []"
          by (simp_all add: rel_def release_slots_quiet)
        from ks1 drm3 have ks3: "\<forall>j \<in> set ks. j < length (connectors (drm ctx3))" by simp
        note IH = Cons.IH [OF rest dist ks3]
        have "hotplug_outcome ctx (k # ks) ctx'"
        proof (rule hotplug_outcome_continue [where ctxm = ctx3 and
              pre = "[g, sp] @ rel @ [Hotplug d 0]"])
          show "hotplug_outcome ctx3 ks ctx'" using IH by simp
          show "events ctx3 = events ctx @ ([g, sp] @ rel @ [Hotplug d 0])" by (rule ev3)
          show "filter is_failure ([g, sp] @ rel @ [Hotplug d 0]) = []"
            using ok quiet by (simp add: g_def sp_def)
          show "\<forall>j. connector_display (connectors (drm ctx3) ! j) =
              connector_display (connectors (drm ctx) ! j)" using drm3 U(3) by simp
          show "\<forall>j \<in> set ks. connector_state (connectors (drm ctx3) ! j) =
              connector_state (connectors (drm ctx) ! j)" using drm3 st1 by simp
          show kst: "connector_state (connectors (drm ctx') ! k) = connector_state (connectors (drm ctx3) ! k)"
            using IH nk by simp
          show "\<forall>j. connector_id (connectors (drm ctx3) ! j) = connector_id (connectors (drm ctx) ! j)"
            using drm3 U(5) by simp
          have ch: "state_changed ctx ctx' k"
            using kst changed drm3 by (simp add: state_changed_def cur_def old_def)
          have n: "notification ctx ctx' k = Hotplug d 0"
            using kst off drm3 d_eq
            by (simp add: notification_def hotplug_flag_def cur_def)
          from output_segment_notified [OF ch, of "sp # rel"] ok quiet
          show "output_segment ctx ctx' k ([g, sp] @ rel @ [Hotplug d 0])"
            by (simp add: g_def sp_def n)
          show "filter is_hotplug ([g, sp] @ rel @ [Hotplug d 0]) =
            (if connector_state (connectors (drm ctx3) ! k) = connector_state (connectors (drm ctx) ! k)
             then []
             else [Hotplug (connector_display (connectors (drm ctx) ! k))
                     (hotplug_flag (connector_state (connectors (drm ctx3) ! k)))])"
            using changed off drm3 d_eq quiet
            by (simp add: g_def sp_def cur_def old_def hotplug_flag_def)
        qed
        moreover have "connector_state (connectors (drm ctx') ! j) =
            connector_state (connectors (drm ctx) ! j)" if "j \<notin> set (k # ks)" for j
          using IH drm3 other1 [OF that] that by simp
        ultimately show ?thesis using IH drm3 U(2,3) by simp
      qed
    qed
  qed
qed


lemma UpdateModes_changed:
  assumes "k < length (connectors (drm ctx))"
    and "connector_state (connectors (drm (UpdateModes kern k ctx)) ! k) \<noteq>
         connector_state (connectors (drm ctx) ! k)"
  shows "k_get_connector kern (events ctx) (connector_id (connectors (drm ctx) ! k)) =
     Some (connector_state (connectors (drm (UpdateModes kern k ctx)) ! k),
           connector_modes (connectors (drm (UpdateModes kern k ctx)) ! k))"
  using assms by (auto simp: UpdateModes_def Let_def split: option.splits)

lemma choose_mode_defined: "ms \<noteq> [] \<Longrightarrow> choose_mode ms \<noteq> None"
  by (cases ms) (auto simp: choose_mode_def split: option.splits)

lemma HandleEvent_loop_defined:
  assumes "\<forall>ev cid. k_get_connector kern ev cid \<noteq> Some (DRM_MODE_CONNECTED, [])"
    and "\<forall>k \<in> set ks. k < length (connectors (drm ctx))"
  shows "HandleEvent_loop kern ks ctx \<noteq> None"
  using assms(2)
proof (induction ks arbitrary: ctx)
  case Nil
  show ?case by simp
next
  case (Cons k ks)
  define ctx1 where "ctx1 = UpdateModes kern k ctx"
  define old where "old = connector_state (connectors (drm ctx) ! k)"
  define cur where "cur = connector_state (connectors (drm ctx1) ! k)"
  define d where "d = connector_display (connectors (drm ctx1) ! k)"
  from Cons.prems have k: "k < length (connectors (drm ctx))"
    and ks: "\<forall>j \<in> set ks. j < length (connectors (drm ctx))" by simp_all
  note U = UpdateModes_facts [OF k, where kern = kern, folded ctx1_def]
  from k U(2) have k1: "k < length (connectors (drm ctx1))" by simp
  from ks U(2) have ks1: "\<forall>j \<in> set ks. j < length (connectors (drm ctx1))" by simp
  have own: "GetConnectorForDisplay (drm ctx1) d \<noteq> None"
    unfolding d_def by (rule GetConnectorForDisplay_own [OF k1])
  note unfold = HandleEvent_loop.simps(2) [of kern k ks ctx, unfolded Let_def,
      folded ctx1_def, folded old_def cur_def d_def]
  show ?case
  proof (cases "cur = old")
    case True
    with Cons.IH [OF ks1] unfold show ?thesis by simp
  next
    case changed: False
    show ?thesis
    proof (cases "cur = DRM_MODE_CONNECTED")
      case True
      from UpdateModes_changed [OF k, of kern] changed
      have "k_get_connector kern (events ctx) (connector_id (connectors (drm ctx) ! k)) =
          Some (cur, connector_modes (connectors (drm ctx1) ! k))"
        by (simp add: ctx1_def cur_def old_def)
      with assms(1) True have "connector_modes (connectors (drm ctx1) ! k) \<noteq> []"
        by metis
      then obtain mode where
        mode: "choose_mode (connector_modes (connectors (drm ctx1) ! k)) = Some mode"
        using choose_mode_defined by blast
      obtain ret ctx2 where set: "hwc_set_display_active_mode kern d mode ctx1 = (ret, ctx2)"
        by (cases "hwc_set_display_active_mode kern d mode ctx1")
      note H = hwc_set_display_active_mode_facts(2) [OF set own]
      from ks1 H have "\<forall>j \<in> set ks.
          j < length (connectors (drm (ctx2\<lparr>events := events ctx2 @ [Hotplug d 1]\<rparr>)))"
        by simp
      from Cons.IH [OF this] unfold changed True mode set show ?thesis by simp
    next
      case off: False
      obtain ret ev where dpms:
        "SetDpmsMode kern (drm ctx1) d DRM_MODE_DPMS_OFF (events ctx1) = (ret, ev)"
        by (cases "SetDpmsMode kern (drm ctx1) d DRM_MODE_DPMS_OFF (events ctx1)")
      define ctx2 where "ctx2 = (if d = 1 then hwc_release_display d (ctx1\<lparr>events := ev\<rparr>)
                            else ctx1\<lparr>events := ev\<rparr>)"
      have "drm ctx2 = drm ctx1" by (simp add: ctx2_def hwc_release_display_facts)
      with ks1 have "\<forall>j \<in> set ks.
          j < length (connectors (drm (ctx2\<lparr>events := events ctx2 @ [Hotplug d 0]\<rparr>)))"
        by simp
      from Cons.IH [OF this] unfold changed off dpms show ?thesis
        by (simp add: Let_def ctx2_def)
    qed
  qed
qed

text \<open>
  C3, as the code has it. A hotplug event is handled connector by connector, in listing
  order. The compositor callback is invoked exactly for the Outputs whose connection
  state changed and whose internal re-configuration (blob creation for the mode on
  connect, power-off on disconnect) succeeded, once each and in listing order, with the
  Output's display index and its new connected state. At the first re-configuration
  call that fails the handler returns: that call is the last thing it does, the Output
  it was made for is the last one whose state changed, and neither that Output nor any
  later one is notified. The handler runs to its end for every kernel that never
  reports a connected Output with an empty mode list.
\<close>

theorem HandleEvent_notifies_when_reconfigured:
  "(HandleEvent kern ctx = Some ctx' \<longrightarrow>
      hotplug_outcome ctx [0..<length (connectors (drm ctx))] ctx') \<and>
   ((\<forall>ev cid. k_get_connector kern ev cid \<noteq> Some (DRM_MODE_CONNECTED, [])) \<longrightarrow>
      HandleEvent kern ctx \<noteq> None)"
proof -
  have "hotplug_outcome ctx [0..<length (connectors (drm ctx))] ctx'"
    if "HandleEvent kern ctx = Some ctx'"
    using HandleEvent_loop_outcome [of kern "[0..<length (connectors (drm ctx))]" ctx ctx'] that
    by (simp add: HandleEvent_def)
  moreover have "HandleEvent kern ctx \<noteq> None"
    if "\<forall>ev cid. k_get_connector kern ev cid \<noteq> Some (DRM_MODE_CONNECTED, [])"
    unfolding HandleEvent_def using that by (intro HandleEvent_loop_defined) simp_all
  ultimately show ?thesis by blast
qed

theorem HandleEvent_notifies_when_reconfigured_witness:
  "(\<forall>ev cid. k_get_connector plug_kernel ev cid \<noteq> Some (DRM_MODE_CONNECTED, [])) \<and>
   HandleEvent plug_kernel example_context =
     Some (the (HandleEvent plug_kernel example_context)) \<and>
   events (the (HandleEvent plug_kernel example_context)) =
     [GetConnector 11, CreatePropBlob example_mode 0 1, Hotplug 0 1] \<and>
   hotplug_outcome example_context [0..<length (connectors (drm example_context))]
     (the (HandleEvent plug_kernel example_context)) \<and>
   HandleEvent no_blob_kernel example_context =
     Some (the (HandleEvent no_blob_kernel example_context)) \<and>
   events (the (HandleEvent no_blob_kernel example_context)) =
     [GetConnector 11, CreatePropBlob example_mode (- 12) 0] \<and>
   hotplug_outcome example_context [0..<length (connectors (drm example_context))]
     (the (HandleEvent no_blob_kernel example_context)) \<and>
   HandleEvent unplug_kernel two_output_context =
     Some (the (HandleEvent unplug_kernel two_output_context)) \<and>
   events (the (HandleEvent unplug_kernel two_output_context)) =
     [GetConnector 30, ConnectorSetProperty 30 51 DRM_MODE_DPMS_OFF 0, Hotplug 0 0,
      GetConnector 31, ConnectorSetProperty 31 51 DRM_MODE_DPMS_OFF (- 22)] \<and>
   changed_outputs two_output_context [0..<length (connectors (drm two_output_context))]
     (the (HandleEvent unplug_kernel two_output_context)) = [0, 1] \<and>
   hotplug_outcome two_output_context [0..<length (connectors (drm two_output_context))]
     (the (HandleEvent unplug_kernel two_output_context))"
proof -
  have total: "\<forall>ev cid. k_get_connector plug_kernel ev cid \<noteq> Some (DRM_MODE_CONNECTED, [])"
    by (simp add: plug_kernel_def)
  from HandleEvent_notifies_when_reconfigured [of plug_kernel example_context] total
  have "HandleEvent plug_kernel example_context \<noteq> None" by blast
  then have run: "HandleEvent plug_kernel example_context =
      Some (the (HandleEvent plug_kernel example_context))"
    by simp
  have ev: "events (the (HandleEvent plug_kernel example_context)) =
      [GetConnector 11, CreatePropBlob example_mode 0 1, Hotplug 0 1]" by code_simp
  have "\<not> Option.is_none (HandleEvent no_blob_kernel example_context)" by code_simp
  then have run2: "HandleEvent no_blob_kernel example_context =
      Some (the (HandleEvent no_blob_kernel example_context))"
    by (simp add: Option.is_none_def)
  have ev2: "events (the (HandleEvent no_blob_kernel example_context)) =
      [GetConnector 11, CreatePropBlob example_mode (- 12) 0]" by code_simp
  have "\<not> Option.is_none (HandleEvent unplug_kernel two_output_context)" by code_simp
  then have run3: "HandleEvent unplug_kernel two_output_context =
      Some (the (HandleEvent unplug_kernel two_output_context))"
    by (simp add: Option.is_none_def)
  have ev3: "events (the (HandleEvent unplug_kernel two_output_context)) =
     [GetConnector 30, ConnectorSetProperty 30 51 DRM_MODE_DPMS_OFF 0, Hotplug 0 0,
      GetConnector 31, ConnectorSetProperty 31 51 DRM_MODE_DPMS_OFF (- 22)]" by code_simp
  have ch3: "changed_outputs two_output_context
      [0..<length (connectors (drm two_output_context))]
      (the (HandleEvent unplug_kernel two_output_context)) = [0, 1]" by code_simp
  from HandleEvent_notifies_when_reconfigured
      [of plug_kernel example_context "the (HandleEvent plug_kernel example_context)"] run
  have o1: "hotplug_outcome example_context [0..<length (connectors (drm example_context))]
     (the (HandleEvent plug_kernel example_context))" by blast
  from HandleEvent_notifies_when_reconfigured
      [of no_blob_kernel example_context "the (HandleEvent no_blob_kernel example_context)"] run2
  have o2: "hotplug_outcome example_context [0..<length (connectors (drm example_context))]
     (the (HandleEvent no_blob_kernel example_context))" by blast
  from HandleEvent_notifies_when_reconfigured
      [of unplug_kernel two_output_context "the (HandleEvent unplug_kernel two_output_context)"]
    run3
  have o3: "hotplug_outcome two_output_context
      [0..<length (connectors (drm two_output_context))]
      (the (HandleEvent unplug_kernel two_output_context))" by blast
  from total run ev o1 run2 ev2 o2 run3 ev3 ch3 o3 show ?thesis by blast
qed

text \<open>
  The claim as stated fails: when the kernel reports the connector connected and refuses
  to create the mode blob, the state has changed and no callback is made.
\<close>

theorem hotplug_failure_skips_callback_counterexample:
  "\<not> (\<forall>kern ctx ctx'. HandleEvent kern ctx = Some ctx' \<longrightarrow>
        (\<forall>k < length (connectors (drm ctx)). state_changed ctx ctx' k \<longrightarrow>
           Hotplug (connector_display (connectors (drm ctx) ! k))
             (hotplug_flag (connector_state (connectors (drm ctx') ! k))) \<in> set (events ctx')))"
proof
  assume claim: "\<forall>kern ctx ctx'. HandleEvent kern ctx = Some ctx' \<longrightarrow>
        (\<forall>k < length (connectors (drm ctx)). state_changed ctx ctx' k \<longrightarrow>
           Hotplug (connector_display (connectors (drm ctx) ! k))
             (hotplug_flag (connector_state (connectors (drm ctx') ! k))) \<in> set (events ctx'))"
  let ?ctx' = "the (HandleEvent no_blob_kernel example_context)"
  have "\<not> Option.is_none (HandleEvent no_blob_kernel example_context)" by code_simp
  then have run: "HandleEvent no_blob_kernel example_context = Some ?ctx'"
    by (simp add: Option.is_none_def)
  have ev: "events ?ctx' = [GetConnector 11, CreatePropBlob example_mode (- 12) 0]" by code_simp
  have len: "(0::nat) < length (connectors (drm example_context))" by code_simp
  have st: "connector_state (connectors (drm ?ctx') ! 0) = DRM_MODE_CONNECTED"
    "connector_state (connectors (drm example_context) ! 0) = DRM_MODE_DISCONNECTED"
    by code_simp+
  from st have "state_changed example_context ?ctx' 0" by (simp add: state_changed_def)
  with claim run len have "Hotplug (connector_display (connectors (drm example_context) ! 0))
             (hotplug_flag (connector_state (connectors (drm ?ctx') ! 0))) \<in> set (events ?ctx')"
    by blast
  then show False by (simp add: ev)
qed

section \<open>Transaction objects on the error paths\<close>

text \<open>
  C6. The claim is that every path of SetDisplayActiveMode, Render and render_fb that
  allocates a transaction object frees it before returning. The code does so on the
  commit paths and where the first two properties fail to add, and misses it elsewhere.
  With a modeset pending and the kernel refusing the plane's controller-attach
  property, Render and render_fb return the error after an allocation and no free; when
  blob creation fails, SetDisplayActiveMode returns after an allocation and no free.
\<close>

theorem transaction_leaked_on_error_paths:
  "fst (Render plane_refusing_kernel 0 example_frame 7 pending_context) = - 22 \<and>
   events (snd (Render plane_refusing_kernel 0 example_frame 7 pending_context)) =
     [ImportBuffer 7 0, AtomicAlloc True, AtomicAddProperty 31 40 5 1,
      AtomicAddProperty 11 50 31 1, AtomicAddProperty 61 70 31 (- 22)] \<and>
   fst (render_fb plane_refusing_kernel 0 example_layer pending_context) = - 22 \<and>
   events (snd (snd (render_fb plane_refusing_kernel 0 example_layer pending_context))) =
     [ImportBuffer 7 0, AtomicAlloc True, AtomicAddProperty 31 40 5 1,
      AtomicAddProperty 11 50 31 1, AtomicAddProperty 61 70 31 (- 22)] \<and>
   SetDisplayActiveMode blobless_kernel 0 example_mode example_resources [] =
     (- 12, example_resources, [AtomicAlloc True, CreatePropBlob example_mode (- 12) 0]) \<and>
   filter is_free
     (events (snd (Render plane_refusing_kernel 0 example_frame 7 pending_context))) = []"
  by code_simp

section \<open>Mode blobs that are never destroyed\<close>

text \<open>
  C2. The claim is that every mode blob created for a mode change is destroyed exactly
  once. DrmResources::SetDisplayActiveMode creates blob 1, commits it and returns
  without destroying it or keeping its id (the source marks the spot with a TODO). In
  the composer, two mode changes for display 0 followed by a frame create blobs 1 and
  2; the frame commits blob 2 and destroys nothing, and afterwards both blob ids of the
  display are 2: blob 1 is alive and no longer known to the code.
\<close>

theorem mode_blob_leaked:
  "SetDisplayActiveMode ok_kernel 0 example_mode example_resources [] =
     (0, set_active_mode 0 example_mode example_resources,
      [AtomicAlloc True, CreatePropBlob example_mode 0 1, AtomicAddProperty 31 40 1 1,
       AtomicAddProperty 11 50 31 1,
       AtomicCommit [(31, 40, 1), (11, 50, 31)] DRM_MODE_ATOMIC_ALLOW_MODESET 0, AtomicFree]) \<and>
   events twice_set_then_frame =
     [CreatePropBlob example_mode 0 1, CreatePropBlob example_mode 0 2, ImportBuffer 7 0,
      AtomicAlloc True,
      AtomicAddProperty 31 40 2 1, AtomicAddProperty 11 50 31 1, AtomicAddProperty 61 70 31 1,
      AtomicAddProperty 61 72 0 1, AtomicAddProperty 61 73 0 1, AtomicAddProperty 61 74 1024 1,
      AtomicAddProperty 61 75 600 1, AtomicAddProperty 61 76 0 1, AtomicAddProperty 61 77 0 1,
      AtomicAddProperty 61 78 1024 1, AtomicAddProperty 61 79 600 1,
      AtomicAddProperty 61 71 107 1,
      AtomicCommit
        (modeset_transaction (crtcs example_resources ! 0) (connectors example_resources ! 0)
           (planes example_resources ! 0) 2 example_frame 107)
        DRM_MODE_ATOMIC_ALLOW_MODESET 0,
      AtomicFree, ConnectorSetProperty 11 51 DRM_MODE_DPMS_ON 0] \<and>
   filter is_destroy (events twice_set_then_frame) = [] \<and>
   blob_id (displays twice_set_then_frame 0) = 2 \<and>
   old_blob_id (displays twice_set_then_frame 0) = 2 \<and>
   \<not> needs_modeset (displays twice_set_then_frame 0)"
  by code_simp

end
